theory Spec2Isabelle
  imports Complex_Main
begin

section \<open>Data model (shared/schema.ts)\<close>

text \<open>
  Every table of \<^verbatim>\<open>shared/schema.ts\<close> is a list of rows, in insertion order. Queries
  are the relational operations the query builder issues: \<^verbatim>\<open>select ... where\<close> is
  \<open>filter\<close>, \<^verbatim>\<open>update ... set ... where\<close> rewrites the matching rows in place,
  \<^verbatim>\<open>delete ... where\<close> keeps the rows that do not match, \<^verbatim>\<open>insert\<close> appends rows whose
  \<^verbatim>\<open>serial\<close> key is drawn from the table's sequence.

  Columns of type \<^verbatim>\<open>decimal\<close> are strings on the TypeScript side and are kept as strings.
  The column \<^verbatim>\<open>createdAt\<close> (filled by the store, read only by \<^verbatim>\<open>orderBy\<close>) is left out.
  Nullable columns are options. Of the table of users only the ids are kept. The storage
  functions say what the statements of a call write; which statements the store refuses
  (references between tables, decimal texts, the 32-bit range of integers) comes after
  them, and the routes put the two together.
\<close>

type_synonym decimal = string

datatype date = Date string

record client =
  client_id :: int
  client_name :: string
  client_email :: "string option"
  client_phone :: "string option"
  client_address :: "string option"
  client_company :: "string option"
  client_userId :: string

record category =
  category_id :: int
  category_name :: string
  category_description :: "string option"
  category_userId :: string

record product =
  product_id :: int
  product_name :: string
  product_description :: "string option"
  product_priceHT :: decimal
  product_stock :: "int option"
  product_categoryId :: "int option"
  product_userId :: string

record invoice =
  invoice_id :: int
  invoice_number :: string
  invoice_clientId :: int
  invoice_status :: string
  invoice_totalHT :: decimal
  invoice_tvaRate :: decimal
  invoice_totalTVA :: decimal
  invoice_totalTTC :: decimal
  invoice_dueDate :: "date option"
  invoice_notes :: "string option"
  invoice_userId :: string

text \<open>
  \<^verbatim>\<open>Omit<InsertInvoiceItem, 'invoiceId'>\<close>, \<^verbatim>\<open>InsertInvoiceItem\<close> and the row type
  \<^verbatim>\<open>InvoiceItem\<close> differ by one field each, so they are one record and two extensions.
\<close>

record itemData =
  productId :: "int option"
  productName :: string
  quantity :: int
  priceHT :: decimal
  totalHT :: decimal

record insertInvoiceItem = itemData +
  invoiceId :: int

record invoiceItem = insertInvoiceItem +
  item_id :: int

record insertSale =
  sale_invoiceId :: int
  sale_productId :: int
  sale_quantity :: int
  sale_unitPrice :: decimal
  sale_total :: decimal
  sale_userId :: string

record sale = insertSale +
  sale_id :: int

text \<open>
  The insert type of an invoice: \<^verbatim>\<open>status\<close> has a column default, so it is optional.
  The route that creates an invoice reads every field but \<^verbatim>\<open>userId\<close> from the request,
  so the type is a record of those fields and its extension by \<^verbatim>\<open>userId\<close>.
\<close>

record invoiceFields =
  new_number :: string
  new_clientId :: int
  new_status :: "string option"
  new_totalHT :: decimal
  new_tvaRate :: decimal
  new_totalTVA :: decimal
  new_totalTTC :: decimal
  new_dueDate :: "date option"
  new_notes :: "string option"

record insertInvoice = invoiceFields +
  new_userId :: string

text \<open>
  \<^verbatim>\<open>Partial<InsertInvoice>\<close>: every field may be absent (\<open>None\<close>); a nullable column may
  be absent, \<^verbatim>\<open>null\<close> (\<open>Some None\<close>) or a value.
\<close>

record invoicePatch =
  set_number :: "string option"
  set_clientId :: "int option"
  set_status :: "string option"
  set_totalHT :: "decimal option"
  set_tvaRate :: "decimal option"
  set_totalTVA :: "decimal option"
  set_totalTTC :: "decimal option"
  set_dueDate :: "date option option"
  set_notes :: "string option option"
  set_userId :: "string option"

record db =
  users :: "string list"
  clients :: "client list"
  categories :: "category list"
  products :: "product list"
  invoices :: "invoice list"
  invoiceItems :: "invoiceItem list"
  sales :: "sale list"
  clients_seq :: int
  categories_seq :: int
  products_seq :: int
  invoices_seq :: int
  invoiceItems_seq :: int
  sales_seq :: int

datatype error = ZodError | NoValuesToSet | StoreError


section \<open>Storage operations on invoices (server/storage.ts)\<close>

text \<open>\<^verbatim>\<open>const [row] = await query\<close>: the first row, or \<^verbatim>\<open>undefined\<close>.\<close>

fun firstRow :: "'a list \<Rightarrow> 'a option" where
  "firstRow [] = None"
| "firstRow (r # _) = Some r"

definition getInvoice :: "int \<Rightarrow> string \<Rightarrow> db \<Rightarrow> invoice option" where
  "getInvoice ident userId s =
     firstRow (filter (\<lambda>r. invoice_id r = ident \<and> invoice_userId r = userId) (invoices s))"

text \<open>
  \<^verbatim>\<open>getInvoiceWithItems\<close>: the invoice is looked up by id and tenant, its items by
  invoice id. The joined client is left out of the result.
\<close>

definition getInvoiceWithItems :: "int \<Rightarrow> string \<Rightarrow> db \<Rightarrow> (invoice \<times> invoiceItem list) option" where
  "getInvoiceWithItems ident userId s =
     (case getInvoice ident userId s of
        None \<Rightarrow> None
      | Some found \<Rightarrow> Some (found, filter (\<lambda>it. invoiceId it = ident) (invoiceItems s)))"

definition getSales :: "string \<Rightarrow> db \<Rightarrow> sale list" where
  "getSales userId s = filter (\<lambda>r. sale_userId r = userId) (sales s)"

text \<open>
  \<^verbatim>\<open>items.filter(item => item.productId)\<close> keeps the items whose product id is truthy:
  neither \<^verbatim>\<open>null\<close> nor \<^verbatim>\<open>0\<close>.
\<close>

definition hasProduct :: "'a itemData_scheme \<Rightarrow> bool" where
  "hasProduct item = (case productId item of None \<Rightarrow> False | Some p \<Rightarrow> p \<noteq> 0)"

text \<open>
  \<^verbatim>\<open>GREATEST(0, stock - quantity)\<close>: the store's \<^verbatim>\<open>GREATEST\<close> ignores a null argument, so
  a null stock becomes 0.
\<close>

definition greatest0 :: "int option \<Rightarrow> int \<Rightarrow> int" where
  "greatest0 stock q = (case stock of None \<Rightarrow> 0 | Some n \<Rightarrow> max 0 (n - q))"

text \<open>The single \<^verbatim>\<open>update products set stock = ... where id = ? and user_id = ?\<close>.\<close>

definition decrementStock :: "int \<Rightarrow> int \<Rightarrow> string \<Rightarrow> product list \<Rightarrow> product list" where
  "decrementStock pid q userId ps =
     map (\<lambda>p. if product_id p = pid \<and> product_userId p = userId
              then p\<lparr>product_stock := Some (greatest0 (product_stock p) q)\<rparr> else p) ps"

text \<open>
  The loop \<^verbatim>\<open>for (const item of items.filter(item => item.productId))\<close>, which both
  \<^verbatim>\<open>updateStockAfterInvoiceCreation\<close> and \<^verbatim>\<open>createSalesFromInvoice\<close> run.
\<close>

definition stockStep :: "string \<Rightarrow> 'a itemData_scheme \<Rightarrow> product list \<Rightarrow> product list" where
  "stockStep userId item ps =
     (case productId item of None \<Rightarrow> ps | Some pid \<Rightarrow> decrementStock pid (quantity item) userId ps)"

definition stockLoop :: "'a itemData_scheme list \<Rightarrow> string \<Rightarrow> product list \<Rightarrow> product list" where
  "stockLoop items userId ps = fold (stockStep userId) (filter hasProduct items) ps"

definition updateStockAfterInvoiceCreation :: "insertInvoiceItem list \<Rightarrow> string \<Rightarrow> db \<Rightarrow> db" where
  "updateStockAfterInvoiceCreation items userId s =
     s\<lparr>products := stockLoop items userId (products s)\<rparr>"

text \<open>Rows get consecutive keys from the sequence, in the order of the inserted values.\<close>

fun insertItems :: "insertInvoiceItem list \<Rightarrow> int \<Rightarrow> invoiceItem list" where
  "insertItems [] n = []"
| "insertItems (v # vs) n =
     \<lparr>productId = productId v, productName = productName v, quantity = quantity v,
      priceHT = priceHT v, totalHT = totalHT v, invoiceId = invoiceId v, item_id = n\<rparr>
     # insertItems vs (n + 1)"

fun insertSales :: "insertSale list \<Rightarrow> int \<Rightarrow> sale list" where
  "insertSales [] n = []"
| "insertSales (v # vs) n =
     \<lparr>sale_invoiceId = sale_invoiceId v, sale_productId = sale_productId v,
      sale_quantity = sale_quantity v, sale_unitPrice = sale_unitPrice v,
      sale_total = sale_total v, sale_userId = sale_userId v, sale_id = n\<rparr>
     # insertSales vs (n + 1)"

text \<open>
  One row of \<^verbatim>\<open>salesData\<close>. It is built only from items that passed the filter, which
  have a product id (\<^verbatim>\<open>item.productId!\<close>).
\<close>

definition saleOfItem :: "int \<Rightarrow> string \<Rightarrow> invoiceItem \<Rightarrow> insertSale" where
  "saleOfItem ident userId item =
     \<lparr>sale_invoiceId = ident,
      sale_productId = (case productId item of Some p \<Rightarrow> p | None \<Rightarrow> 0),
      sale_quantity = quantity item,
      sale_unitPrice = priceHT item,
      sale_total = totalHT item,
      sale_userId = userId\<rparr>"

definition createSalesFromInvoice :: "int \<Rightarrow> string \<Rightarrow> db \<Rightarrow> db" where
  "createSalesFromInvoice ident userId s =
     (let items = filter (\<lambda>it. invoiceId it = ident) (invoiceItems s);
          salesData = map (saleOfItem ident userId) (filter hasProduct items)
      in if length salesData > 0
         then s\<lparr>sales := sales s @ insertSales salesData (sales_seq s),
                sales_seq := sales_seq s + int (length salesData),
                products := stockLoop items userId (products s)\<rparr>
         else s)"

definition insertInvoiceRow :: "insertInvoice \<Rightarrow> int \<Rightarrow> invoice" where
  "insertInvoiceRow v n =
     \<lparr>invoice_id = n,
      invoice_number = new_number v,
      invoice_clientId = new_clientId v,
      invoice_status = (case new_status v of None \<Rightarrow> ''en_attente'' | Some st \<Rightarrow> st),
      invoice_totalHT = new_totalHT v,
      invoice_tvaRate = new_tvaRate v,
      invoice_totalTVA = new_totalTVA v,
      invoice_totalTTC = new_totalTTC v,
      invoice_dueDate = new_dueDate v,
      invoice_notes = new_notes v,
      invoice_userId = new_userId v\<rparr>"

definition createInvoice :: "insertInvoice \<Rightarrow> itemData list \<Rightarrow> db \<Rightarrow> invoice \<times> db" where
  "createInvoice newInv items s =
     (let newInvoice = insertInvoiceRow newInv (invoices_seq s);
          s1 = s\<lparr>invoices := invoices s @ [newInvoice], invoices_seq := invoices_seq s + 1\<rparr>
      in if length items > 0
         then
           let itemsWithInvoiceId =
                 map (\<lambda>item. \<lparr>productId = productId item, productName = productName item,
                               quantity = quantity item, priceHT = priceHT item,
                               totalHT = totalHT item, invoiceId = invoice_id newInvoice\<rparr>) items;
               s2 = s1\<lparr>invoiceItems := invoiceItems s1 @ insertItems itemsWithInvoiceId (invoiceItems_seq s1),
                      invoiceItems_seq := invoiceItems_seq s1 + int (length itemsWithInvoiceId)\<rparr>
           in (newInvoice, updateStockAfterInvoiceCreation itemsWithInvoiceId (new_userId newInv) s2)
         else (newInvoice, s1))"

text \<open>\<^verbatim>\<open>.set(patch)\<close> writes the fields that are present and refuses a patch with none.\<close>

definition applyInvoicePatch :: "invoicePatch \<Rightarrow> invoice \<Rightarrow> invoice" where
  "applyInvoicePatch p r =
     \<lparr>invoice_id = invoice_id r,
      invoice_number = (case set_number p of None \<Rightarrow> invoice_number r | Some v \<Rightarrow> v),
      invoice_clientId = (case set_clientId p of None \<Rightarrow> invoice_clientId r | Some v \<Rightarrow> v),
      invoice_status = (case set_status p of None \<Rightarrow> invoice_status r | Some v \<Rightarrow> v),
      invoice_totalHT = (case set_totalHT p of None \<Rightarrow> invoice_totalHT r | Some v \<Rightarrow> v),
      invoice_tvaRate = (case set_tvaRate p of None \<Rightarrow> invoice_tvaRate r | Some v \<Rightarrow> v),
      invoice_totalTVA = (case set_totalTVA p of None \<Rightarrow> invoice_totalTVA r | Some v \<Rightarrow> v),
      invoice_totalTTC = (case set_totalTTC p of None \<Rightarrow> invoice_totalTTC r | Some v \<Rightarrow> v),
      invoice_dueDate = (case set_dueDate p of None \<Rightarrow> invoice_dueDate r | Some v \<Rightarrow> v),
      invoice_notes = (case set_notes p of None \<Rightarrow> invoice_notes r | Some v \<Rightarrow> v),
      invoice_userId = (case set_userId p of None \<Rightarrow> invoice_userId r | Some v \<Rightarrow> v)\<rparr>"

definition invoicePatchEmpty :: "invoicePatch \<Rightarrow> bool" where
  "invoicePatchEmpty p =
     (set_number p = None \<and> set_clientId p = None \<and> set_status p = None \<and>
      set_totalHT p = None \<and> set_tvaRate p = None \<and> set_totalTVA p = None \<and>
      set_totalTTC p = None \<and> set_dueDate p = None \<and> set_notes p = None \<and>
      set_userId p = None)"

definition isPaid :: "string \<Rightarrow> bool" where
  "isPaid st = (st = ''payee'' \<or> st = ''paid'')"

text \<open>
  The guard of \<^verbatim>\<open>updateInvoice\<close>: the patch asks for a paid status and the invoice read
  before the update is not paid; \<^verbatim>\<open>currentInvoice?.status\<close> of a missing invoice is
  \<^verbatim>\<open>undefined\<close>, which differs from both paid strings.
\<close>

definition settles :: "invoicePatch \<Rightarrow> invoice option \<Rightarrow> bool" where
  "settles p currentInvoice =
     ((set_status p = Some ''payee'' \<or> set_status p = Some ''paid'') \<and>
      (case currentInvoice of None \<Rightarrow> True | Some c \<Rightarrow> invoice_status c \<noteq> ''payee'') \<and>
      (case currentInvoice of None \<Rightarrow> True | Some c \<Rightarrow> invoice_status c \<noteq> ''paid''))"

definition updateInvoice ::
  "int \<Rightarrow> invoicePatch \<Rightarrow> string \<Rightarrow> db \<Rightarrow> error + (invoice option \<times> db)" where
  "updateInvoice ident p userId s =
     (let currentInvoice = getInvoice ident userId s
      in if invoicePatchEmpty p then Inl NoValuesToSet
         else
           let hit = (\<lambda>r. invoice_id r = ident \<and> invoice_userId r = userId);
               updatedInvoice = firstRow (map (applyInvoicePatch p) (filter hit (invoices s)));
               s1 = s\<lparr>invoices := map (\<lambda>r. if hit r then applyInvoicePatch p r else r) (invoices s)\<rparr>
           in if settles p currentInvoice
              then Inr (updatedInvoice, createSalesFromInvoice ident userId s1)
              else Inr (updatedInvoice, s1))"

text \<open>The three deletes of \<^verbatim>\<open>deleteInvoice\<close>, in the order the source issues them.\<close>

definition deleteSalesOf :: "int \<Rightarrow> db \<Rightarrow> db" where
  "deleteSalesOf ident s = s\<lparr>sales := filter (\<lambda>r. sale_invoiceId r \<noteq> ident) (sales s)\<rparr>"

definition deleteItemsOf :: "int \<Rightarrow> db \<Rightarrow> db" where
  "deleteItemsOf ident s = s\<lparr>invoiceItems := filter (\<lambda>r. invoiceId r \<noteq> ident) (invoiceItems s)\<rparr>"

definition deleteInvoiceRow :: "int \<Rightarrow> string \<Rightarrow> db \<Rightarrow> db" where
  "deleteInvoiceRow ident userId s =
     s\<lparr>invoices := filter (\<lambda>r. \<not> (invoice_id r = ident \<and> invoice_userId r = userId)) (invoices s)\<rparr>"

definition deleteInvoice :: "int \<Rightarrow> string \<Rightarrow> db \<Rightarrow> db" where
  "deleteInvoice ident userId s = deleteInvoiceRow ident userId (deleteItemsOf ident (deleteSalesOf ident s))"


section \<open>Storage operations on clients, products and categories (server/storage.ts)\<close>

record clientPatch =
  setc_name :: "string option"
  setc_email :: "string option option"
  setc_phone :: "string option option"
  setc_address :: "string option option"
  setc_company :: "string option option"
  setc_userId :: "string option"

record categoryPatch =
  setg_name :: "string option"
  setg_description :: "string option option"
  setg_userId :: "string option"

record productPatch =
  setp_name :: "string option"
  setp_description :: "string option option"
  setp_priceHT :: "decimal option"
  setp_stock :: "int option option"
  setp_categoryId :: "int option option"
  setp_userId :: "string option"

definition getClient :: "int \<Rightarrow> string \<Rightarrow> db \<Rightarrow> client option" where
  "getClient ident userId s =
     firstRow (filter (\<lambda>r. client_id r = ident \<and> client_userId r = userId) (clients s))"

definition getProduct :: "int \<Rightarrow> string \<Rightarrow> db \<Rightarrow> product option" where
  "getProduct ident userId s =
     firstRow (filter (\<lambda>r. product_id r = ident \<and> product_userId r = userId) (products s))"

definition getCategory :: "int \<Rightarrow> string \<Rightarrow> db \<Rightarrow> category option" where
  "getCategory ident userId s =
     firstRow (filter (\<lambda>r. category_id r = ident \<and> category_userId r = userId) (categories s))"

definition applyClientPatch :: "clientPatch \<Rightarrow> client \<Rightarrow> client" where
  "applyClientPatch p r =
     \<lparr>client_id = client_id r,
      client_name = (case setc_name p of None \<Rightarrow> client_name r | Some v \<Rightarrow> v),
      client_email = (case setc_email p of None \<Rightarrow> client_email r | Some v \<Rightarrow> v),
      client_phone = (case setc_phone p of None \<Rightarrow> client_phone r | Some v \<Rightarrow> v),
      client_address = (case setc_address p of None \<Rightarrow> client_address r | Some v \<Rightarrow> v),
      client_company = (case setc_company p of None \<Rightarrow> client_company r | Some v \<Rightarrow> v),
      client_userId = (case setc_userId p of None \<Rightarrow> client_userId r | Some v \<Rightarrow> v)\<rparr>"

definition clientPatchEmpty :: "clientPatch \<Rightarrow> bool" where
  "clientPatchEmpty p =
     (setc_name p = None \<and> setc_email p = None \<and> setc_phone p = None \<and>
      setc_address p = None \<and> setc_company p = None \<and> setc_userId p = None)"

definition updateClient ::
  "int \<Rightarrow> clientPatch \<Rightarrow> string \<Rightarrow> db \<Rightarrow> error + (client option \<times> db)" where
  "updateClient ident p userId s =
     (if clientPatchEmpty p then Inl NoValuesToSet
      else
        let hit = (\<lambda>r. client_id r = ident \<and> client_userId r = userId)
        in Inr (firstRow (map (applyClientPatch p) (filter hit (clients s))),
                s\<lparr>clients := map (\<lambda>r. if hit r then applyClientPatch p r else r) (clients s)\<rparr>))"

definition deleteClient :: "int \<Rightarrow> string \<Rightarrow> db \<Rightarrow> db" where
  "deleteClient ident userId s =
     s\<lparr>clients := filter (\<lambda>r. \<not> (client_id r = ident \<and> client_userId r = userId)) (clients s)\<rparr>"

definition applyCategoryPatch :: "categoryPatch \<Rightarrow> category \<Rightarrow> category" where
  "applyCategoryPatch p r =
     \<lparr>category_id = category_id r,
      category_name = (case setg_name p of None \<Rightarrow> category_name r | Some v \<Rightarrow> v),
      category_description =
        (case setg_description p of None \<Rightarrow> category_description r | Some v \<Rightarrow> v),
      category_userId = (case setg_userId p of None \<Rightarrow> category_userId r | Some v \<Rightarrow> v)\<rparr>"

definition categoryPatchEmpty :: "categoryPatch \<Rightarrow> bool" where
  "categoryPatchEmpty p =
     (setg_name p = None \<and> setg_description p = None \<and> setg_userId p = None)"

definition updateCategory ::
  "int \<Rightarrow> categoryPatch \<Rightarrow> string \<Rightarrow> db \<Rightarrow> error + (category option \<times> db)" where
  "updateCategory ident p userId s =
     (if categoryPatchEmpty p then Inl NoValuesToSet
      else
        let hit = (\<lambda>r. category_id r = ident \<and> category_userId r = userId)
        in Inr (firstRow (map (applyCategoryPatch p) (filter hit (categories s))),
                s\<lparr>categories := map (\<lambda>r. if hit r then applyCategoryPatch p r else r) (categories s)\<rparr>))"

definition deleteCategory :: "int \<Rightarrow> string \<Rightarrow> db \<Rightarrow> db" where
  "deleteCategory ident userId s =
     s\<lparr>categories :=
          filter (\<lambda>r. \<not> (category_id r = ident \<and> category_userId r = userId)) (categories s)\<rparr>"

definition applyProductPatch :: "productPatch \<Rightarrow> product \<Rightarrow> product" where
  "applyProductPatch p r =
     \<lparr>product_id = product_id r,
      product_name = (case setp_name p of None \<Rightarrow> product_name r | Some v \<Rightarrow> v),
      product_description =
        (case setp_description p of None \<Rightarrow> product_description r | Some v \<Rightarrow> v),
      product_priceHT = (case setp_priceHT p of None \<Rightarrow> product_priceHT r | Some v \<Rightarrow> v),
      product_stock = (case setp_stock p of None \<Rightarrow> product_stock r | Some v \<Rightarrow> v),
      product_categoryId =
        (case setp_categoryId p of None \<Rightarrow> product_categoryId r | Some v \<Rightarrow> v),
      product_userId = (case setp_userId p of None \<Rightarrow> product_userId r | Some v \<Rightarrow> v)\<rparr>"

definition productPatchEmpty :: "productPatch \<Rightarrow> bool" where
  "productPatchEmpty p =
     (setp_name p = None \<and> setp_description p = None \<and> setp_priceHT p = None \<and>
      setp_stock p = None \<and> setp_categoryId p = None \<and> setp_userId p = None)"

definition updateProduct ::
  "int \<Rightarrow> productPatch \<Rightarrow> string \<Rightarrow> db \<Rightarrow> error + (product option \<times> db)" where
  "updateProduct ident p userId s =
     (if productPatchEmpty p then Inl NoValuesToSet
      else
        let hit = (\<lambda>r. product_id r = ident \<and> product_userId r = userId)
        in Inr (firstRow (map (applyProductPatch p) (filter hit (products s))),
                s\<lparr>products := map (\<lambda>r. if hit r then applyProductPatch p r else r) (products s)\<rparr>))"

definition deleteProduct :: "int \<Rightarrow> string \<Rightarrow> db \<Rightarrow> db" where
  "deleteProduct ident userId s =
     s\<lparr>products := filter (\<lambda>r. \<not> (product_id r = ident \<and> product_userId r = userId)) (products s)\<rparr>"


section \<open>Request validation (the generated insert schemas, server/routes.ts)\<close>

text \<open>
  A request body is a JSON value. The insert schemas are generated from the table
  declarations: a column's schema checks the JSON type only (a string for
  \<^verbatim>\<open>varchar\<close>, \<^verbatim>\<open>text\<close> and \<^verbatim>\<open>decimal\<close>, an integer for \<^verbatim>\<open>integer\<close>, a date object, which no
  JSON value is, for \<^verbatim>\<open>timestamp\<close>), together with the declared length of a \<^verbatim>\<open>varchar\<close>
  and the 32-bit range of an \<^verbatim>\<open>integer\<close>. A column that is nullable or has a default is
  optional; a nullable column also accepts \<^verbatim>\<open>null\<close>. Keys the schema does not name are
  dropped. A field is read as \<open>json option\<close>: \<open>None\<close> is an absent key. The generator
  is a library; the lengths and the range are the checks of its strictest version, so a
  body that passes here passes the generated schema.
\<close>

datatype json =
    JNull
  | JBool bool
  | JNum rat
  | JStr string
  | JArr "json list"
  | JObj "(string \<times> json) list"

text \<open>Of a repeated key the last occurrence counts.\<close>

definition fieldOf :: "json \<Rightarrow> string \<Rightarrow> json option" where
  "fieldOf j k = (case j of JObj kvs \<Rightarrow> map_of (rev kvs) k | _ \<Rightarrow> None)"

definition andThen :: "error + 'a \<Rightarrow> ('a \<Rightarrow> error + 'b) \<Rightarrow> error + 'b" where
  "andThen r f = (case r of Inl e \<Rightarrow> Inl e | Inr v \<Rightarrow> f v)"

definition zString :: "json option \<Rightarrow> error + string" where
  "zString v = (case v of Some (JStr s) \<Rightarrow> Inr s | _ \<Rightarrow> Inl ZodError)"

definition zVarchar :: "nat \<Rightarrow> json option \<Rightarrow> error + string" where
  "zVarchar n v =
     (case v of Some (JStr s) \<Rightarrow> if length s \<le> n then Inr s else Inl ZodError
              | _ \<Rightarrow> Inl ZodError)"

definition zInteger :: "json option \<Rightarrow> error + int" where
  "zInteger v =
     (case v of
        Some (JNum q) \<Rightarrow>
          if of_int \<lfloor>q\<rfloor> = q \<and> - 2147483648 \<le> \<lfloor>q\<rfloor> \<and> \<lfloor>q\<rfloor> \<le> 2147483647
          then Inr \<lfloor>q\<rfloor> else Inl ZodError
      | _ \<Rightarrow> Inl ZodError)"

definition zDate :: "json option \<Rightarrow> error + date" where
  "zDate v = Inl ZodError"

definition optional :: "(json option \<Rightarrow> error + 'a) \<Rightarrow> json option \<Rightarrow> error + 'a option" where
  "optional f v = (case v of None \<Rightarrow> Inr None | Some _ \<Rightarrow> andThen (f v) (\<lambda>x. Inr (Some x)))"

definition nullable :: "(json option \<Rightarrow> error + 'a) \<Rightarrow> json option \<Rightarrow> error + 'a option" where
  "nullable f v = (case v of Some JNull \<Rightarrow> Inr None | _ \<Rightarrow> andThen (f v) (\<lambda>x. Inr (Some x)))"

text \<open>A body that is not an object fails every object schema.\<close>

definition zObject :: "json \<Rightarrow> error + json" where
  "zObject j = (case j of JObj kvs \<Rightarrow> Inr j | _ \<Rightarrow> Inl ZodError)"

fun zArray :: "(json \<Rightarrow> error + 'a) \<Rightarrow> json list \<Rightarrow> error + 'a list" where
  "zArray f [] = Inr []"
| "zArray f (j # js) = andThen (f j) (\<lambda>x. andThen (zArray f js) (\<lambda>xs. Inr (x # xs)))"

text \<open>\<^verbatim>\<open>insertClientSchema.partial()\<close>\<close>

definition clientPatchSchema :: "json \<Rightarrow> error + clientPatch" where
  "clientPatchSchema body =
     andThen (zObject body) (\<lambda>b.
     andThen (optional (zVarchar 255) (fieldOf b ''name'')) (\<lambda>name.
     andThen (optional (nullable (zVarchar 255)) (fieldOf b ''email'')) (\<lambda>email.
     andThen (optional (nullable (zVarchar 50)) (fieldOf b ''phone'')) (\<lambda>phone.
     andThen (optional (nullable zString) (fieldOf b ''address'')) (\<lambda>address.
     andThen (optional (nullable (zVarchar 255)) (fieldOf b ''company'')) (\<lambda>company.
     andThen (optional zString (fieldOf b ''userId'')) (\<lambda>userId.
     Inr \<lparr>setc_name = name, setc_email = email, setc_phone = phone, setc_address = address,
          setc_company = company, setc_userId = userId\<rparr>)))))))"

text \<open>\<^verbatim>\<open>insertCategorySchema.partial()\<close>\<close>

definition categoryPatchSchema :: "json \<Rightarrow> error + categoryPatch" where
  "categoryPatchSchema body =
     andThen (zObject body) (\<lambda>b.
     andThen (optional (zVarchar 255) (fieldOf b ''name'')) (\<lambda>name.
     andThen (optional (nullable zString) (fieldOf b ''description'')) (\<lambda>description.
     andThen (optional zString (fieldOf b ''userId'')) (\<lambda>userId.
     Inr \<lparr>setg_name = name, setg_description = description, setg_userId = userId\<rparr>))))"

text \<open>\<^verbatim>\<open>insertProductSchema.partial()\<close>\<close>

definition productPatchSchema :: "json \<Rightarrow> error + productPatch" where
  "productPatchSchema body =
     andThen (zObject body) (\<lambda>b.
     andThen (optional (zVarchar 255) (fieldOf b ''name'')) (\<lambda>name.
     andThen (optional (nullable zString) (fieldOf b ''description'')) (\<lambda>description.
     andThen (optional zString (fieldOf b ''priceHT'')) (\<lambda>price.
     andThen (optional (nullable zInteger) (fieldOf b ''stock'')) (\<lambda>stock.
     andThen (optional (nullable zInteger) (fieldOf b ''categoryId'')) (\<lambda>categoryId.
     andThen (optional zString (fieldOf b ''userId'')) (\<lambda>userId.
     Inr \<lparr>setp_name = name, setp_description = description, setp_priceHT = price,
          setp_stock = stock, setp_categoryId = categoryId, setp_userId = userId\<rparr>)))))))"

text \<open>\<^verbatim>\<open>insertInvoiceSchema.partial()\<close>\<close>

definition invoicePatchSchema :: "json \<Rightarrow> error + invoicePatch" where
  "invoicePatchSchema body =
     andThen (zObject body) (\<lambda>b.
     andThen (optional (zVarchar 50) (fieldOf b ''number'')) (\<lambda>number.
     andThen (optional zInteger (fieldOf b ''clientId'')) (\<lambda>clientId.
     andThen (optional (zVarchar 50) (fieldOf b ''status'')) (\<lambda>status.
     andThen (optional zString (fieldOf b ''totalHT'')) (\<lambda>tHT.
     andThen (optional zString (fieldOf b ''tvaRate'')) (\<lambda>rate.
     andThen (optional zString (fieldOf b ''totalTVA'')) (\<lambda>tTVA.
     andThen (optional zString (fieldOf b ''totalTTC'')) (\<lambda>tTTC.
     andThen (optional (nullable zDate) (fieldOf b ''dueDate'')) (\<lambda>dueDate.
     andThen (optional (nullable zString) (fieldOf b ''notes'')) (\<lambda>notes.
     andThen (optional zString (fieldOf b ''userId'')) (\<lambda>userId.
     Inr \<lparr>set_number = number, set_clientId = clientId, set_status = status,
          set_totalHT = tHT, set_tvaRate = rate, set_totalTVA = tTVA, set_totalTTC = tTTC,
          set_dueDate = dueDate, set_notes = notes, set_userId = userId\<rparr>)))))))))))"

text \<open>
  \<^verbatim>\<open>createInvoiceSchema\<close>: the invoice without \<^verbatim>\<open>userId\<close>, its \<^verbatim>\<open>dueDate\<close> an optional string
  that becomes a date unless it is empty, and the array of items without \<^verbatim>\<open>invoiceId\<close>.
\<close>

definition joinOpt :: "'a option option \<Rightarrow> 'a option" where
  "joinOpt v = (case v of None \<Rightarrow> None | Some w \<Rightarrow> w)"

definition itemSchema :: "json \<Rightarrow> error + itemData" where
  "itemSchema j =
     andThen (zObject j) (\<lambda>b.
     andThen (optional (nullable zInteger) (fieldOf b ''productId'')) (\<lambda>pid.
     andThen (zVarchar 255 (fieldOf b ''productName'')) (\<lambda>name.
     andThen (zInteger (fieldOf b ''quantity'')) (\<lambda>qty.
     andThen (zString (fieldOf b ''priceHT'')) (\<lambda>price.
     andThen (zString (fieldOf b ''totalHT'')) (\<lambda>total.
     Inr \<lparr>productId = joinOpt pid, productName = name, quantity = qty,
          priceHT = price, totalHT = total\<rparr>))))))"

definition createInvoiceSchema :: "json \<Rightarrow> error + (invoiceFields \<times> itemData list)" where
  "createInvoiceSchema body =
     andThen (zObject body) (\<lambda>b.
     andThen (case fieldOf b ''invoice'' of None \<Rightarrow> Inl ZodError | Some i \<Rightarrow> zObject i) (\<lambda>i.
     andThen (zVarchar 50 (fieldOf i ''number'')) (\<lambda>number.
     andThen (zInteger (fieldOf i ''clientId'')) (\<lambda>clientId.
     andThen (optional (zVarchar 50) (fieldOf i ''status'')) (\<lambda>status.
     andThen (zString (fieldOf i ''totalHT'')) (\<lambda>tHT.
     andThen (zString (fieldOf i ''tvaRate'')) (\<lambda>rate.
     andThen (zString (fieldOf i ''totalTVA'')) (\<lambda>tTVA.
     andThen (zString (fieldOf i ''totalTTC'')) (\<lambda>tTTC.
     andThen (optional zString (fieldOf i ''dueDate'')) (\<lambda>due.
     andThen (optional (nullable zString) (fieldOf i ''notes'')) (\<lambda>notes.
     andThen (case fieldOf b ''items'' of Some (JArr js) \<Rightarrow> zArray itemSchema js
                                      | _ \<Rightarrow> Inl ZodError) (\<lambda>items.
     Inr (\<lparr>new_number = number, new_clientId = clientId, new_status = status,
           new_totalHT = tHT, new_tvaRate = rate, new_totalTVA = tTVA, new_totalTTC = tTTC,
           new_dueDate = (case due of None \<Rightarrow> None
                                    | Some d \<Rightarrow> if d = [] then None else Some (Date d)),
           new_notes = joinOpt notes\<rparr>, items)))))))))))))"

section \<open>Invoice totals computed by the invoice form (client/src/pages/invoices.tsx)\<close>

text \<open>
  The form computes in JavaScript numbers, which are IEEE 754 binary64 values. A number is
  modelled by its exact value: \<open>Some x\<close> is the finite double whose value is the
  rational \<open>x\<close>, \<open>None\<close> is a number that is not finite (\<^verbatim>\<open>NaN\<close> or an infinity). The
  operations used here (product, sum, division by 100) give a non-finite result whenever
  an argument is not finite, so \<open>None\<close> is closed under them. Every arithmetic result is
  the exact result rounded to the nearest double, ties to the even significand, with
  gradual underflow below \<open>2^-1022\<close> and overflow to infinity from \<open>2^1024\<close>. The two
  zeros are one value; \<^verbatim>\<open>toFixed\<close> writes both the same way.
\<close>

type_synonym number = "rat option"

text \<open>The number of binary digits of a natural number.\<close>

fun bitlen :: "nat \<Rightarrow> nat" where
  "bitlen n = (if n = 0 then 0 else Suc (bitlen (n div 2)))"

declare bitlen.simps [simp del]

definition pow2 :: "int \<Rightarrow> rat" where
  "pow2 e = (if 0 \<le> e then 2 ^ nat e else 1 / 2 ^ nat (- e))"

text \<open>
  For \<open>x > 0\<close>, the exponent \<open>e\<close> with \<open>2^e \<le> x < 2^(e+1)\<close>: from the number
  of bits of the integer part when \<open>x \<ge> 1\<close>, of the reciprocal rounded up otherwise.
\<close>

definition floorLog2 :: "rat \<Rightarrow> int" where
  "floorLog2 x =
     (if 1 \<le> x then int (bitlen (nat \<lfloor>x\<rfloor>)) - 1
      else - int (bitlen (nat (\<lceil>1 / x\<rceil> - 1))))"

definition roundHalfEven :: "rat \<Rightarrow> int" where
  "roundHalfEven y =
     (let f = \<lfloor>y\<rfloor>; d = y - of_int f
      in if d < 1 / 2 then f else if 1 / 2 < d then f + 1 else if even f then f else f + 1)"

definition toDouble :: "rat \<Rightarrow> number" where
  "toDouble x =
     (if x = 0 then Some 0
      else
        let a = \<bar>x\<bar>;
            e = max (floorLog2 a) (- 1022);
            ulp = pow2 (e - 52);
            r = of_int (roundHalfEven (a / ulp)) * ulp
        in if pow2 1024 \<le> r then None else Some (if x < 0 then - r else r))"

definition mulNumber :: "number \<Rightarrow> number \<Rightarrow> number" where
  "mulNumber a b = (case (a, b) of (Some x, Some y) \<Rightarrow> toDouble (x * y) | _ \<Rightarrow> None)"

definition addNumber :: "number \<Rightarrow> number \<Rightarrow> number" where
  "addNumber a b = (case (a, b) of (Some x, Some y) \<Rightarrow> toDouble (x + y) | _ \<Rightarrow> None)"

definition div100 :: "number \<Rightarrow> number" where
  "div100 a = (case a of Some x \<Rightarrow> toDouble (x / 100) | None \<Rightarrow> None)"

text \<open>
  \<^verbatim>\<open>parseFloat\<close>: leading white space is skipped, then the longest prefix that is a
  decimal literal (sign, digits, fraction, exponent) is read and rounded to a double;
  without any digit the result is \<^verbatim>\<open>NaN\<close>. White space beyond ASCII is not modelled.
\<close>

definition isDigit :: "char \<Rightarrow> bool" where
  "isDigit c = (48 \<le> (of_char c :: nat) \<and> (of_char c :: nat) \<le> 57)"

definition isSpace :: "char \<Rightarrow> bool" where
  "isSpace c = ((of_char c :: nat) = 32 \<or> (9 \<le> (of_char c :: nat) \<and> (of_char c :: nat) \<le> 13))"

definition digitsValue :: "string \<Rightarrow> nat" where
  "digitsValue ds = fold (\<lambda>c n. 10 * n + ((of_char c :: nat) - 48)) ds 0"

definition pow10 :: "int \<Rightarrow> rat" where
  "pow10 e = (if 0 \<le> e then 10 ^ nat e else 1 / 10 ^ nat (- e))"

definition signOf :: "string \<Rightarrow> bool \<times> string" where
  "signOf s =
     (case s of
        c # cs \<Rightarrow> if c = CHR ''-'' then (True, cs) else if c = CHR ''+'' then (False, cs) else (False, s)
      | [] \<Rightarrow> (False, s))"

definition exponentOf :: "string \<Rightarrow> int" where
  "exponentOf s =
     (case s of
        c # cs \<Rightarrow>
          if c = CHR ''e'' \<or> c = CHR ''E''
          then (case signOf cs of (neg, ds) \<Rightarrow>
                  if takeWhile isDigit ds = [] then 0
                  else (if neg then - int (digitsValue (takeWhile isDigit ds))
                        else int (digitsValue (takeWhile isDigit ds))))
          else 0
      | [] \<Rightarrow> 0)"

definition parseFloat :: "string \<Rightarrow> number" where
  "parseFloat s =
     (case signOf (dropWhile isSpace s) of (neg, t) \<Rightarrow>
        if take 8 t = ''Infinity'' then None
        else
          let ip = takeWhile isDigit t;
              r1 = dropWhile isDigit t;
              fp = (case r1 of c # cs \<Rightarrow> if c = CHR ''.'' then takeWhile isDigit cs else [] | [] \<Rightarrow> []);
              r2 = (case r1 of c # cs \<Rightarrow> if c = CHR ''.'' then dropWhile isDigit cs else r1 | [] \<Rightarrow> [])
          in if ip = [] \<and> fp = [] then None
             else
               let m = of_nat (digitsValue (ip @ fp)) * pow10 (exponentOf r2 - int (length fp))
               in toDouble (if neg then - m else m))"

text \<open>
  \<^verbatim>\<open>x.toFixed(2)\<close>: the integer \<open>n\<close> whose hundredth is nearest to the exact value of
  \<open>x\<close>, the larger one of two, written with two decimals. The result \<open>None\<close> stands for
  a text that is no fixed-point numeral: \<^verbatim>\<open>NaN\<close>, an infinity, or the exponent notation
  used from \<open>10^21\<close>.
\<close>

definition digitChar :: "nat \<Rightarrow> char" where
  "digitChar d = ''0123456789'' ! (d mod 10)"

fun showNat :: "nat \<Rightarrow> string" where
  "showNat n = (if n < 10 then [digitChar n] else showNat (n div 10) @ [digitChar (n mod 10)])"

declare showNat.simps [simp del]

definition toFixed2 :: "number \<Rightarrow> string option" where
  "toFixed2 v =
     (case v of
        None \<Rightarrow> None
      | Some x \<Rightarrow>
          if 10 ^ 21 \<le> \<bar>x\<bar> then None
          else
            let n = nat \<lfloor>\<bar>x\<bar> * 100 + 1 / 2\<rfloor>
            in Some ((if x < 0 then ''-'' else '''') @ showNat (n div 100) @ ''.'' @
                     [digitChar (n mod 100 div 10), digitChar (n mod 10)]))"

text \<open>The values of the form, and what \<^verbatim>\<open>createMutation\<close> computes from them.\<close>

record formItem =
  form_productId :: "int option"
  form_productName :: string
  form_quantity :: int
  form_priceHT :: string

record createInvoiceForm =
  form_clientId :: "int option"
  form_status :: string
  form_tvaRate :: string
  form_dueDate :: "string option"
  form_notes :: "string option"
  form_items :: "formItem list"


record computedTotals =
  sent_totalHT :: "string option"
  sent_totalTVA :: "string option"
  sent_totalTTC :: "string option"
  sent_itemTotals :: "string option list"

definition createMutation :: "createInvoiceForm \<Rightarrow> computedTotals" where
  "createMutation data =
     (let totalHT = fold (\<lambda>item sum. addNumber sum (mulNumber (toDouble (of_int (form_quantity item)))
                                                     (parseFloat (form_priceHT item))))
                         (form_items data) (Some 0);
          tvaRateNum = parseFloat (form_tvaRate data);
          totalTVA = mulNumber totalHT (div100 tvaRateNum);
          totalTTC = addNumber totalHT totalTVA
      in \<lparr>sent_totalHT = toFixed2 totalHT,
          sent_totalTVA = toFixed2 totalTVA,
          sent_totalTTC = toFixed2 totalTTC,
          sent_itemTotals =
            map (\<lambda>item. toFixed2 (mulNumber (toDouble (of_int (form_quantity item)))
                                        (parseFloat (form_priceHT item)))) (form_items data)\<rparr>)"


section \<open>What the store refuses\<close>

text \<open>
  The storage functions above say what the statements of a call write. The store refuses a
  statement that breaks a declaration of \<^verbatim>\<open>shared/schema.ts\<close>: a reference
  (\<^verbatim>\<open>.references\<close>) to a row that does not exist, a decimal text that is no number or
  does not fit the declared precision, a result of integer arithmetic outside 32 bits; and
  the driver refuses a date that is not valid. The statement then throws, the call ends
  there, and what the earlier statements of the call wrote stays, since no call runs in a
  transaction. The lengths of \<^verbatim>\<open>varchar\<close> columns and the range of the integers of a
  request are checked by the request schemas before. A refused insert may use up numbers of
  the key's sequence in the store; here the sequence stays as it is.
\<close>

definition int32 :: "int \<Rightarrow> bool" where
  "int32 k = (- 2147483648 \<le> k \<and> k \<le> 2147483647)"

text \<open>
  The text of a \<^verbatim>\<open>decimal\<close> column is read as the store reads a numeric: white space, a
  sign, digits with a point, an exponent, white space; or \<^verbatim>\<open>NaN\<close>. An exponent needs a
  digit and is below \<open>2^30\<close>. The number is rounded to the two declared decimals, half away
  from zero, and refused when it then needs more digits before the point than the
  precision leaves: 8 for \<^verbatim>\<open>decimal(10, 2)\<close>, 3 for \<^verbatim>\<open>decimal(5, 2)\<close>.
\<close>

definition afterPoint :: "string \<Rightarrow> string \<times> string" where
  "afterPoint r =
     (case r of
        c # cs \<Rightarrow> if c = CHR ''.'' then (takeWhile isDigit cs, dropWhile isDigit cs) else ([], r)
      | [] \<Rightarrow> ([], r))"

definition exponentIn :: "string \<Rightarrow> (int \<times> string) option" where
  "exponentIn r =
     (case r of
        c # cs \<Rightarrow>
          if c = CHR ''e'' \<or> c = CHR ''E''
          then (case signOf cs of (neg, ds) \<Rightarrow>
                  if takeWhile isDigit ds = [] then None
                  else Some (if neg then - int (digitsValue (takeWhile isDigit ds))
                             else int (digitsValue (takeWhile isDigit ds)),
                             dropWhile isDigit ds))
          else Some (0, r)
      | [] \<Rightarrow> Some (0, r))"

definition numericIn :: "string \<Rightarrow> rat option" where
  "numericIn s =
     (case signOf (dropWhile isSpace s) of (neg, t) \<Rightarrow>
        (case afterPoint (dropWhile isDigit t) of (fp, r) \<Rightarrow>
           if takeWhile isDigit t = [] \<and> fp = [] then None
           else
             (case exponentIn r of
                None \<Rightarrow> None
              | Some (ex, rest) \<Rightarrow>
                  if dropWhile isSpace rest \<noteq> [] \<or> 1073741823 \<le> \<bar>ex\<bar> then None
                  else Some ((if neg then - 1 else 1) *
                             of_nat (digitsValue (takeWhile isDigit t @ fp)) *
                             pow10 (ex - int (length fp))))))"

definition isNaNText :: "string \<Rightarrow> bool" where
  "isNaNText s =
     (case dropWhile isSpace s of
        a # b # c # rest \<Rightarrow>
          (a = CHR ''N'' \<or> a = CHR ''n'') \<and> (b = CHR ''A'' \<or> b = CHR ''a'') \<and>
          (c = CHR ''N'' \<or> c = CHR ''n'') \<and> dropWhile isSpace rest = []
      | _ \<Rightarrow> False)"

definition takesDecimal :: "nat \<Rightarrow> string \<Rightarrow> bool" where
  "takesDecimal k t =
     (isNaNText t \<or>
      (case numericIn t of None \<Rightarrow> False | Some v \<Rightarrow> \<lfloor>\<bar>v\<bar> * 100 + 1 / 2\<rfloor> < 10 ^ (k + 2)))"

text \<open>
  The store keeps a decimal as a number and gives it back written with two decimals. The
  rows here keep the text that was sent, which is the text the store gives back when it is
  written that way already.
\<close>

definition storeDecimal :: "string \<Rightarrow> string" where
  "storeDecimal t =
     (if isNaNText t then ''NaN''
      else case numericIn t of
             None \<Rightarrow> t
           | Some v \<Rightarrow>
               let n = nat \<lfloor>\<bar>v\<bar> * 100 + 1 / 2\<rfloor>
               in (if v < 0 \<and> n \<noteq> 0 then ''-'' else '''') @ showNat (n div 100) @ ''.'' @
                  [digitChar (n mod 100 div 10), digitChar (n mod 10)])"

definition asStored :: "string \<Rightarrow> bool" where
  "asStored t = (storeDecimal t = t)"

text \<open>A text is refused when it holds the character with code 0.\<close>

definition takesText :: "string \<Rightarrow> bool" where
  "takesText t = list_all (\<lambda>c. (of_char c :: nat) \<noteq> 0) t"

definition badText :: "string option \<Rightarrow> bool" where
  "badText v = (case v of None \<Rightarrow> False | Some t \<Rightarrow> \<not> takesText t)"

definition badNullableText :: "string option option \<Rightarrow> bool" where
  "badNullableText v = (case v of Some (Some t) \<Rightarrow> \<not> takesText t | _ \<Rightarrow> False)"

definition badDecimal :: "nat \<Rightarrow> string option \<Rightarrow> bool" where
  "badDecimal k v = (case v of None \<Rightarrow> False | Some t \<Rightarrow> \<not> takesDecimal k t)"

text \<open>The rows a reference can point to.\<close>

definition userExists :: "db \<Rightarrow> string \<Rightarrow> bool" where
  "userExists s v = (v \<in> set (users s))"

definition clientExists :: "db \<Rightarrow> int \<Rightarrow> bool" where
  "clientExists s c = list_ex (\<lambda>r. client_id r = c) (clients s)"

definition categoryExists :: "db \<Rightarrow> int \<Rightarrow> bool" where
  "categoryExists s c = list_ex (\<lambda>r. category_id r = c) (categories s)"

definition productExists :: "db \<Rightarrow> int \<Rightarrow> bool" where
  "productExists s p = list_ex (\<lambda>r. product_id r = p) (products s)"

definition invoiceExists :: "db \<Rightarrow> int \<Rightarrow> bool" where
  "invoiceExists s k = list_ex (\<lambda>r. invoice_id r = k) (invoices s)"

text \<open>
  The inserts. Which texts the date constructor of the server's JavaScript engine reads as
  a valid date, and the store's timestamp holds, is not fixed by the source: it is the
  parameter \<open>takesDate\<close>.
\<close>

definition takesInvoice :: "(string \<Rightarrow> bool) \<Rightarrow> insertInvoice \<Rightarrow> db \<Rightarrow> bool" where
  "takesInvoice takesDate v s =
     (clientExists s (new_clientId v) \<and> userExists s (new_userId v) \<and>
      takesText (new_number v) \<and> \<not> badText (new_status v) \<and> \<not> badText (new_notes v) \<and>
      takesDecimal 8 (new_totalHT v) \<and> takesDecimal 3 (new_tvaRate v) \<and>
      takesDecimal 8 (new_totalTVA v) \<and> takesDecimal 8 (new_totalTTC v) \<and>
      (case new_dueDate v of None \<Rightarrow> True | Some (Date t) \<Rightarrow> takesDate t))"

definition takesItem :: "db \<Rightarrow> 'a itemData_scheme \<Rightarrow> bool" where
  "takesItem s item =
     ((case productId item of None \<Rightarrow> True | Some p \<Rightarrow> productExists s p) \<and>
      takesText (productName item) \<and>
      takesDecimal 8 (priceHT item) \<and> takesDecimal 8 (totalHT item))"

definition takesSale :: "db \<Rightarrow> insertSale \<Rightarrow> bool" where
  "takesSale s v =
     (invoiceExists s (sale_invoiceId v) \<and> productExists s (sale_productId v) \<and>
      userExists s (sale_userId v) \<and>
      takesDecimal 8 (sale_unitPrice v) \<and> takesDecimal 8 (sale_total v))"

text \<open>
  The stock update computes \<^verbatim>\<open>stock - quantity\<close> in 32 bits on each row it matches; a null
  stock gives null and no error.
\<close>

definition stockOverflows :: "int \<Rightarrow> int \<Rightarrow> string \<Rightarrow> product list \<Rightarrow> bool" where
  "stockOverflows pid q userId ps =
     list_ex (\<lambda>p. product_id p = pid \<and> product_userId p = userId \<and>
                  (case product_stock p of None \<Rightarrow> False | Some n \<Rightarrow> \<not> int32 (n - q))) ps"

text \<open>
  The single stock update, the stock loop and the two functions that run it, each with the
  store's verdict: whether every statement went through, and what is stored when the
  function ends, at the statement that was refused or after the last one.
\<close>

definition tryDecrementStock :: "int \<Rightarrow> int \<Rightarrow> string \<Rightarrow> product list \<Rightarrow> bool \<times> product list" where
  "tryDecrementStock pid q userId ps =
     (if stockOverflows pid q userId ps then (False, ps)
      else (True, decrementStock pid q userId ps))"

fun tryStockLoop :: "'a itemData_scheme list \<Rightarrow> string \<Rightarrow> product list \<Rightarrow> bool \<times> product list" where
  "tryStockLoop [] userId ps = (True, ps)"
| "tryStockLoop (item # items) userId ps =
     (case productId item of
        None \<Rightarrow> tryStockLoop items userId ps
      | Some pid \<Rightarrow>
          if pid = 0 then tryStockLoop items userId ps
          else if fst (tryDecrementStock pid (quantity item) userId ps)
               then tryStockLoop items userId (snd (tryDecrementStock pid (quantity item) userId ps))
               else (False, ps))"

definition tryUpdateStockAfterInvoiceCreation ::
  "insertInvoiceItem list \<Rightarrow> string \<Rightarrow> db \<Rightarrow> bool \<times> db" where
  "tryUpdateStockAfterInvoiceCreation items userId s =
     (case tryStockLoop items userId (products s) of (ok, ps) \<Rightarrow> (ok, s\<lparr>products := ps\<rparr>))"

text \<open>
  \<^verbatim>\<open>createSalesFromInvoice\<close>: the insert of the sales, then the stock loop. Without a sale
  to insert nothing is refused and nothing changes.
\<close>

definition tryCreateSalesFromInvoice :: "int \<Rightarrow> string \<Rightarrow> db \<Rightarrow> bool \<times> db" where
  "tryCreateSalesFromInvoice ident userId s =
     (let items = filter (\<lambda>it. invoiceId it = ident) (invoiceItems s);
          salesData = map (saleOfItem ident userId) (filter hasProduct items)
      in if \<not> list_all (takesSale s) salesData then (False, s)
         else
           case tryStockLoop items userId (products s) of
             (ok, ps) \<Rightarrow> (ok, (createSalesFromInvoice ident userId s)\<lparr>products := ps\<rparr>))"

text \<open>
  The updates. A text or a decimal of the patch is read when the statement is prepared,
  whether or not a row matches; a reference is checked on the rows in which the update
  changes it.
\<close>

definition refusesClientUpdate :: "int \<Rightarrow> clientPatch \<Rightarrow> string \<Rightarrow> db \<Rightarrow> bool" where
  "refusesClientUpdate ident p userId s =
     (badText (setc_name p) \<or> badNullableText (setc_email p) \<or> badNullableText (setc_phone p) \<or>
      badNullableText (setc_address p) \<or> badNullableText (setc_company p) \<or>
      badText (setc_userId p) \<or>
      (list_ex (\<lambda>r. client_id r = ident \<and> client_userId r = userId) (clients s) \<and>
       (case setc_userId p of None \<Rightarrow> False | Some v \<Rightarrow> v \<noteq> userId \<and> \<not> userExists s v)))"

definition refusesCategoryUpdate :: "int \<Rightarrow> categoryPatch \<Rightarrow> string \<Rightarrow> db \<Rightarrow> bool" where
  "refusesCategoryUpdate ident p userId s =
     (badText (setg_name p) \<or> badNullableText (setg_description p) \<or> badText (setg_userId p) \<or>
      (list_ex (\<lambda>r. category_id r = ident \<and> category_userId r = userId) (categories s) \<and>
       (case setg_userId p of None \<Rightarrow> False | Some v \<Rightarrow> v \<noteq> userId \<and> \<not> userExists s v)))"

definition refusesProductUpdate :: "int \<Rightarrow> productPatch \<Rightarrow> string \<Rightarrow> db \<Rightarrow> bool" where
  "refusesProductUpdate ident p userId s =
     (badText (setp_name p) \<or> badNullableText (setp_description p) \<or> badText (setp_userId p) \<or>
      badDecimal 8 (setp_priceHT p) \<or>
      (list_ex (\<lambda>r. product_id r = ident \<and> product_userId r = userId) (products s) \<and>
       (case setp_userId p of None \<Rightarrow> False | Some v \<Rightarrow> v \<noteq> userId \<and> \<not> userExists s v)) \<or>
      (case setp_categoryId p of
         Some (Some c) \<Rightarrow>
           list_ex (\<lambda>r. product_id r = ident \<and> product_userId r = userId \<and>
                        product_categoryId r \<noteq> Some c) (products s) \<and> \<not> categoryExists s c
       | _ \<Rightarrow> False))"

definition refusesInvoiceUpdate :: "int \<Rightarrow> invoicePatch \<Rightarrow> string \<Rightarrow> db \<Rightarrow> bool" where
  "refusesInvoiceUpdate ident p userId s =
     (badText (set_number p) \<or> badText (set_status p) \<or> badNullableText (set_notes p) \<or>
      badText (set_userId p) \<or>
      badDecimal 8 (set_totalHT p) \<or> badDecimal 3 (set_tvaRate p) \<or>
      badDecimal 8 (set_totalTVA p) \<or> badDecimal 8 (set_totalTTC p) \<or>
      (list_ex (\<lambda>r. invoice_id r = ident \<and> invoice_userId r = userId) (invoices s) \<and>
       (case set_userId p of None \<Rightarrow> False | Some v \<Rightarrow> v \<noteq> userId \<and> \<not> userExists s v)) \<or>
      (case set_clientId p of
         None \<Rightarrow> False
       | Some c \<Rightarrow>
           list_ex (\<lambda>r. invoice_id r = ident \<and> invoice_userId r = userId \<and>
                        invoice_clientId r \<noteq> c) (invoices s) \<and> \<not> clientExists s c))"


section \<open>The storage calls as a route sees them\<close>

text \<open>
  A call of a storage function from a route returns or throws. It throws at the first
  statement the store refuses and leaves what the statements before it wrote; when no
  statement is refused it returns what the storage function gives.
\<close>

text \<open>
  \<^verbatim>\<open>createInvoice\<close>: the insert of the invoice, the insert of the items, the stock loop.
  After a refused insert of the items the invoice is stored without them.
\<close>

definition tryCreateInvoice ::
  "(string \<Rightarrow> bool) \<Rightarrow> insertInvoice \<Rightarrow> itemData list \<Rightarrow> db \<Rightarrow> (error + invoice) \<times> db" where
  "tryCreateInvoice takesDate newInv items s =
     (if \<not> takesInvoice takesDate newInv s then (Inl StoreError, s)
      else if \<not> list_all (takesItem s) items then (Inl StoreError, snd (createInvoice newInv [] s))
      else
        case tryStockLoop items (new_userId newInv) (products s) of
          (ok, ps) \<Rightarrow>
            (if ok then Inr (fst (createInvoice newInv items s)) else Inl StoreError,
             (snd (createInvoice newInv items s))\<lparr>products := ps\<rparr>))"

text \<open>
  \<^verbatim>\<open>updateInvoice\<close>: the update of the invoice row and, when the guard holds,
  \<^verbatim>\<open>createSalesFromInvoice\<close> on what the update left.
\<close>

definition tryUpdateInvoice ::
  "int \<Rightarrow> invoicePatch \<Rightarrow> string \<Rightarrow> db \<Rightarrow> (error + invoice option) \<times> db" where
  "tryUpdateInvoice ident p userId s =
     (case updateInvoice ident p userId s of
        Inl e \<Rightarrow> (Inl e, s)
      | Inr (updated, s') \<Rightarrow>
          if refusesInvoiceUpdate ident p userId s then (Inl StoreError, s)
          else if settles p (getInvoice ident userId s)
          then
            case tryCreateSalesFromInvoice ident userId (s\<lparr>invoices := invoices s'\<rparr>) of
              (ok, s2) \<Rightarrow> (if ok then Inr updated else Inl StoreError, s2)
          else (Inr updated, s'))"

definition tryUpdateClient ::
  "int \<Rightarrow> clientPatch \<Rightarrow> string \<Rightarrow> db \<Rightarrow> (error + client option) \<times> db" where
  "tryUpdateClient ident p userId s =
     (case updateClient ident p userId s of
        Inl e \<Rightarrow> (Inl e, s)
      | Inr (updated, s') \<Rightarrow>
          if refusesClientUpdate ident p userId s then (Inl StoreError, s) else (Inr updated, s'))"

definition tryUpdateProduct ::
  "int \<Rightarrow> productPatch \<Rightarrow> string \<Rightarrow> db \<Rightarrow> (error + product option) \<times> db" where
  "tryUpdateProduct ident p userId s =
     (case updateProduct ident p userId s of
        Inl e \<Rightarrow> (Inl e, s)
      | Inr (updated, s') \<Rightarrow>
          if refusesProductUpdate ident p userId s then (Inl StoreError, s) else (Inr updated, s'))"

definition tryUpdateCategory ::
  "int \<Rightarrow> categoryPatch \<Rightarrow> string \<Rightarrow> db \<Rightarrow> (error + category option) \<times> db" where
  "tryUpdateCategory ident p userId s =
     (case updateCategory ident p userId s of
        Inl e \<Rightarrow> (Inl e, s)
      | Inr (updated, s') \<Rightarrow>
          if refusesCategoryUpdate ident p userId s then (Inl StoreError, s) else (Inr updated, s'))"


section \<open>Routes (server/routes.ts)\<close>

text \<open>
  A route answers with the JSON of a value, or with a status and a message. Whatever the
  handler throws (a schema error or a store error) is caught and answered with the
  route's error status; what the call had written by then stays.
\<close>

datatype 'a response = Json 'a | Status nat string

text \<open>\<^verbatim>\<open>{ ...invoice, userId }\<close>\<close>

definition withUserId :: "invoiceFields \<Rightarrow> string \<Rightarrow> insertInvoice" where
  "withUserId invoice userId =
     \<lparr>new_number = new_number invoice, new_clientId = new_clientId invoice,
      new_status = new_status invoice, new_totalHT = new_totalHT invoice,
      new_tvaRate = new_tvaRate invoice, new_totalTVA = new_totalTVA invoice,
      new_totalTTC = new_totalTTC invoice, new_dueDate = new_dueDate invoice,
      new_notes = new_notes invoice, new_userId = userId\<rparr>"

definition post_invoices ::
  "(string \<Rightarrow> bool) \<Rightarrow> string \<Rightarrow> json \<Rightarrow> db \<Rightarrow> invoice response \<times> db" where
  "post_invoices takesDate userId body s =
     (case createInvoiceSchema body of
        Inl e \<Rightarrow> (Status 400 ''Failed to create invoice'', s)
      | Inr (invoice, items) \<Rightarrow>
          (let invoiceData = withUserId invoice userId
           in case tryCreateInvoice takesDate invoiceData items s of
                (Inl e, s') \<Rightarrow> (Status 400 ''Failed to create invoice'', s')
              | (Inr newInvoice, s') \<Rightarrow> (Json newInvoice, s')))"

definition put_invoices :: "string \<Rightarrow> int \<Rightarrow> json \<Rightarrow> db \<Rightarrow> invoice option response \<times> db" where
  "put_invoices userId ident body s =
     (case invoicePatchSchema body of
        Inl e \<Rightarrow> (Status 400 ''Failed to update invoice'', s)
      | Inr invoiceData \<Rightarrow>
          (case tryUpdateInvoice ident invoiceData userId s of
             (Inl e, s') \<Rightarrow> (Status 400 ''Failed to update invoice'', s')
           | (Inr updated, s') \<Rightarrow> (Json updated, s')))"

definition put_clients :: "string \<Rightarrow> int \<Rightarrow> json \<Rightarrow> db \<Rightarrow> client option response \<times> db" where
  "put_clients userId ident body s =
     (case clientPatchSchema body of
        Inl e \<Rightarrow> (Status 400 ''Failed to update client'', s)
      | Inr clientData \<Rightarrow>
          (case tryUpdateClient ident clientData userId s of
             (Inl e, s') \<Rightarrow> (Status 400 ''Failed to update client'', s')
           | (Inr updated, s') \<Rightarrow> (Json updated, s')))"

definition put_products :: "string \<Rightarrow> int \<Rightarrow> json \<Rightarrow> db \<Rightarrow> product option response \<times> db" where
  "put_products userId ident body s =
     (case productPatchSchema body of
        Inl e \<Rightarrow> (Status 400 ''Failed to update product'', s)
      | Inr productData \<Rightarrow>
          (case tryUpdateProduct ident productData userId s of
             (Inl e, s') \<Rightarrow> (Status 400 ''Failed to update product'', s')
           | (Inr updated, s') \<Rightarrow> (Json updated, s')))"

definition put_categories :: "string \<Rightarrow> int \<Rightarrow> json \<Rightarrow> db \<Rightarrow> category option response \<times> db" where
  "put_categories userId ident body s =
     (case categoryPatchSchema body of
        Inl e \<Rightarrow> (Status 400 ''Failed to update category'', s)
      | Inr categoryData \<Rightarrow>
          (case tryUpdateCategory ident categoryData userId s of
             (Inl e, s') \<Rightarrow> (Status 400 ''Failed to update category'', s')
           | (Inr updated, s') \<Rightarrow> (Json updated, s')))"

text \<open>
  The three deletes of \<^verbatim>\<open>deleteInvoice\<close> are never refused: no table refers to sales or to
  invoice items, and the rows that refer to the invoice are deleted before it.
\<close>

definition delete_invoices :: "string \<Rightarrow> int \<Rightarrow> db \<Rightarrow> string response \<times> db" where
  "delete_invoices userId ident s = (Json ''Invoice deleted successfully'', deleteInvoice ident userId s)"

definition get_clients_id :: "string \<Rightarrow> int \<Rightarrow> db \<Rightarrow> client response" where
  "get_clients_id userId ident s =
     (case getClient ident userId s of
        None \<Rightarrow> Status 404 ''Client not found''
      | Some c \<Rightarrow> Json c)"

definition get_invoices_id :: "string \<Rightarrow> int \<Rightarrow> db \<Rightarrow> (invoice \<times> invoiceItem list) response" where
  "get_invoices_id userId ident s =
     (case getInvoiceWithItems ident userId s of
        None \<Rightarrow> Status 404 ''Invoice not found''
      | Some i \<Rightarrow> Json i)"


section \<open>Sequences of stock operations\<close>

text \<open>
  The two functions that decrement stock, as operations on the store, and a run of any
  number of them. An operation leaves in the store what it had written when it ended, at
  a refused statement or after the last one.
\<close>

datatype stockOperation =
    AfterInvoiceCreation "insertInvoiceItem list" string
  | SalesFromInvoice int string

fun runStockOperation :: "stockOperation \<Rightarrow> db \<Rightarrow> db" where
  "runStockOperation (AfterInvoiceCreation items userId) s =
     snd (tryUpdateStockAfterInvoiceCreation items userId s)"
| "runStockOperation (SalesFromInvoice ident userId) s = snd (tryCreateSalesFromInvoice ident userId s)"

fun validStockOperation :: "stockOperation \<Rightarrow> bool" where
  "validStockOperation (AfterInvoiceCreation items userId) = list_all (\<lambda>it. 0 \<le> quantity it) items"
| "validStockOperation (SalesFromInvoice ident userId) = True"


section \<open>Example data\<close>

text \<open>
  A store with the users \<open>alice\<close> and \<open>bob\<close>, and one client, one category and two
  products of tenant \<open>alice\<close>, in the
  states the specification's scenario goes through: the invoice has three units of
  product 1 and one ad-hoc line, at 18 percent. The state is given by the stock of
  product 1 and the invoice, item and sale rows.
\<close>

definition shopState :: "int option \<Rightarrow> invoice list \<Rightarrow> invoiceItem list \<Rightarrow> sale list \<Rightarrow> db" where
  "shopState stockA invs its sls =
     \<lparr>users = [''alice'', ''bob''],
      clients = [\<lparr>client_id = 1, client_name = ''Client'', client_email = None,
                  client_phone = None, client_address = None, client_company = None,
                  client_userId = ''alice''\<rparr>],
      categories = [\<lparr>category_id = 1, category_name = ''Goods'', category_description = None,
                     category_userId = ''alice''\<rparr>],
      products = [\<lparr>product_id = 1, product_name = ''A'', product_description = None,
                   product_priceHT = ''1000.00'', product_stock = stockA,
                   product_categoryId = None, product_userId = ''alice''\<rparr>,
                  \<lparr>product_id = 2, product_name = ''B'', product_description = None,
                   product_priceHT = ''20.00'', product_stock = Some 2,
                   product_categoryId = None, product_userId = ''alice''\<rparr>],
      invoices = invs, invoiceItems = its, sales = sls,
      clients_seq = 2, categories_seq = 2, products_seq = 3,
      invoices_seq = 1 + int (length invs),
      invoiceItems_seq = 1 + int (length its),
      sales_seq = 1 + int (length sls)\<rparr>"

definition scenarioItems :: "itemData list" where
  "scenarioItems =
     [\<lparr>productId = Some 1, productName = ''A'', quantity = 3, priceHT = ''1000'',
       totalHT = ''3000.00''\<rparr>,
      \<lparr>productId = None, productName = ''Service'', quantity = 1, priceHT = ''500'',
       totalHT = ''500.00''\<rparr>]"

definition scenarioInvoice :: "string \<Rightarrow> insertInvoice" where
  "scenarioInvoice st =
     \<lparr>new_number = ''FAC-2025-001'', new_clientId = 1, new_status = Some st,
      new_totalHT = ''3500.00'', new_tvaRate = ''18.00'', new_totalTVA = ''630.00'',
      new_totalTTC = ''4130.00'', new_dueDate = None, new_notes = None,
      new_userId = ''alice''\<rparr>"

definition scenarioRow :: "string \<Rightarrow> invoice" where
  "scenarioRow st =
     \<lparr>invoice_id = 1, invoice_number = ''FAC-2025-001'', invoice_clientId = 1,
      invoice_status = st, invoice_totalHT = ''3500.00'', invoice_tvaRate = ''18.00'',
      invoice_totalTVA = ''630.00'', invoice_totalTTC = ''4130.00'', invoice_dueDate = None,
      invoice_notes = None, invoice_userId = ''alice''\<rparr>"

definition scenarioItemRows :: "invoiceItem list" where
  "scenarioItemRows =
     [\<lparr>productId = Some 1, productName = ''A'', quantity = 3, priceHT = ''1000'',
       totalHT = ''3000.00'', invoiceId = 1, item_id = 1\<rparr>,
      \<lparr>productId = None, productName = ''Service'', quantity = 1, priceHT = ''500'',
       totalHT = ''500.00'', invoiceId = 1, item_id = 2\<rparr>]"

definition scenarioSale :: "string \<Rightarrow> sale" where
  "scenarioSale userId =
     \<lparr>sale_invoiceId = 1, sale_productId = 1, sale_quantity = 3, sale_unitPrice = ''1000'',
      sale_total = ''3000.00'', sale_userId = userId, sale_id = 1\<rparr>"

definition shop :: db where
  "shop = shopState (Some 5) [] [] []"

definition pendingShop :: db where
  "pendingShop = shopState (Some 2) [scenarioRow ''en_attente''] scenarioItemRows []"

definition settledShop :: db where
  "settledShop = shopState (Some 0) [scenarioRow ''payee''] scenarioItemRows [scenarioSale ''alice'']"

definition paidAtCreationShop :: db where
  "paidAtCreationShop = shopState (Some 2) [scenarioRow ''payee''] scenarioItemRows []"

definition statusPatch :: "string \<Rightarrow> invoicePatch" where
  "statusPatch st =
     \<lparr>set_number = None, set_clientId = None, set_status = Some st, set_totalHT = None,
      set_tvaRate = None, set_totalTVA = None, set_totalTTC = None, set_dueDate = None,
      set_notes = None, set_userId = None\<rparr>"

text \<open>
  The items of the scenario that refer to a product, as the stock update after the creation
  of the invoice gets them.
\<close>

definition scenarioProductItems :: "insertInvoiceItem list" where
  "scenarioProductItems =
     [\<lparr>productId = Some 1, productName = ''A'', quantity = 3, priceHT = ''1000'',
       totalHT = ''3000.00'', invoiceId = 1\<rparr>]"

text \<open>
  The request bodies of the examples carry no due date, so the date check does not matter
  to them; there the check is the one that takes no text.
\<close>

definition noDate :: "string \<Rightarrow> bool" where
  "noDate t = False"


section \<open>Request bodies\<close>

text \<open>
  The JSON text of typed values, as the browser's \<^verbatim>\<open>JSON.stringify\<close> writes the body of a
  request: an absent option is an absent key.
\<close>

definition optField :: "string \<Rightarrow> ('a \<Rightarrow> json) \<Rightarrow> 'a option \<Rightarrow> (string \<times> json) list" where
  "optField k f v = (case v of None \<Rightarrow> [] | Some x \<Rightarrow> [(k, f x)])"

definition jsonOfItem :: "itemData \<Rightarrow> json" where
  "jsonOfItem item =
     JObj (optField ''productId'' (\<lambda>p. JNum (of_int p)) (productId item) @
           [(''productName'', JStr (productName item)),
            (''quantity'', JNum (of_int (quantity item))),
            (''priceHT'', JStr (priceHT item)),
            (''totalHT'', JStr (totalHT item))])"

definition jsonOfInvoiceFields :: "invoiceFields \<Rightarrow> json" where
  "jsonOfInvoiceFields f =
     JObj ([(''number'', JStr (new_number f)),
            (''clientId'', JNum (of_int (new_clientId f)))] @
           optField ''status'' JStr (new_status f) @
           [(''totalHT'', JStr (new_totalHT f)),
            (''tvaRate'', JStr (new_tvaRate f)),
            (''totalTVA'', JStr (new_totalTVA f)),
            (''totalTTC'', JStr (new_totalTTC f))] @
           optField ''dueDate'' (\<lambda>d. case d of Date t \<Rightarrow> JStr t) (new_dueDate f) @
           optField ''notes'' JStr (new_notes f))"

definition createInvoiceBody :: "invoiceFields \<Rightarrow> itemData list \<Rightarrow> json" where
  "createInvoiceBody f items =
     JObj [(''invoice'', jsonOfInvoiceFields f), (''items'', JArr (map jsonOfItem items))]"

text \<open>What the generated schemas do check: the declared sizes of the columns.\<close>

definition itemFits :: "itemData \<Rightarrow> bool" where
  "itemFits item =
     (length (productName item) \<le> 255 \<and> int32 (quantity item) \<and>
      (case productId item of None \<Rightarrow> True | Some p \<Rightarrow> int32 p))"

definition invoiceFits :: "invoiceFields \<Rightarrow> bool" where
  "invoiceFits f =
     (length (new_number f) \<le> 50 \<and> int32 (new_clientId f) \<and>
      (case new_status f of None \<Rightarrow> True | Some st \<Rightarrow> length st \<le> 50) \<and>
      new_dueDate f \<noteq> Some (Date []))"

text \<open>
  Two bodies for the route that creates an invoice. The first breaks every rule on values
  at once: an unknown status, a tax rate of 99, a quantity of 0 and a negative price.
  The second has no item.
\<close>

definition invalidFields :: invoiceFields where
  "invalidFields =
     \<lparr>new_number = ''FAC-2025-002'', new_clientId = 1, new_status = Some ''bogus'',
      new_totalHT = ''0.00'', new_tvaRate = ''99.00'', new_totalTVA = ''0.00'',
      new_totalTTC = ''0.00'', new_dueDate = None, new_notes = None\<rparr>"

definition invalidItems :: "itemData list" where
  "invalidItems =
     [\<lparr>productId = Some 1, productName = ''A'', quantity = 0, priceHT = ''-5.00'',
       totalHT = ''0.00''\<rparr>]"

text \<open>One item that refers to product \<open>p\<close>, with quantity \<open>q\<close>.\<close>

definition lineOf :: "int option \<Rightarrow> int \<Rightarrow> itemData" where
  "lineOf p q =
     \<lparr>productId = p, productName = ''A'', quantity = q, priceHT = ''1000.00'', totalHT = ''0.00''\<rparr>"

definition invalidBody :: json where
  "invalidBody =
     JObj [(''invoice'',
            JObj [(''number'', JStr ''FAC-2025-002''), (''clientId'', JNum 1),
                  (''status'', JStr ''bogus''), (''totalHT'', JStr ''0.00''),
                  (''tvaRate'', JStr ''99.00''), (''totalTVA'', JStr ''0.00''),
                  (''totalTTC'', JStr ''0.00'')]),
           (''items'',
            JArr [JObj [(''productId'', JNum 1), (''productName'', JStr ''A''),
                        (''quantity'', JNum 0), (''priceHT'', JStr ''-5.00''),
                        (''totalHT'', JStr ''0.00'')]])]"



text \<open>
  Three fillings of the invoice form: the specification's scenario, a form with an unknown
  status, a tax rate of 99 and a negative price, and a single line of one unit at 0.50 with
  the 3 percent rate.
\<close>

definition scenarioForm :: createInvoiceForm where
  "scenarioForm =
     \<lparr>form_clientId = Some 1, form_status = ''en_attente'', form_tvaRate = ''18.00'',
      form_dueDate = Some ''2025-12-31'', form_notes = None,
      form_items =
        [\<lparr>form_productId = Some 1, form_productName = ''A'', form_quantity = 3,
          form_priceHT = ''1000''\<rparr>,
         \<lparr>form_productId = None, form_productName = ''Service'', form_quantity = 1,
          form_priceHT = ''500''\<rparr>]\<rparr>"


definition halfUnitForm :: createInvoiceForm where
  "halfUnitForm =
     \<lparr>form_clientId = Some 1, form_status = ''en_attente'', form_tvaRate = ''3.00'',
      form_dueDate = Some ''2025-12-31'', form_notes = None,
      form_items =
        [\<lparr>form_productId = None, form_productName = ''Service'', form_quantity = 1,
          form_priceHT = ''0.50''\<rparr>]\<rparr>"


section \<open>Lemmas on tables and on the stock loop\<close>

lemma firstRow_None_iff: "firstRow xs = None \<longleftrightarrow> xs = []"
  by (cases xs) simp_all

lemma firstRow_map: "firstRow (map f xs) = map_option f (firstRow xs)"
  by (cases xs) simp_all

lemma firstRow_filter_Some:
  "i < length xs \<Longrightarrow> P (xs ! i) \<Longrightarrow> \<exists>r. firstRow (filter P xs) = Some r \<and> P r"
proof -
  assume "i < length xs" "P (xs ! i)"
  then have "xs ! i \<in> set (filter P xs)" by simp
  then obtain r rs where rs: "filter P xs = r # rs" by (cases "filter P xs") auto
  then have "r \<in> set (filter P xs)" by simp
  then have "P r" by simp
  then show ?thesis using rs by simp
qed

lemma length_decrementStock: "length (decrementStock pid q u ps) = length ps"
  by (simp add: decrementStock_def)

lemma length_stockStep: "length (stockStep u item ps) = length ps"
  by (simp add: stockStep_def length_decrementStock split: option.split)

lemma length_fold_stockStep: "length (fold (stockStep u) items ps) = length ps"
  by (induction items arbitrary: ps) (simp_all add: length_stockStep)

lemma length_stockLoop: "length (stockLoop items u ps) = length ps"
  by (simp add: stockLoop_def length_fold_stockStep)

lemma nth_decrementStock:
  "i < length ps \<Longrightarrow> decrementStock pid q u ps ! i =
     (if product_id (ps ! i) = pid \<and> product_userId (ps ! i) = u
      then (ps ! i)\<lparr>product_stock := Some (greatest0 (product_stock (ps ! i)) q)\<rparr> else ps ! i)"
  by (simp add: decrementStock_def)

lemma greatest0_nonneg: "0 \<le> greatest0 st q"
  by (simp add: greatest0_def split: option.split)

lemma sum_quantity_nonneg:
  "list_all (\<lambda>it. 0 \<le> quantity it) items \<Longrightarrow> 0 \<le> sum_list (map quantity (filter P items))"
  by (induction items) auto

text \<open>
  The loop in closed form, at one row whose stock is a non-negative number: a row of the
  tenant loses the quantities of the items that reference it, down to zero at most.
\<close>

lemma stockLoop_row:
  assumes "list_all (\<lambda>it. 0 \<le> quantity it) items"
    and "i < length ps"
    and "product_stock (ps ! i) = Some n" and "0 \<le> n"
  shows "stockLoop items u ps ! i =
     (if product_userId (ps ! i) = u
      then (ps ! i)\<lparr>product_stock :=
             Some (max 0 (n - sum_list (map quantity
                     (filter (\<lambda>it. hasProduct it \<and> productId it = Some (product_id (ps ! i))) items))))\<rparr>
      else ps ! i)"
  using assms unfolding stockLoop_def
proof (induction items arbitrary: ps n)
  case Nil
  then show ?case by simp
next
  case (Cons it items)
  have q: "0 \<le> quantity it" and qs: "list_all (\<lambda>it. 0 \<le> quantity it) items"
    using Cons.prems(1) by simp_all
  show ?case
  proof (cases "hasProduct it")
    case False
    then show ?thesis using Cons.IH[OF qs Cons.prems(2,3,4)] by simp
  next
    case True
    then obtain pid where pid: "productId it = Some pid" "pid \<noteq> 0"
      by (auto simp: hasProduct_def split: option.splits)
    let ?ps' = "stockStep u it ps"
    have len: "i < length ?ps'" using Cons.prems(2) by (simp add: length_stockStep)
    show ?thesis
    proof (cases "product_id (ps ! i) = pid \<and> product_userId (ps ! i) = u")
      case hit: True
      have row: "?ps' ! i = (ps ! i)\<lparr>product_stock := Some (max 0 (n - quantity it))\<rparr>"
        using hit Cons.prems(2,3) pid by (simp add: stockStep_def nth_decrementStock greatest0_def)
      have st: "product_stock (?ps' ! i) = Some (max 0 (n - quantity it))" by (simp add: row)
      have nn: "0 \<le> sum_list (map quantity (filter (\<lambda>it. hasProduct it \<and> productId it = Some pid) items))"
        using qs by (rule sum_quantity_nonneg)
      have "0 \<le> max 0 (n - quantity it)" by simp
      from Cons.IH[OF qs len st this] show ?thesis
        using hit True pid q nn Cons.prems(4) by (auto simp: row max_def)
    next
      case miss: False
      have row: "?ps' ! i = ps ! i"
        using miss Cons.prems(2) pid by (auto simp: stockStep_def nth_decrementStock)
      have st: "product_stock (?ps' ! i) = Some n" using row Cons.prems(3) by simp
      from Cons.IH[OF qs len st Cons.prems(4)] show ?thesis
        using miss True pid by (auto simp: row)
    qed
  qed
qed

text \<open>
  The loop at one row, whatever the stock and the quantities: a row of the tenant goes
  through one clamped subtraction for each item that refers to it, in the order of the
  items; a null stock becomes 0 at the first of them.
\<close>

lemma stockLoop_nth:
  "i < length ps \<Longrightarrow> stockLoop items u ps ! i =
     (if product_userId (ps ! i) = u
      then (ps ! i)\<lparr>product_stock :=
             fold (\<lambda>q st. Some (case st of None \<Rightarrow> 0 | Some n \<Rightarrow> max 0 (n - q)))
                  (map quantity
                     (filter (\<lambda>it. productId it = Some (product_id (ps ! i)) \<and> product_id (ps ! i) \<noteq> 0)
                        items))
                  (product_stock (ps ! i))\<rparr>
      else ps ! i)"
  unfolding stockLoop_def
proof (induction items arbitrary: ps)
  case Nil
  then show ?case by simp
next
  case (Cons it items)
  show ?case
  proof (cases "hasProduct it")
    case False
    then have "productId it \<noteq> Some (product_id (ps ! i)) \<or> product_id (ps ! i) = 0"
      by (auto simp: hasProduct_def split: option.splits)
    then show ?thesis using False Cons.IH[OF Cons.prems] by auto
  next
    case True
    then obtain pid where pid: "productId it = Some pid" "pid \<noteq> 0"
      by (auto simp: hasProduct_def split: option.splits)
    let ?ps' = "stockStep u it ps"
    have len: "i < length ?ps'" using Cons.prems by (simp add: length_stockStep)
    have row: "?ps' ! i = (if product_id (ps ! i) = pid \<and> product_userId (ps ! i) = u
        then (ps ! i)\<lparr>product_stock := Some (greatest0 (product_stock (ps ! i)) (quantity it))\<rparr>
        else ps ! i)"
      using Cons.prems pid by (simp add: stockStep_def nth_decrementStock)
    show ?thesis
      using Cons.IH[OF len] True pid
      by (auto simp: row greatest0_def)
  qed
qed

lemma fold_clamp:
  "0 \<le> (n::int) \<Longrightarrow>
   \<exists>m. fold (\<lambda>q st. Some (case st of None \<Rightarrow> 0 | Some n \<Rightarrow> max 0 (n - q))) qs (Some n) = Some m \<and>
       0 \<le> m \<and> (list_all (\<lambda>q. 0 \<le> q) qs \<longrightarrow> m \<le> n)"
proof (induction qs arbitrary: n)
  case Nil
  then show ?case by simp
next
  case (Cons q qs)
  have "0 \<le> max 0 (n - q)" by simp
  from Cons.IH[OF this] obtain m where
    m: "fold (\<lambda>q st. Some (case st of None \<Rightarrow> 0 | Some n \<Rightarrow> max 0 (n - q))) qs (Some (max 0 (n - q))) = Some m"
       "0 \<le> m" "list_all (\<lambda>q. 0 \<le> q) qs \<longrightarrow> m \<le> max 0 (n - q)"
    by blast
  have "list_all (\<lambda>q. 0 \<le> q) (q # qs) \<longrightarrow> m \<le> n"
    using m(3) Cons.prems by auto
  then show ?case using m(1,2) by simp
qed

lemma stockLoop_row_clamped:
  assumes "i < length ps" and "product_stock (ps ! i) = Some n" and "0 \<le> n"
  shows "\<exists>m. product_stock (stockLoop items u ps ! i) = Some m \<and> 0 \<le> m \<and>
             (list_all (\<lambda>it. 0 \<le> quantity it) items \<longrightarrow> m \<le> n)"
proof -
  let ?qs = "map quantity
               (filter (\<lambda>it. productId it = Some (product_id (ps ! i)) \<and> product_id (ps ! i) \<noteq> 0) items)"
  from fold_clamp[OF assms(3), of ?qs] obtain m where
    m: "fold (\<lambda>q st. Some (case st of None \<Rightarrow> 0 | Some n \<Rightarrow> max 0 (n - q))) ?qs (Some n) = Some m"
       "0 \<le> m" "list_all (\<lambda>q. 0 \<le> q) ?qs \<longrightarrow> m \<le> n"
    by blast
  have "list_all (\<lambda>it. 0 \<le> quantity it) items \<Longrightarrow> list_all (\<lambda>q. 0 \<le> q) ?qs"
    by (simp add: list_all_iff)
  then have le: "list_all (\<lambda>it. 0 \<le> quantity it) items \<longrightarrow> m \<le> n" using m(3) by blast
  show ?thesis
  proof (cases "product_userId (ps ! i) = u")
    case True
    then have "product_stock (stockLoop items u ps ! i) = Some m"
      using assms(2) m(1) by (simp add: stockLoop_nth[OF assms(1)])
    then show ?thesis using m(2) le by blast
  next
    case False
    then have "product_stock (stockLoop items u ps ! i) = Some n"
      using assms(2) by (simp add: stockLoop_nth[OF assms(1)])
    then show ?thesis using assms(3) by simp
  qed
qed

lemma stockLoop_as_decrements:
  "stockLoop items u ps =
     fold (\<lambda>it ps. case productId it of
                      None \<Rightarrow> ps
                    | Some pid \<Rightarrow> if pid = 0 then ps else decrementStock pid (quantity it) u ps)
          items ps"
  unfolding stockLoop_def
  by (induction items arbitrary: ps) (auto simp: hasProduct_def stockStep_def split: option.splits)

text \<open>The invoice id that \<^verbatim>\<open>createInvoice\<close> adds to each item does not matter to the loop.\<close>

lemma stockLoop_with_invoiceId:
  "stockLoop (map (\<lambda>item. \<lparr>productId = productId item, productName = productName item,
                           quantity = quantity item, priceHT = priceHT item,
                           totalHT = totalHT item, invoiceId = k\<rparr>) items) u ps
   = stockLoop items u ps"
  unfolding stockLoop_def
  by (induction items arbitrary: ps) (simp_all add: hasProduct_def stockStep_def split: option.split)

lemma products_createInvoice:
  "products (snd (createInvoice newInv items s)) = stockLoop items (new_userId newInv) (products s)"
proof (cases "items = []")
  case True
  then show ?thesis by (simp add: createInvoice_def Let_def stockLoop_def)
next
  case False
  then show ?thesis
    by (simp add: createInvoice_def Let_def updateStockAfterInvoiceCreation_def
        stockLoop_with_invoiceId)
qed

lemma products_createSalesFromInvoice:
  "products (createSalesFromInvoice ident u s) =
     stockLoop (filter (\<lambda>it. invoiceId it = ident) (invoiceItems s)) u (products s)"
  by (simp add: createSalesFromInvoice_def Let_def stockLoop_def)

lemma invoiceItems_createSalesFromInvoice:
  "invoiceItems (createSalesFromInvoice ident u s) = invoiceItems s"
  by (simp add: createSalesFromInvoice_def Let_def)


lemma status_patch_not_empty: "set_status p = Some st \<Longrightarrow> \<not> invoicePatchEmpty p"
  by (simp add: invoicePatchEmpty_def)

lemma createSalesFromInvoice_invoices:
  "createSalesFromInvoice ident u (s\<lparr>invoices := xs\<rparr>) = (createSalesFromInvoice ident u s)\<lparr>invoices := xs\<rparr>"
  by (simp add: createSalesFromInvoice_def Let_def)

text \<open>What an update changes when it does not settle, and when it does.\<close>

lemma updateInvoice_result:
  assumes "\<not> invoicePatchEmpty p"
  shows "\<exists>r. updateInvoice ident p u s =
     Inr (r, (if settles p (getInvoice ident u s) then createSalesFromInvoice ident u s else s)
             \<lparr>invoices := map (\<lambda>r. if invoice_id r = ident \<and> invoice_userId r = u
                                    then applyInvoicePatch p r else r) (invoices s)\<rparr>)"
  using assms by (simp add: updateInvoice_def Let_def createSalesFromInvoice_invoices)

text \<open>
  The loop as the store runs it ends after all the items or at a refused update; what it
  leaves is what the loop over the items before that point writes.
\<close>

lemma tryStockLoop_ok:
  "fst (tryStockLoop items u ps) \<Longrightarrow> snd (tryStockLoop items u ps) = stockLoop items u ps"
  unfolding stockLoop_def
  by (induction items u ps rule: tryStockLoop.induct)
     (auto simp: hasProduct_def stockStep_def tryDecrementStock_def split: option.splits if_splits)

lemma tryStockLoop_prefix:
  "\<exists>k. snd (tryStockLoop items u ps) = stockLoop (take k items) u ps"
proof (induction items u ps rule: tryStockLoop.induct)
  case (1 u ps)
  show ?case by (simp add: stockLoop_def)
next
  case (2 item items u ps)
  show ?case
  proof (cases "productId item")
    case None
    then obtain k where "snd (tryStockLoop items u ps) = stockLoop (take k items) u ps"
      using 2(1) by blast
    then have "snd (tryStockLoop (item # items) u ps) = stockLoop (take (Suc k) (item # items)) u ps"
      using None by (simp add: stockLoop_def hasProduct_def)
    then show ?thesis by blast
  next
    case (Some pid)
    show ?thesis
    proof (cases "pid = 0")
      case True
      then obtain k where "snd (tryStockLoop items u ps) = stockLoop (take k items) u ps"
        using 2(2)[OF Some] by blast
      then have "snd (tryStockLoop (item # items) u ps) = stockLoop (take (Suc k) (item # items)) u ps"
        using Some True by (simp add: stockLoop_def hasProduct_def)
      then show ?thesis by blast
    next
      case False
      show ?thesis
      proof (cases "fst (tryDecrementStock pid (quantity item) u ps)")
        case ok: True
        then have d: "snd (tryDecrementStock pid (quantity item) u ps) = decrementStock pid (quantity item) u ps"
          by (simp add: tryDecrementStock_def split: if_splits)
        obtain k where "snd (tryStockLoop items u (decrementStock pid (quantity item) u ps))
            = stockLoop (take k items) u (decrementStock pid (quantity item) u ps)"
          using 2(3)[OF Some False ok] unfolding d by blast
        then have "snd (tryStockLoop (item # items) u ps) = stockLoop (take (Suc k) (item # items)) u ps"
          using Some False ok d by (simp add: stockLoop_def hasProduct_def stockStep_def)
        then show ?thesis by blast
      next
        case no: False
        have "snd (tryStockLoop (item # items) u ps) = stockLoop (take 0 (item # items)) u ps"
          using Some False no by (simp add: stockLoop_def)
        then show ?thesis by blast
      qed
    qed
  qed
qed

lemma tryStockLoop_row_clamped:
  assumes "i < length ps" and "product_stock (ps ! i) = Some n" and "0 \<le> n"
  shows "length (snd (tryStockLoop items u ps)) = length ps \<and>
         (\<exists>m. product_stock (snd (tryStockLoop items u ps) ! i) = Some m \<and> 0 \<le> m \<and>
             (list_all (\<lambda>it. 0 \<le> quantity it) items \<longrightarrow> m \<le> n))"
proof -
  obtain k where k: "snd (tryStockLoop items u ps) = stockLoop (take k items) u ps"
    using tryStockLoop_prefix by blast
  have "list_all (\<lambda>it. 0 \<le> quantity it) items \<Longrightarrow> list_all (\<lambda>it. 0 \<le> quantity it) (take k items)"
    by (auto simp: list_all_iff dest: in_set_takeD)
  then show ?thesis
    unfolding k using stockLoop_row_clamped[OF assms, of "take k items" u]
    by (auto simp: length_stockLoop)
qed

lemma tryStockLoop_as_decrements:
  "fst (tryStockLoop items u ps) \<Longrightarrow>
   snd (tryStockLoop items u ps) =
     fold (\<lambda>it ps. case productId it of
                      None \<Rightarrow> ps
                    | Some pid \<Rightarrow> if pid = 0 then ps
                                  else snd (tryDecrementStock pid (quantity it) u ps))
          items ps"
  by (induction items u ps rule: tryStockLoop.induct) (auto split: option.splits if_splits)

lemma tryUpdateStockAfterInvoiceCreation_ok:
  "fst (tryUpdateStockAfterInvoiceCreation items u s) \<Longrightarrow>
   snd (tryUpdateStockAfterInvoiceCreation items u s) = updateStockAfterInvoiceCreation items u s"
  using tryStockLoop_ok[of items u "products s"]
  by (auto simp: tryUpdateStockAfterInvoiceCreation_def updateStockAfterInvoiceCreation_def
      split: prod.splits)

lemma tryCreateSalesFromInvoice_ok:
  assumes "fst (tryCreateSalesFromInvoice ident u s)"
  shows "snd (tryCreateSalesFromInvoice ident u s) = createSalesFromInvoice ident u s"
proof -
  let ?items = "filter (\<lambda>it. invoiceId it = ident) (invoiceItems s)"
  obtain ok ps where sl: "tryStockLoop ?items u (products s) = (ok, ps)"
    by (cases "tryStockLoop ?items u (products s)")
  have ok: "ok" and sn: "snd (tryCreateSalesFromInvoice ident u s) = (createSalesFromInvoice ident u s)\<lparr>products := ps\<rparr>"
    using assms by (auto simp: tryCreateSalesFromInvoice_def Let_def sl split: if_splits)
  have "ps = stockLoop ?items u (products s)"
    using tryStockLoop_ok[of ?items u "products s"] sl ok by simp
  then have "ps = products (createSalesFromInvoice ident u s)"
    by (simp add: products_createSalesFromInvoice)
  then show ?thesis unfolding sn by simp
qed

lemma products_tryCreateSalesFromInvoice:
  "products (snd (tryCreateSalesFromInvoice ident u s)) = products s \<or>
   products (snd (tryCreateSalesFromInvoice ident u s)) =
     snd (tryStockLoop (filter (\<lambda>it. invoiceId it = ident) (invoiceItems s)) u (products s))"
  by (simp add: tryCreateSalesFromInvoice_def Let_def split: prod.split)


section \<open>The scenario, step by step\<close>

lemmas storage_defs = createInvoice_def insertInvoiceRow_def updateStockAfterInvoiceCreation_def
  updateInvoice_def getInvoice_def invoicePatchEmpty_def settles_def applyInvoicePatch_def
  createSalesFromInvoice_def saleOfItem_def stockLoop_def stockStep_def hasProduct_def
  decrementStock_def greatest0_def isPaid_def

lemmas example_defs = shop_def pendingShop_def settledShop_def paidAtCreationShop_def shopState_def
  scenarioItems_def scenarioInvoice_def scenarioRow_def scenarioItemRows_def scenarioSale_def statusPatch_def

lemma createInvoice_scenario:
  "createInvoice (scenarioInvoice ''en_attente'') scenarioItems shop = (scenarioRow ''en_attente'', pendingShop)"
  by (simp add: example_defs createInvoice_def insertInvoiceRow_def updateStockAfterInvoiceCreation_def
      stockLoop_def stockStep_def hasProduct_def decrementStock_def greatest0_def Let_def)

lemma updateInvoice_scenario:
  "updateInvoice 1 (statusPatch ''payee'') ''alice'' pendingShop = Inr (Some (scenarioRow ''payee''), settledShop)"
  by (simp add: example_defs updateInvoice_def getInvoice_def invoicePatchEmpty_def settles_def
      applyInvoicePatch_def createSalesFromInvoice_def saleOfItem_def
      stockLoop_def stockStep_def hasProduct_def decrementStock_def greatest0_def Let_def)

lemma createInvoice_paid:
  "createInvoice (scenarioInvoice ''payee'') scenarioItems shop = (scenarioRow ''payee'', paidAtCreationShop)"
  by (simp add: example_defs createInvoice_def insertInvoiceRow_def updateStockAfterInvoiceCreation_def
      stockLoop_def stockStep_def hasProduct_def decrementStock_def greatest0_def Let_def)

lemma updateInvoice_paid:
  "updateInvoice 1 (statusPatch ''payee'') ''alice'' paidAtCreationShop = Inr (Some (scenarioRow ''payee''), paidAtCreationShop)"
  by (simp add: example_defs updateInvoice_def getInvoice_def invoicePatchEmpty_def settles_def
      applyInvoicePatch_def createSalesFromInvoice_def saleOfItem_def
      stockLoop_def stockStep_def hasProduct_def decrementStock_def greatest0_def Let_def)

lemma deleteInvoice_bob:
  "deleteInvoice 1 ''bob'' settledShop = shopState (Some 0) [scenarioRow ''payee''] [] []\<lparr>invoiceItems_seq := 3, sales_seq := 2\<rparr>"
  by (simp add: example_defs deleteInvoice_def deleteInvoiceRow_def deleteItemsOf_def deleteSalesOf_def)

lemma updateInvoice_bob:
  "updateInvoice 1 (statusPatch ''payee'') ''bob'' pendingShop = Inr (None, shopState (Some 2) [scenarioRow ''en_attente''] scenarioItemRows [scenarioSale ''bob''])"
  by (simp add: example_defs updateInvoice_def getInvoice_def invoicePatchEmpty_def settles_def
      applyInvoicePatch_def createSalesFromInvoice_def saleOfItem_def
      stockLoop_def stockStep_def hasProduct_def decrementStock_def greatest0_def Let_def)



section \<open>Calls that the store takes or refuses\<close>

lemma floor_rat_numeral: "\<lfloor>numeral a / numeral b :: rat\<rfloor> = numeral a div numeral b"
  using floor_divide_of_int_eq[of "numeral a" "numeral b", where ?'a = rat] by simp

lemmas numeric_defs = takesDecimal_def storeDecimal_def asStored_def numericIn_def afterPoint_def
  exponentIn_def isNaNText_def signOf_def isDigit_def isSpace_def digitsValue_def pow10_def
  floor_rat_numeral

lemmas store_defs = takesInvoice_def takesItem_def takesSale_def takesText_def badText_def
  badNullableText_def badDecimal_def clientExists_def userExists_def productExists_def
  categoryExists_def invoiceExists_def stockOverflows_def int32_def tryDecrementStock_def

lemma takesDecimal_examples:
  "takesDecimal 8 ''0.00''" "takesDecimal 3 ''99.00''" "takesDecimal 8 ''-5.00''"
  "takesDecimal 8 ''1000''" "takesDecimal 8 ''1000.00''" "takesDecimal 8 ''500''"
  "takesDecimal 8 ''500.00''" "takesDecimal 8 ''3000.00''" "takesDecimal 8 ''3500.00''"
  "takesDecimal 3 ''18.00''" "takesDecimal 8 ''630.00''" "takesDecimal 8 ''4130.00''"
  "takesDecimal 8 '' 1e3 ''" "takesDecimal 8 ''nan''" "takesDecimal 8 ''99999999.994''"
  "\<not> takesDecimal 8 ''abc''" "\<not> takesDecimal 3 ''1000.00''" "\<not> takesDecimal 8 ''''"
  "\<not> takesDecimal 8 ''1e''" "\<not> takesDecimal 8 ''100000000''" "\<not> takesDecimal 8 ''99999999.995''"
  by (simp_all add: numeric_defs)

lemma storeDecimal_examples:
  "storeDecimal ''99.00'' = ''99.00''" "storeDecimal ''1000'' = ''1000.00''"
  "storeDecimal ''-5.00'' = ''-5.00''" "storeDecimal ''0.00'' = ''0.00''"
  "storeDecimal ''-0.001'' = ''0.00''" "storeDecimal ''18.005'' = ''18.01''"
  by (simp_all add: numeric_defs showNat.simps digitChar_def Let_def)

text \<open>
  A call that is refused nowhere returns what the storage function gives, and a call
  that returns has done what the storage function does.
\<close>

lemma tryCreateInvoice_ok:
  assumes "takesInvoice takesDate v s" and "list_all (takesItem s) items"
    and "fst (tryStockLoop items (new_userId v) (products s))"
  shows "tryCreateInvoice takesDate v items s =
           (Inr (fst (createInvoice v items s)), snd (createInvoice v items s))"
proof -
  obtain ok ps where sl: "tryStockLoop items (new_userId v) (products s) = (ok, ps)"
    by (cases "tryStockLoop items (new_userId v) (products s)")
  have ok: "ok" using assms(3) sl by simp
  have "ps = stockLoop items (new_userId v) (products s)"
    using tryStockLoop_ok[OF assms(3)] sl by simp
  then have ps: "ps = products (snd (createInvoice v items s))"
    by (simp add: products_createInvoice)
  show ?thesis
    using assms(1,2) ok by (simp add: tryCreateInvoice_def sl ps)
qed


lemma tryCreateInvoice_returns:
  assumes "tryCreateInvoice takesDate v items s = (Inr r, s')"
  shows "createInvoice v items s = (r, s')"
proof -
  obtain ok ps where sl: "tryStockLoop items (new_userId v) (products s) = (ok, ps)"
    by (cases "tryStockLoop items (new_userId v) (products s)")
  have all: "takesInvoice takesDate v s \<and> list_all (takesItem s) items \<and> ok"
    using assms by (auto simp: tryCreateInvoice_def sl split: if_splits)
  then have "fst (tryStockLoop items (new_userId v) (products s))" by (simp add: sl)
  from tryCreateInvoice_ok[OF all[THEN conjunct1] all[THEN conjunct2, THEN conjunct1] this]
  show ?thesis using assms by (cases "createInvoice v items s") simp
qed

lemma tryCreateSalesFromInvoice_invoices:
  assumes "map invoice_id xs = map invoice_id (invoices s)"
  shows "tryCreateSalesFromInvoice ident u (s\<lparr>invoices := xs\<rparr>) =
           (fst (tryCreateSalesFromInvoice ident u s),
            (snd (tryCreateSalesFromInvoice ident u s))\<lparr>invoices := xs\<rparr>)"
proof -
  have "list_ex (\<lambda>r. invoice_id r = k) xs = list_ex (\<lambda>r. invoice_id r = k) (invoices s)" for k
  proof -
    have im: "invoice_id ` set xs = invoice_id ` set (invoices s)"
      using arg_cong[OF assms, of set] by simp
    have le: "list_ex (\<lambda>r. invoice_id r = k) ys = (k \<in> invoice_id ` set ys)" for ys
      by (auto simp: list_ex_iff)
    show ?thesis by (simp only: le im)
  qed
  then have ts: "takesSale (s\<lparr>invoices := xs\<rparr>) = takesSale s"
    by (auto simp: takesSale_def invoiceExists_def productExists_def userExists_def fun_eq_iff)
  show ?thesis
    by (simp add: tryCreateSalesFromInvoice_def Let_def ts createSalesFromInvoice_invoices
        split: prod.split)
qed

lemma invoice_ids_after_update:
  "map invoice_id (map (\<lambda>r. if P r then applyInvoicePatch p r else r) xs) = map invoice_id xs"
  by (induction xs) (simp_all add: applyInvoicePatch_def)

lemma tryUpdateInvoice_cases:
  assumes "\<not> invoicePatchEmpty p"
  shows "\<exists>r. updateInvoice ident p u s =
            Inr (r, (if settles p (getInvoice ident u s) then createSalesFromInvoice ident u s else s)
                    \<lparr>invoices := map (\<lambda>r. if invoice_id r = ident \<and> invoice_userId r = u
                                           then applyInvoicePatch p r else r) (invoices s)\<rparr>)
          \<and> tryUpdateInvoice ident p u s =
            (if refusesInvoiceUpdate ident p u s then (Inl StoreError, s)
             else if settles p (getInvoice ident u s)
             then (if fst (tryCreateSalesFromInvoice ident u s) then Inr r else Inl StoreError,
                   (snd (tryCreateSalesFromInvoice ident u s))
                     \<lparr>invoices := map (\<lambda>r. if invoice_id r = ident \<and> invoice_userId r = u
                                            then applyInvoicePatch p r else r) (invoices s)\<rparr>)
             else (Inr r, s\<lparr>invoices := map (\<lambda>r. if invoice_id r = ident \<and> invoice_userId r = u
                                                  then applyInvoicePatch p r else r) (invoices s)\<rparr>))"
proof -
  let ?upd = "map (\<lambda>r. if invoice_id r = ident \<and> invoice_userId r = u
                        then applyInvoicePatch p r else r) (invoices s)"
  obtain r where upd: "updateInvoice ident p u s =
     Inr (r, (if settles p (getInvoice ident u s) then createSalesFromInvoice ident u s else s)
             \<lparr>invoices := ?upd\<rparr>)"
    using updateInvoice_result[OF assms, of ident u s] by blast
  have ids: "map invoice_id ?upd = map invoice_id (invoices s)"
    by (rule invoice_ids_after_update)
  have "tryUpdateInvoice ident p u s =
            (if refusesInvoiceUpdate ident p u s then (Inl StoreError, s)
             else if settles p (getInvoice ident u s)
             then (if fst (tryCreateSalesFromInvoice ident u s) then Inr r else Inl StoreError,
                   (snd (tryCreateSalesFromInvoice ident u s))\<lparr>invoices := ?upd\<rparr>)
             else (Inr r, s\<lparr>invoices := ?upd\<rparr>))"
    by (simp add: tryUpdateInvoice_def upd tryCreateSalesFromInvoice_invoices[OF ids])
  then show ?thesis using upd by blast
qed

lemma tryUpdateInvoice_returns:
  assumes "tryUpdateInvoice ident p u s = (Inr r, s')"
  shows "updateInvoice ident p u s = Inr (r, s')"
proof -
  have ne: "\<not> invoicePatchEmpty p"
    using assms by (auto simp: tryUpdateInvoice_def updateInvoice_def Let_def split: if_splits)
  from tryUpdateInvoice_cases[OF ne, of ident u s] obtain r0 where
    c: "updateInvoice ident p u s =
            Inr (r0, (if settles p (getInvoice ident u s) then createSalesFromInvoice ident u s else s)
                    \<lparr>invoices := map (\<lambda>r. if invoice_id r = ident \<and> invoice_userId r = u
                                           then applyInvoicePatch p r else r) (invoices s)\<rparr>)"
       "tryUpdateInvoice ident p u s =
            (if refusesInvoiceUpdate ident p u s then (Inl StoreError, s)
             else if settles p (getInvoice ident u s)
             then (if fst (tryCreateSalesFromInvoice ident u s) then Inr r0 else Inl StoreError,
                   (snd (tryCreateSalesFromInvoice ident u s))
                     \<lparr>invoices := map (\<lambda>r. if invoice_id r = ident \<and> invoice_userId r = u
                                            then applyInvoicePatch p r else r) (invoices s)\<rparr>)
             else (Inr r0, s\<lparr>invoices := map (\<lambda>r. if invoice_id r = ident \<and> invoice_userId r = u
                                                  then applyInvoicePatch p r else r) (invoices s)\<rparr>))"
    by blast
  show ?thesis
    using assms unfolding c
    by (auto simp: tryCreateSalesFromInvoice_ok split: if_splits)
qed

lemma tryUpdateInvoice_ok:
  assumes "\<not> invoicePatchEmpty p" and "\<not> refusesInvoiceUpdate ident p u s"
    and "settles p (getInvoice ident u s) \<longrightarrow> fst (tryCreateSalesFromInvoice ident u s)"
  shows "\<exists>r s'. tryUpdateInvoice ident p u s = (Inr r, s') \<and> updateInvoice ident p u s = Inr (r, s')"
proof -
  from tryUpdateInvoice_cases[OF assms(1), of ident u s] obtain r0 where
    c: "tryUpdateInvoice ident p u s =
            (if refusesInvoiceUpdate ident p u s then (Inl StoreError, s)
             else if settles p (getInvoice ident u s)
             then (if fst (tryCreateSalesFromInvoice ident u s) then Inr r0 else Inl StoreError,
                   (snd (tryCreateSalesFromInvoice ident u s))
                     \<lparr>invoices := map (\<lambda>r. if invoice_id r = ident \<and> invoice_userId r = u
                                            then applyInvoicePatch p r else r) (invoices s)\<rparr>)
             else (Inr r0, s\<lparr>invoices := map (\<lambda>r. if invoice_id r = ident \<and> invoice_userId r = u
                                                  then applyInvoicePatch p r else r) (invoices s)\<rparr>))"
    by blast
  then obtain s' where "tryUpdateInvoice ident p u s = (Inr r0, s')"
    using assms(2,3) by (auto split: if_splits)
  then show ?thesis using tryUpdateInvoice_returns by blast
qed

lemma tryUpdateInvoice_quiet:
  assumes "\<not> settles p (getInvoice ident u s)"
  shows "sales (snd (tryUpdateInvoice ident p u s)) = sales s \<and>
         products (snd (tryUpdateInvoice ident p u s)) = products s"
  using assms
  by (auto simp: tryUpdateInvoice_def updateInvoice_def Let_def split: sum.splits if_splits)

lemma tryUpdate_returns:
  "(tryUpdateClient ident pc u s = (Inr rc, sc) \<longrightarrow> updateClient ident pc u s = Inr (rc, sc))
   \<and> (tryUpdateProduct ident pp u s = (Inr rp, sp) \<longrightarrow> updateProduct ident pp u s = Inr (rp, sp))
   \<and> (tryUpdateCategory ident pg u s = (Inr rg, sg) \<longrightarrow> updateCategory ident pg u s = Inr (rg, sg))"
  by (auto simp: tryUpdateClient_def tryUpdateProduct_def tryUpdateCategory_def
      split: sum.splits if_splits)

text \<open>The store takes every step of the scenario.\<close>

lemma scenario_is_taken:
  "tryCreateInvoice noDate (scenarioInvoice ''en_attente'') scenarioItems shop
     = (Inr (scenarioRow ''en_attente''), pendingShop)
   \<and> tryUpdateInvoice 1 (statusPatch ''payee'') ''alice'' pendingShop
     = (Inr (Some (scenarioRow ''payee'')), settledShop)
   \<and> tryCreateInvoice noDate (scenarioInvoice ''payee'') scenarioItems shop
     = (Inr (scenarioRow ''payee''), paidAtCreationShop)
   \<and> tryUpdateInvoice 1 (statusPatch ''payee'') ''alice'' paidAtCreationShop
     = (Inr (Some (scenarioRow ''payee'')), paidAtCreationShop)
   \<and> tryUpdateInvoice 1 (statusPatch ''payee'') ''bob'' pendingShop
     = (Inr None, shopState (Some 2) [scenarioRow ''en_attente''] scenarioItemRows [scenarioSale ''bob''])"
  by (simp add: tryCreateInvoice_def tryUpdateInvoice_def tryCreateSalesFromInvoice_def
      refusesInvoiceUpdate_def store_defs takesDecimal_examples noDate_def example_defs storage_defs
      Let_def)


section \<open>Stock\<close>

lemma runStockOperation_frame:
  "invoiceItems (runStockOperation op s) = invoiceItems s"
  by (cases op)
     (simp_all add: tryUpdateStockAfterInvoiceCreation_def tryCreateSalesFromInvoice_def Let_def
        invoiceItems_createSalesFromInvoice split: prod.split)

lemma runStockOperation_clamped:
  assumes "i < length (products s)"
    and "product_stock (products s ! i) = Some n" and "0 \<le> n"
  shows "length (products (runStockOperation op s)) = length (products s) \<and>
         (\<exists>m. product_stock (products (runStockOperation op s) ! i) = Some m \<and> 0 \<le> m \<and>
             (validStockOperation op \<and> list_all (\<lambda>it. 0 \<le> quantity it) (invoiceItems s) \<longrightarrow> m \<le> n))"
proof (cases op)
  case (AfterInvoiceCreation items u)
  then show ?thesis
    using tryStockLoop_row_clamped[OF assms, of items u]
    by (auto simp: tryUpdateStockAfterInvoiceCreation_def split: prod.split)
next
  case (SalesFromInvoice ident u)
  let ?items = "filter (\<lambda>it. invoiceId it = ident) (invoiceItems s)"
  have v: "list_all (\<lambda>it. 0 \<le> quantity it) (invoiceItems s) \<Longrightarrow> list_all (\<lambda>it. 0 \<le> quantity it) ?items"
    by (simp add: list_all_iff)
  from products_tryCreateSalesFromInvoice[of ident u s] show ?thesis
  proof
    assume "products (snd (tryCreateSalesFromInvoice ident u s)) = products s"
    then show ?thesis using SalesFromInvoice assms by simp
  next
    assume "products (snd (tryCreateSalesFromInvoice ident u s)) = snd (tryStockLoop ?items u (products s))"
    then show ?thesis
      using SalesFromInvoice tryStockLoop_row_clamped[OF assms, of ?items u] v by auto
  qed
qed

lemma run_clamped:
  assumes "i < length (products s)"
    and "product_stock (products s ! i) = Some n" and "0 \<le> n"
  shows "\<exists>m. product_stock (products (fold runStockOperation ops s) ! i) = Some m \<and> 0 \<le> m \<and>
             (list_all validStockOperation ops \<and> list_all (\<lambda>it. 0 \<le> quantity it) (invoiceItems s)
              \<longrightarrow> m \<le> n)"
  using assms
proof (induction ops arbitrary: s n)
  case Nil
  then show ?case by simp
next
  case (Cons op ops)
  let ?s = "runStockOperation op s"
  from runStockOperation_clamped[OF Cons.prems, of op]
  obtain m where len: "length (products ?s) = length (products s)"
    and m: "product_stock (products ?s ! i) = Some m" "0 \<le> m"
    "validStockOperation op \<and> list_all (\<lambda>it. 0 \<le> quantity it) (invoiceItems s) \<longrightarrow> m \<le> n"
    by blast
  have len': "i < length (products ?s)" using Cons.prems(1) len by simp
  from Cons.IH[OF len' m(1,2)]
  obtain k where k: "product_stock (products (fold runStockOperation ops ?s) ! i) = Some k"
    "0 \<le> k"
    "list_all validStockOperation ops \<and> list_all (\<lambda>it. 0 \<le> quantity it) (invoiceItems ?s) \<longrightarrow> k \<le> m"
    by blast
  have "list_all validStockOperation (op # ops) \<and> list_all (\<lambda>it. 0 \<le> quantity it) (invoiceItems s)
        \<longrightarrow> k \<le> n"
    using m(3) k(3) by (auto simp: runStockOperation_frame)
  then show ?case using k(1,2) by simp
qed

text \<open>
  Claim C6, as stated, fails. The server takes an item with a negative quantity, and the
  decrement for a quantity of -3 takes the stock of product 1 from 5 to 8, alone and
  through the creation of an invoice; a stock of -4 or a null stock is raised to 0 by a
  decrement of 1.
\<close>

theorem negative_quantity_raises_stock:
  "map product_stock (products shop) = [Some 5, Some 2]
   \<and> fst (tryDecrementStock 1 (- 3) ''alice'' (products shop))
   \<and> map product_stock (snd (tryDecrementStock 1 (- 3) ''alice'' (products shop))) = [Some 8, Some 2]
   \<and> fst (tryCreateInvoice noDate (scenarioInvoice ''en_attente'') [lineOf (Some 1) (- 3)] shop)
       = Inr (scenarioRow ''en_attente'')
   \<and> map product_stock (products (snd (tryCreateInvoice noDate (scenarioInvoice ''en_attente'')
         [lineOf (Some 1) (- 3)] shop))) = [Some 8, Some 2]
   \<and> map product_stock (snd (tryDecrementStock 1 1 ''alice'' (products (shopState (Some (- 4)) [] [] []))))
       = [Some 0, Some 2]
   \<and> map product_stock (snd (tryDecrementStock 1 1 ''alice'' (products (shopState None [] [] []))))
       = [Some 0, Some 2]"
  by (simp add: tryCreateInvoice_def store_defs takesDecimal_examples lineOf_def noDate_def
      example_defs storage_defs Let_def)

text \<open>
  Claim C6, amended. A decrement is refused when the subtraction leaves 32 bits; otherwise
  it sets the stock of the row with the given id and tenant to
  \<open>max 0 (stock - quantity)\<close>, to 0 when the stock is null, and leaves every other row as
  it is. The two stock operations, when nothing is refused, are one such decrement for each
  item with a product reference, in order. So what a decrement writes is never negative,
  and a stock that is a non-negative number stays one through any run of stock operations,
  refused or not; it does not grow when, in addition, no quantity is negative.
\<close>

theorem decrement_writes_clamped_difference:
  assumes "i < length (products s)"
  shows "fst (tryDecrementStock pid q u (products s)) = (\<not> stockOverflows pid q u (products s))
     \<and> snd (tryDecrementStock pid q u (products s)) ! i =
           (if fst (tryDecrementStock pid q u (products s)) \<and>
               product_id (products s ! i) = pid \<and> product_userId (products s ! i) = u
            then (products s ! i)\<lparr>product_stock :=
                   Some (case product_stock (products s ! i) of None \<Rightarrow> 0 | Some n \<Rightarrow> max 0 (n - q))\<rparr>
            else products s ! i)
     \<and> (fst (tryUpdateStockAfterInvoiceCreation items u s) \<longrightarrow>
          products (snd (tryUpdateStockAfterInvoiceCreation items u s)) =
            fold (\<lambda>it ps. case productId it of
                             None \<Rightarrow> ps
                           | Some pid \<Rightarrow> if pid = 0 then ps
                                         else snd (tryDecrementStock pid (quantity it) u ps))
                 items (products s))
     \<and> (fst (tryCreateSalesFromInvoice ident u s) \<longrightarrow>
          products (snd (tryCreateSalesFromInvoice ident u s)) =
            fold (\<lambda>it ps. case productId it of
                             None \<Rightarrow> ps
                           | Some pid \<Rightarrow> if pid = 0 then ps
                                         else snd (tryDecrementStock pid (quantity it) u ps))
                 (filter (\<lambda>it. invoiceId it = ident) (invoiceItems s)) (products s))
     \<and> (product_stock (products s ! i) = Some n \<and> 0 \<le> n \<longrightarrow>
          (\<exists>m. product_stock (products (fold runStockOperation ops s) ! i) = Some m \<and> 0 \<le> m \<and>
               (list_all validStockOperation ops \<and> list_all (\<lambda>it. 0 \<le> quantity it) (invoiceItems s)
                \<longrightarrow> m \<le> n)))"
proof -
  let ?dec = "\<lambda>it ps. case productId it of
                             None \<Rightarrow> ps
                           | Some pid \<Rightarrow> if pid = 0 then ps
                                         else snd (tryDecrementStock pid (quantity it) u ps)"
  have a: "fst (tryDecrementStock pid q u (products s)) = (\<not> stockOverflows pid q u (products s))"
    by (simp add: tryDecrementStock_def)
  have b: "snd (tryDecrementStock pid q u (products s)) ! i =
           (if fst (tryDecrementStock pid q u (products s)) \<and>
               product_id (products s ! i) = pid \<and> product_userId (products s ! i) = u
            then (products s ! i)\<lparr>product_stock :=
                   Some (case product_stock (products s ! i) of None \<Rightarrow> 0 | Some n \<Rightarrow> max 0 (n - q))\<rparr>
            else products s ! i)"
    using assms by (simp add: tryDecrementStock_def nth_decrementStock greatest0_def)
  have c: "fst (tryUpdateStockAfterInvoiceCreation items u s) \<longrightarrow>
          products (snd (tryUpdateStockAfterInvoiceCreation items u s)) = fold ?dec items (products s)"
    using tryStockLoop_as_decrements[of items u "products s"]
    by (auto simp: tryUpdateStockAfterInvoiceCreation_def split: prod.splits)
  have d: "fst (tryCreateSalesFromInvoice ident u s) \<longrightarrow>
          products (snd (tryCreateSalesFromInvoice ident u s)) =
            fold ?dec (filter (\<lambda>it. invoiceId it = ident) (invoiceItems s)) (products s)"
    using tryStockLoop_as_decrements[of "filter (\<lambda>it. invoiceId it = ident) (invoiceItems s)" u "products s"]
    by (auto simp: tryCreateSalesFromInvoice_def Let_def split: prod.splits if_splits)
  have e: "product_stock (products s ! i) = Some n \<and> 0 \<le> n \<longrightarrow>
          (\<exists>m. product_stock (products (fold runStockOperation ops s) ! i) = Some m \<and> 0 \<le> m \<and>
               (list_all validStockOperation ops \<and> list_all (\<lambda>it. 0 \<le> quantity it) (invoiceItems s)
                \<longrightarrow> m \<le> n))"
    using run_clamped[OF assms, of n ops] by blast
  show ?thesis using a b c d e by blast
qed

theorem decrement_writes_clamped_difference_witness:
  "product_stock (products shop ! 0) = Some 5
   \<and> fst (tryDecrementStock 1 3 ''alice'' (products shop))
   \<and> product_stock (snd (tryDecrementStock 1 3 ''alice'' (products shop)) ! 0) = Some 2
   \<and> product_stock (snd (tryDecrementStock 1 7 ''alice'' (products shop)) ! 0) = Some 0
   \<and> fst (tryUpdateStockAfterInvoiceCreation scenarioProductItems ''alice'' shop)
   \<and> map product_stock (products (snd (tryUpdateStockAfterInvoiceCreation scenarioProductItems ''alice'' shop)))
       = [Some 2, Some 2]
   \<and> fst (tryCreateSalesFromInvoice 1 ''alice'' pendingShop)
   \<and> map product_stock (products (snd (tryCreateSalesFromInvoice 1 ''alice'' pendingShop)))
       = [Some 0, Some 2]
   \<and> (\<exists>m. product_stock (products (fold runStockOperation
             [AfterInvoiceCreation scenarioProductItems ''alice'',
              AfterInvoiceCreation scenarioProductItems ''alice''] shop) ! 0) = Some m
          \<and> 0 \<le> m \<and> m \<le> 5)"
proof -
  have h: "0 < length (products shop)" by (simp add: example_defs)
  have h': "0 < length (products pendingShop)" by (simp add: example_defs)
  have st: "product_stock (products shop ! 0) = Some 5" by (simp add: example_defs)
  have v: "list_all validStockOperation
             [AfterInvoiceCreation scenarioProductItems ''alice'',
              AfterInvoiceCreation scenarioProductItems ''alice'']"
    "list_all (\<lambda>it. 0 \<le> quantity it) (invoiceItems shop)"
    by (simp_all add: scenarioProductItems_def example_defs)
  have ok: "\<not> stockOverflows 1 3 ''alice'' (products shop)"
    "\<not> stockOverflows 1 7 ''alice'' (products shop)"
    "\<not> stockOverflows 1 3 ''alice'' (products pendingShop)"
    by (simp_all add: stockOverflows_def int32_def example_defs)
  have f1: "fst (tryUpdateStockAfterInvoiceCreation scenarioProductItems ''alice'' shop)"
    by (simp add: tryUpdateStockAfterInvoiceCreation_def scenarioProductItems_def ok tryDecrementStock_def
        split: prod.split)
  have f2: "fst (tryCreateSalesFromInvoice 1 ''alice'' pendingShop)"
    by (simp add: tryCreateSalesFromInvoice_def Let_def split: prod.split)
       (simp add: example_defs hasProduct_def saleOfItem_def store_defs takesDecimal_examples)
  note t3 = decrement_writes_clamped_difference[OF h, where pid = 1 and q = 3 and u = "''alice''"
      and items = scenarioProductItems and ident = 1 and n = 5
      and ops = "[AfterInvoiceCreation scenarioProductItems ''alice'',
                  AfterInvoiceCreation scenarioProductItems ''alice'']"]
  note t7 = decrement_writes_clamped_difference[OF h, where pid = 1 and q = 7 and u = "''alice''"
      and items = scenarioProductItems and ident = 1 and n = 5 and ops = "[]"]
  note tp = decrement_writes_clamped_difference[OF h', where pid = 1 and q = 3 and u = "''alice''"
      and items = scenarioProductItems and ident = 1 and n = 2 and ops = "[]"]
  have a0: "fst (tryDecrementStock 1 3 ''alice'' (products shop))"
    using t3 ok by simp
  have a: "product_stock (snd (tryDecrementStock 1 3 ''alice'' (products shop)) ! 0) = Some 2"
    using t3 ok by (simp add: example_defs)
  have b: "product_stock (snd (tryDecrementStock 1 7 ''alice'' (products shop)) ! 0) = Some 0"
    using t7 ok by (simp add: example_defs)
  have c: "map product_stock (products (snd (tryUpdateStockAfterInvoiceCreation scenarioProductItems ''alice'' shop)))
       = [Some 2, Some 2]"
    using t3 f1 ok by (simp add: example_defs scenarioProductItems_def tryDecrementStock_def
        stockOverflows_def int32_def decrementStock_def greatest0_def)
  have d: "map product_stock (products (snd (tryCreateSalesFromInvoice 1 ''alice'' pendingShop))) = [Some 0, Some 2]"
    using tp f2 by (simp add: example_defs tryDecrementStock_def
        stockOverflows_def int32_def decrementStock_def greatest0_def)
  have e: "\<exists>m. product_stock (products (fold runStockOperation
             [AfterInvoiceCreation scenarioProductItems ''alice'',
              AfterInvoiceCreation scenarioProductItems ''alice''] shop) ! 0) = Some m
          \<and> 0 \<le> m \<and> m \<le> 5"
    using t3[THEN conjunct2, THEN conjunct2, THEN conjunct2, THEN conjunct2] st v by simp
  show ?thesis using st a0 a b c d e f1 f2 by blast
qed

text \<open>
  What creating an invoice does to the stock, whatever the status of the invoice: a product
  row of the creating tenant, with a non-negative stock, loses the quantities of the items
  that reference it (down to zero at most), and any other row is left as it is. An update
  of an invoice that does not pass the settlement guard leaves the products unchanged.
\<close>

lemma createInvoice_stock_row:
  assumes "list_all (\<lambda>it. 0 \<le> quantity it) items"
    and "i < length (products s)"
    and "product_stock (products s ! i) = Some n" and "0 \<le> n"
  shows "length (products (snd (createInvoice newInv items s))) = length (products s)
    \<and> products (snd (createInvoice newInv items s)) ! i =
       (if product_userId (products s ! i) = new_userId newInv
        then (products s ! i)\<lparr>product_stock :=
               Some (max 0 (n - sum_list (map quantity
                 (filter (\<lambda>it. hasProduct it \<and> productId it = Some (product_id (products s ! i))) items))))\<rparr>
        else products s ! i)
    \<and> (case updateInvoice ident p u t of
          Inl e \<Rightarrow> True
        | Inr (r, t') \<Rightarrow> settles p (getInvoice ident u t) \<or> products t' = products t)"
proof -
  have a: "length (products (snd (createInvoice newInv items s))) = length (products s)"
    by (simp add: products_createInvoice length_stockLoop)
  have b: "products (snd (createInvoice newInv items s)) ! i =
       (if product_userId (products s ! i) = new_userId newInv
        then (products s ! i)\<lparr>product_stock :=
               Some (max 0 (n - sum_list (map quantity
                 (filter (\<lambda>it. hasProduct it \<and> productId it = Some (product_id (products s ! i))) items))))\<rparr>
        else products s ! i)"
    unfolding products_createInvoice by (rule stockLoop_row[OF assms])
  have c: "case updateInvoice ident p u t of
          Inl e \<Rightarrow> True
        | Inr (r, t') \<Rightarrow> settles p (getInvoice ident u t) \<or> products t' = products t"
    by (simp add: updateInvoice_def Let_def)
  show ?thesis using a b c by blast
qed

text \<open>
  Claim C1, on the code: creating the scenario's invoice in the pending state takes the
  stock of product 1 from 5 to 2 at once, and setting the invoice to \<open>payee\<close> afterwards
  takes it from 2 to 0: the three units are deducted twice.
\<close>

theorem createInvoice_pending_changes_stock:
  "new_status (scenarioInvoice ''en_attente'') = Some ''en_attente''
   \<and> map product_stock (products shop) = [Some 5, Some 2]
   \<and> createInvoice (scenarioInvoice ''en_attente'') scenarioItems shop
       = (scenarioRow ''en_attente'', pendingShop)
   \<and> map product_stock (products pendingShop) = [Some 2, Some 2]
   \<and> updateInvoice 1 (statusPatch ''payee'') ''alice'' pendingShop
       = Inr (Some (scenarioRow ''payee''), settledShop)
   \<and> map product_stock (products settledShop) = [Some 0, Some 2]"
  by (simp add: createInvoice_scenario updateInvoice_scenario) (simp add: example_defs)


section \<open>Settlement\<close>

lemma sales_createSalesFromInvoice:
  "sales (createSalesFromInvoice ident u s) =
     sales s @ insertSales (map (saleOfItem ident u)
                 (filter hasProduct (filter (\<lambda>it. invoiceId it = ident) (invoiceItems s)))) (sales_seq s)"
  by (simp add: createSalesFromInvoice_def Let_def)

lemma insertSales_fields:
  "map (\<lambda>r. (Some (sale_productId r), sale_quantity r, sale_unitPrice r, sale_total r,
              sale_invoiceId r, sale_userId r)) (insertSales vs k)
   = map (\<lambda>v. (Some (sale_productId v), sale_quantity v, sale_unitPrice v, sale_total v,
              sale_invoiceId v, sale_userId v)) vs"
  by (induction vs k rule: insertSales.induct) simp_all

lemma hasProduct_items:
  "filter hasProduct (filter (\<lambda>it. invoiceId it = ident) its)
   = filter (\<lambda>it. invoiceId it = ident \<and> productId it \<noteq> None \<and> productId it \<noteq> Some 0) its"
  by (induction its) (auto simp: hasProduct_def split: option.splits)

lemma new_sales_fields:
  "map (\<lambda>r. (Some (sale_productId r), sale_quantity r, sale_unitPrice r, sale_total r,
              sale_invoiceId r, sale_userId r))
       (insertSales (map (saleOfItem ident u)
          (filter hasProduct (filter (\<lambda>it. invoiceId it = ident) its))) k)
   = map (\<lambda>it. (productId it, quantity it, priceHT it, totalHT it, ident, u))
       (filter (\<lambda>it. invoiceId it = ident \<and> productId it \<noteq> None \<and> productId it \<noteq> Some 0) its)"
  unfolding insertSales_fields hasProduct_items
  by (induction its) (auto simp: saleOfItem_def)

lemma stock_of_invoice:
  "map quantity (filter (\<lambda>it. productId it = Some k \<and> k \<noteq> 0) (filter (\<lambda>it. invoiceId it = ident) its))
   = map quantity (filter (\<lambda>it. invoiceId it = ident \<and> productId it = Some k \<and> k \<noteq> 0) its)"
  by (induction its) auto

text \<open>What an update that passes the guard has written when it returns.\<close>

lemma updateInvoice_fires:
  assumes "getInvoice ident u s = Some cur" and "i < length (products s)"
    and fire: "\<not> isPaid (invoice_status cur)" "set_status p = Some st" "isPaid st"
    and upd: "updateInvoice ident p u s = Inr (r, s')"
  shows "take (length (sales s)) (sales s') = sales s \<and>
         map (\<lambda>r. (Some (sale_productId r), sale_quantity r, sale_unitPrice r, sale_total r,
                   sale_invoiceId r, sale_userId r)) (drop (length (sales s)) (sales s'))
         = map (\<lambda>it. (productId it, quantity it, priceHT it, totalHT it, ident, u))
             (filter (\<lambda>it. invoiceId it = ident \<and> productId it \<noteq> None \<and> productId it \<noteq> Some 0)
                (invoiceItems s)) \<and>
         length (products s') = length (products s) \<and>
         products s' ! i =
           (if product_userId (products s ! i) = u
            then (products s ! i)\<lparr>product_stock :=
                   fold (\<lambda>q st. Some (case st of None \<Rightarrow> 0 | Some n \<Rightarrow> max 0 (n - q)))
                        (map quantity
                           (filter (\<lambda>it. invoiceId it = ident \<and>
                                          productId it = Some (product_id (products s ! i)) \<and>
                                          product_id (products s ! i) \<noteq> 0)
                              (invoiceItems s)))
                        (product_stock (products s ! i))\<rparr>
            else products s ! i)"
proof -
  let ?upd = "map (\<lambda>r. if invoice_id r = ident \<and> invoice_userId r = u
                        then applyInvoicePatch p r else r) (invoices s)"
  have ne: "\<not> invoicePatchEmpty p" using fire(2) by (rule status_patch_not_empty)
  have st: "settles p (getInvoice ident u s)"
    using assms(1) fire by (auto simp: settles_def isPaid_def)
  have s': "s' = (createSalesFromInvoice ident u s)\<lparr>invoices := ?upd\<rparr>"
    using updateInvoice_result[OF ne, of ident u s] st upd by auto
  have sl: "sales s' = sales s @ insertSales (map (saleOfItem ident u)
               (filter hasProduct (filter (\<lambda>it. invoiceId it = ident) (invoiceItems s)))) (sales_seq s)"
    unfolding s' by (simp add: sales_createSalesFromInvoice)
  have t: "take (length (sales s)) (sales s') = sales s" unfolding sl by simp
  have d: "map (\<lambda>r. (Some (sale_productId r), sale_quantity r, sale_unitPrice r, sale_total r,
                     sale_invoiceId r, sale_userId r)) (drop (length (sales s)) (sales s'))
           = map (\<lambda>it. (productId it, quantity it, priceHT it, totalHT it, ident, u))
               (filter (\<lambda>it. invoiceId it = ident \<and> productId it \<noteq> None \<and> productId it \<noteq> Some 0)
                  (invoiceItems s))"
  proof -
    have "drop (length (sales s)) (sales s') = insertSales (map (saleOfItem ident u)
               (filter hasProduct (filter (\<lambda>it. invoiceId it = ident) (invoiceItems s)))) (sales_seq s)"
      unfolding sl by simp
    then show ?thesis by (simp only: new_sales_fields)
  qed
  have pr: "products s' = stockLoop (filter (\<lambda>it. invoiceId it = ident) (invoiceItems s)) u (products s)"
    unfolding s' by (simp add: products_createSalesFromInvoice)
  have l: "length (products s') = length (products s)"
    unfolding pr by (rule length_stockLoop)
  have n: "products s' ! i =
             (if product_userId (products s ! i) = u
              then (products s ! i)\<lparr>product_stock :=
                     fold (\<lambda>q st. Some (case st of None \<Rightarrow> 0 | Some n \<Rightarrow> max 0 (n - q)))
                          (map quantity
                             (filter (\<lambda>it. invoiceId it = ident \<and>
                                            productId it = Some (product_id (products s ! i)) \<and>
                                            product_id (products s ! i) \<noteq> 0)
                                (invoiceItems s)))
                          (product_stock (products s ! i))\<rparr>
              else products s ! i)"
    unfolding pr stockLoop_nth[OF assms(2)] stock_of_invoice by (rule refl)
  show ?thesis using t d l n by blast
qed

text \<open>
  Claim C3, as stated, fails. The guard compares the status asked for with the status
  stored at that moment, so the effects run at every change from a status that is not
  paid to a paid one. The scenario's invoice, with a stock of 7 after its creation, is set
  to \<open>payee\<close>, back to \<open>en_attente\<close> and to \<open>payee\<close> again: the second settlement adds
  a second sale for the same item and takes the stock from 4 to 1.
\<close>

theorem settlement_fires_again_after_revert:
  "tryUpdateInvoice 1 (statusPatch ''payee'') ''alice''
       (shopState (Some 7) [scenarioRow ''en_attente''] scenarioItemRows [])
     = (Inr (Some (scenarioRow ''payee'')),
        shopState (Some 4) [scenarioRow ''payee''] scenarioItemRows [scenarioSale ''alice''])
   \<and> tryUpdateInvoice 1 (statusPatch ''en_attente'') ''alice''
       (shopState (Some 4) [scenarioRow ''payee''] scenarioItemRows [scenarioSale ''alice''])
     = (Inr (Some (scenarioRow ''en_attente'')),
        shopState (Some 4) [scenarioRow ''en_attente''] scenarioItemRows [scenarioSale ''alice''])
   \<and> tryUpdateInvoice 1 (statusPatch ''payee'') ''alice''
       (shopState (Some 4) [scenarioRow ''en_attente''] scenarioItemRows [scenarioSale ''alice''])
     = (Inr (Some (scenarioRow ''payee'')),
        shopState (Some 1) [scenarioRow ''payee''] scenarioItemRows
          [scenarioSale ''alice'', (scenarioSale ''alice'')\<lparr>sale_id := 2\<rparr>])"
  by (simp add: tryUpdateInvoice_def tryCreateSalesFromInvoice_def refusesInvoiceUpdate_def
      store_defs takesDecimal_examples example_defs storage_defs Let_def)

text \<open>
  Claim C3, amended. For an invoice of the caller: an update that finds the stored status
  paid, or that asks for no paid status, changes neither sales nor products. An update
  that asks for a paid status and finds the stored status not paid returns when the store
  refuses neither the update nor the settlement; when it returns, it has kept the sales
  there were, appended one sale for each item of the invoice with a product reference, and
  taken each product row of the caller through one clamped subtraction for each item of the
  invoice that refers to it.
\<close>

theorem settlement_fires_on_each_transition:
  assumes "getInvoice ident u s = Some cur" and "i < length (products s)"
  shows "(isPaid (invoice_status cur) \<or> (case set_status p of None \<Rightarrow> True | Some x \<Rightarrow> \<not> isPaid x) \<longrightarrow>
            sales (snd (tryUpdateInvoice ident p u s)) = sales s \<and>
            products (snd (tryUpdateInvoice ident p u s)) = products s)
     \<and> (\<not> isPaid (invoice_status cur) \<and> set_status p = Some st \<and> isPaid st \<and>
        \<not> refusesInvoiceUpdate ident p u s \<and> fst (tryCreateSalesFromInvoice ident u s) \<longrightarrow>
          (\<exists>r s'. tryUpdateInvoice ident p u s = (Inr r, s')))
     \<and> (\<not> isPaid (invoice_status cur) \<and> set_status p = Some st \<and> isPaid st \<and>
        tryUpdateInvoice ident p u s = (Inr r, s') \<longrightarrow>
          take (length (sales s)) (sales s') = sales s \<and>
          map (\<lambda>r. (Some (sale_productId r), sale_quantity r, sale_unitPrice r, sale_total r,
                    sale_invoiceId r, sale_userId r)) (drop (length (sales s)) (sales s'))
          = map (\<lambda>it. (productId it, quantity it, priceHT it, totalHT it, ident, u))
              (filter (\<lambda>it. invoiceId it = ident \<and> productId it \<noteq> None \<and> productId it \<noteq> Some 0)
                 (invoiceItems s)) \<and>
          length (products s') = length (products s) \<and>
          products s' ! i =
            (if product_userId (products s ! i) = u
             then (products s ! i)\<lparr>product_stock :=
                    fold (\<lambda>q st. Some (case st of None \<Rightarrow> 0 | Some n \<Rightarrow> max 0 (n - q)))
                         (map quantity
                            (filter (\<lambda>it. invoiceId it = ident \<and>
                                           productId it = Some (product_id (products s ! i)) \<and>
                                           product_id (products s ! i) \<noteq> 0)
                               (invoiceItems s)))
                         (product_stock (products s ! i))\<rparr>
             else products s ! i))"
proof -
  have quiet: "isPaid (invoice_status cur) \<or> (case set_status p of None \<Rightarrow> True | Some x \<Rightarrow> \<not> isPaid x) \<Longrightarrow>
      \<not> settles p (getInvoice ident u s)"
    using assms(1) by (auto simp: settles_def isPaid_def split: option.splits)
  have a: "isPaid (invoice_status cur) \<or> (case set_status p of None \<Rightarrow> True | Some x \<Rightarrow> \<not> isPaid x) \<longrightarrow>
            sales (snd (tryUpdateInvoice ident p u s)) = sales s \<and>
            products (snd (tryUpdateInvoice ident p u s)) = products s"
    using quiet tryUpdateInvoice_quiet by blast
  have b: "\<not> isPaid (invoice_status cur) \<and> set_status p = Some st \<and> isPaid st \<and>
        \<not> refusesInvoiceUpdate ident p u s \<and> fst (tryCreateSalesFromInvoice ident u s) \<longrightarrow>
          (\<exists>r s'. tryUpdateInvoice ident p u s = (Inr r, s'))"
    using tryUpdateInvoice_ok[of p ident u s] status_patch_not_empty[of p st] by blast
  have c: "\<not> isPaid (invoice_status cur) \<and> set_status p = Some st \<and> isPaid st \<and>
        tryUpdateInvoice ident p u s = (Inr r, s') \<longrightarrow>
          take (length (sales s)) (sales s') = sales s \<and>
          map (\<lambda>r. (Some (sale_productId r), sale_quantity r, sale_unitPrice r, sale_total r,
                    sale_invoiceId r, sale_userId r)) (drop (length (sales s)) (sales s'))
          = map (\<lambda>it. (productId it, quantity it, priceHT it, totalHT it, ident, u))
              (filter (\<lambda>it. invoiceId it = ident \<and> productId it \<noteq> None \<and> productId it \<noteq> Some 0)
                 (invoiceItems s)) \<and>
          length (products s') = length (products s) \<and>
          products s' ! i =
            (if product_userId (products s ! i) = u
             then (products s ! i)\<lparr>product_stock :=
                    fold (\<lambda>q st. Some (case st of None \<Rightarrow> 0 | Some n \<Rightarrow> max 0 (n - q)))
                         (map quantity
                            (filter (\<lambda>it. invoiceId it = ident \<and>
                                           productId it = Some (product_id (products s ! i)) \<and>
                                           product_id (products s ! i) \<noteq> 0)
                               (invoiceItems s)))
                         (product_stock (products s ! i))\<rparr>
             else products s ! i)"
    using updateInvoice_fires[OF assms, of p st r s'] tryUpdateInvoice_returns[of ident p u s r s']
    by blast
  show ?thesis using a b c by blast
qed

theorem settlement_fires_on_each_transition_witness:
  "getInvoice 1 ''alice'' pendingShop = Some (scenarioRow ''en_attente'')
   \<and> getInvoice 1 ''alice'' settledShop = Some (scenarioRow ''payee'')
   \<and> (\<exists>r s'. tryUpdateInvoice 1 (statusPatch ''payee'') ''alice'' pendingShop = (Inr r, s')
        \<and> map (\<lambda>r. (Some (sale_productId r), sale_quantity r, sale_unitPrice r, sale_total r,
                     sale_invoiceId r, sale_userId r)) (sales s')
          = [(Some 1, 3, ''1000'', ''3000.00'', 1, ''alice'')]
        \<and> product_stock (products pendingShop ! 0) = Some 2
        \<and> product_stock (products s' ! 0) = Some 0)
   \<and> sales (snd (tryUpdateInvoice 1 (statusPatch ''paid'') ''alice'' settledShop)) = sales settledShop
   \<and> products (snd (tryUpdateInvoice 1 (statusPatch ''paid'') ''alice'' settledShop)) = products settledShop"
proof -
  have h1: "getInvoice 1 ''alice'' pendingShop = Some (scenarioRow ''en_attente'')"
    by (simp add: example_defs getInvoice_def)
  have h2: "getInvoice 1 ''alice'' settledShop = Some (scenarioRow ''payee'')"
    by (simp add: example_defs getInvoice_def)
  have l1: "0 < length (products pendingShop)" and l2: "0 < length (products settledShop)"
    by (simp_all add: example_defs)
  have c: "\<not> isPaid (invoice_status (scenarioRow ''en_attente''))"
    "isPaid (invoice_status (scenarioRow ''payee''))"
    "set_status (statusPatch ''payee'') = Some ''payee''" "isPaid ''payee''"
    by (simp_all add: isPaid_def scenarioRow_def statusPatch_def)
  have e: "sales pendingShop = []" "invoiceItems pendingShop = scenarioItemRows"
    "product_stock (products pendingShop ! 0) = Some 2"
    "product_userId (products pendingShop ! 0) = ''alice''"
    "product_id (products pendingShop ! 0) = 1"
    by (simp_all add: example_defs)
  have store: "\<not> refusesInvoiceUpdate 1 (statusPatch ''payee'') ''alice'' pendingShop"
    "fst (tryCreateSalesFromInvoice 1 ''alice'' pendingShop)"
    by (simp_all add: refusesInvoiceUpdate_def tryCreateSalesFromInvoice_def statusPatch_def
        store_defs takesDecimal_examples example_defs hasProduct_def saleOfItem_def Let_def
        split: prod.split)
  from settlement_fires_on_each_transition[OF h1 l1, where p = "statusPatch ''payee''" and st = "''payee''",
      THEN conjunct2, THEN conjunct1]
  obtain r s' where ret: "tryUpdateInvoice 1 (statusPatch ''payee'') ''alice'' pendingShop = (Inr r, s')"
    using c store by blast
  note fire = settlement_fires_on_each_transition[OF h1 l1, where p = "statusPatch ''payee''"
      and st = "''payee''" and r = r and s' = s', THEN conjunct2, THEN conjunct2]
  note quiet = settlement_fires_on_each_transition[OF h2 l2, where p = "statusPatch ''paid''" and st = "''paid''",
      THEN conjunct1]
  have a: "map (\<lambda>r. (Some (sale_productId r), sale_quantity r, sale_unitPrice r, sale_total r,
                     sale_invoiceId r, sale_userId r)) (sales s')
          = [(Some 1, 3, ''1000'', ''3000.00'', 1, ''alice'')]
        \<and> product_stock (products pendingShop ! 0) = Some 2
        \<and> product_stock (products s' ! 0) = Some 0"
    using fire c ret unfolding e by (auto simp: scenarioItemRows_def)
  have b: "sales (snd (tryUpdateInvoice 1 (statusPatch ''paid'') ''alice'' settledShop)) = sales settledShop
   \<and> products (snd (tryUpdateInvoice 1 (statusPatch ''paid'') ''alice'' settledShop)) = products settledShop"
    using quiet c(2) by blast
  have ex: "\<exists>r s'. tryUpdateInvoice 1 (statusPatch ''payee'') ''alice'' pendingShop = (Inr r, s')
        \<and> map (\<lambda>r. (Some (sale_productId r), sale_quantity r, sale_unitPrice r, sale_total r,
                     sale_invoiceId r, sale_userId r)) (sales s')
          = [(Some 1, 3, ''1000'', ''3000.00'', 1, ''alice'')]
        \<and> product_stock (products pendingShop ! 0) = Some 2
        \<and> product_stock (products s' ! 0) = Some 0"
    by (rule exI[of _ r], rule exI[of _ s'], rule conjI[OF ret a])
  show ?thesis
    by (intro conjI h1 h2 ex b[THEN conjunct1] b[THEN conjunct2])
qed

text \<open>
  The guard reads the invoice through the caller's lookup. When that finds nothing (the
  invoice belongs to another tenant, or the first update gave it to one), the guard
  passes and the effects run again on an invoice that is paid.
\<close>

lemma tryUpdateInvoice_bob_on_paid:
  "tryUpdateInvoice 1 (statusPatch ''payee'') ''bob'' settledShop
     = (Inr None, shopState (Some 0) [scenarioRow ''payee''] scenarioItemRows
                    [scenarioSale ''alice'', (scenarioSale ''bob'')\<lparr>sale_id := 2\<rparr>])"
  by (simp add: tryUpdateInvoice_def tryCreateSalesFromInvoice_def refusesInvoiceUpdate_def
      store_defs takesDecimal_examples example_defs storage_defs Let_def)

lemma tryUpdateInvoice_reassigned:
  "tryUpdateInvoice 1 ((statusPatch ''payee'')\<lparr>set_userId := Some ''bob''\<rparr>) ''alice''
       (shopState (Some 7) [scenarioRow ''en_attente''] scenarioItemRows [])
     = (Inr (Some ((scenarioRow ''payee'')\<lparr>invoice_userId := ''bob''\<rparr>)),
        shopState (Some 4) [(scenarioRow ''payee'')\<lparr>invoice_userId := ''bob''\<rparr>] scenarioItemRows
          [scenarioSale ''alice''])
   \<and> tryUpdateInvoice 1 (statusPatch ''payee'') ''alice''
       (shopState (Some 4) [(scenarioRow ''payee'')\<lparr>invoice_userId := ''bob''\<rparr>] scenarioItemRows
              [scenarioSale ''alice''])
     = (Inr None,
        shopState (Some 1) [(scenarioRow ''payee'')\<lparr>invoice_userId := ''bob''\<rparr>] scenarioItemRows
          [scenarioSale ''alice'', (scenarioSale ''alice'')\<lparr>sale_id := 2\<rparr>])"
  by (simp add: tryUpdateInvoice_def tryCreateSalesFromInvoice_def refusesInvoiceUpdate_def
      store_defs takesDecimal_examples example_defs storage_defs Let_def)




text \<open>
  Claim C8, on the code: the scenario's invoice created directly with the status
  \<open>payee\<close> has an item with a product and no sale, and setting it to \<open>payee\<close> again
  creates none, the guard finding it paid already.
\<close>

theorem invoice_created_paid_has_no_sale:
  "createInvoice (scenarioInvoice ''payee'') scenarioItems shop = (scenarioRow ''payee'', paidAtCreationShop)
   \<and> invoice_status (scenarioRow ''payee'') = ''payee''
   \<and> filter hasProduct (filter (\<lambda>it. invoiceId it = 1) (invoiceItems paidAtCreationShop))
       = take 1 scenarioItemRows
   \<and> sales paidAtCreationShop = []
   \<and> updateInvoice 1 (statusPatch ''payee'') ''alice'' paidAtCreationShop
       = Inr (Some (scenarioRow ''payee''), paidAtCreationShop)"
  by (simp add: createInvoice_paid updateInvoice_paid)
     (simp add: example_defs hasProduct_def)


section \<open>Tenants\<close>

text \<open>
  The lookups by id answer only with a row of the caller; an id that belongs to another
  tenant is answered like an id that does not exist.
\<close>

lemma firstRow_filter_holds: "firstRow (filter P xs) = Some r \<Longrightarrow> P r"
proof -
  assume a: "firstRow (filter P xs) = Some r"
  then obtain rs where "filter P xs = r # rs" by (cases "filter P xs") simp_all
  then have "r \<in> set (filter P xs)" by simp
  then show "P r" by simp
qed

lemma lookups_are_tenant_filtered:
  "(getClient ident u s = Some c \<longrightarrow> client_id c = ident \<and> client_userId c = u)
   \<and> (getProduct ident u s = Some p \<longrightarrow> product_id p = ident \<and> product_userId p = u)
   \<and> (getCategory ident u s = Some g \<longrightarrow> category_id g = ident \<and> category_userId g = u)
   \<and> (getInvoice ident u s = Some v \<longrightarrow> invoice_id v = ident \<and> invoice_userId v = u)"
  unfolding getClient_def getProduct_def getCategory_def getInvoice_def
  by (auto dest: firstRow_filter_holds)

lemma other_tenant_not_found:
  assumes "list_all (\<lambda>r. client_id r = ident \<longrightarrow> client_userId r \<noteq> u) (clients s)"
    and "list_all (\<lambda>r. invoice_id r = ident \<longrightarrow> invoice_userId r \<noteq> u) (invoices s)"
  shows "get_clients_id u ident s = Status 404 ''Client not found''
       \<and> get_invoices_id u ident s = Status 404 ''Invoice not found''"
proof -
  have "filter (\<lambda>r. client_id r = ident \<and> client_userId r = u) (clients s) = []"
    using assms(1) by (auto simp: filter_empty_conv list_all_iff)
  moreover have "filter (\<lambda>r. invoice_id r = ident \<and> invoice_userId r = u) (invoices s) = []"
    using assms(2) by (auto simp: filter_empty_conv list_all_iff)
  ultimately show ?thesis
    by (simp add: get_clients_id_def get_invoices_id_def getClient_def getInvoice_def
        getInvoiceWithItems_def)
qed

text \<open>
  The writes on clients, products, categories and invoice rows touch only rows of the
  caller: a delete keeps every row of another tenant, an update leaves it as it is.
\<close>

lemma deletes_keep_other_tenants_rows:
  "filter (\<lambda>r. client_userId r \<noteq> u) (clients (deleteClient ident u s))
     = filter (\<lambda>r. client_userId r \<noteq> u) (clients s)
   \<and> filter (\<lambda>r. product_userId r \<noteq> u) (products (deleteProduct ident u s))
     = filter (\<lambda>r. product_userId r \<noteq> u) (products s)
   \<and> filter (\<lambda>r. category_userId r \<noteq> u) (categories (deleteCategory ident u s))
     = filter (\<lambda>r. category_userId r \<noteq> u) (categories s)
   \<and> filter (\<lambda>r. invoice_userId r \<noteq> u) (invoices (deleteInvoice ident u s))
     = filter (\<lambda>r. invoice_userId r \<noteq> u) (invoices s)"
  by (auto simp: deleteClient_def deleteProduct_def deleteCategory_def deleteInvoice_def
      deleteInvoiceRow_def deleteItemsOf_def deleteSalesOf_def intro: filter_cong)

lemma updates_keep_other_tenants_rows:
  "(updateClient ident pc u s = Inr (rc, sc) \<and> i < length (clients s) \<and>
      client_userId (clients s ! i) \<noteq> u \<longrightarrow> clients sc ! i = clients s ! i)
   \<and> (updateProduct ident pp u s = Inr (rp, sp) \<and> i < length (products s) \<and>
      product_userId (products s ! i) \<noteq> u \<longrightarrow> products sp ! i = products s ! i)
   \<and> (updateCategory ident pg u s = Inr (rg, sg) \<and> i < length (categories s) \<and>
      category_userId (categories s ! i) \<noteq> u \<longrightarrow> categories sg ! i = categories s ! i)
   \<and> (updateInvoice ident pv u s = Inr (rv, sv) \<and> i < length (invoices s) \<and>
      invoice_userId (invoices s ! i) \<noteq> u \<longrightarrow> invoices sv ! i = invoices s ! i)"
  by (auto simp: updateClient_def updateProduct_def updateCategory_def updateInvoice_def Let_def
      createSalesFromInvoice_invoices split: if_splits)

text \<open>
  Claim C2, on the code: tenant \<open>bob\<close> deletes invoice 1, which is \<open>alice\<close>'s. The
  invoice row stays, but its items and the sale of \<open>alice\<close> are gone.
\<close>

theorem deleteInvoice_of_other_tenant_removes_rows:
  "getInvoice 1 ''bob'' settledShop = None
   \<and> getInvoiceWithItems 1 ''alice'' settledShop = Some (scenarioRow ''payee'', scenarioItemRows)
   \<and> getSales ''alice'' settledShop = [scenarioSale ''alice'']
   \<and> getInvoiceWithItems 1 ''alice'' (snd (delete_invoices ''bob'' 1 settledShop))
       = Some (scenarioRow ''payee'', [])
   \<and> getSales ''alice'' (snd (delete_invoices ''bob'' 1 settledShop)) = []"
  by (simp add: delete_invoices_def deleteInvoice_bob)
     (simp add: example_defs getInvoice_def getInvoiceWithItems_def getSales_def)


section \<open>Totals\<close>

text \<open>
  Rounding to a double is evaluated through the exponent: \<open>floorLog2\<close> returns the
  one exponent \<open>e\<close> with \<open>2^e \<le> x < 2^(e+1)\<close>.
\<close>

lemma bitlen_bounds: "0 < n \<Longrightarrow> 2 ^ (bitlen n - 1) \<le> n \<and> n < 2 ^ bitlen n"
proof (induction n rule: bitlen.induct)
  case (1 n)
  show ?case
  proof (cases "n div 2 = 0")
    case True
    with 1(2) have "n = 1" by (simp add: div_eq_0_iff) 
    then show ?thesis by (simp add: bitlen.simps[of "Suc 0"] bitlen.simps[of 0])
  next
    case False
    then have ih: "2 ^ (bitlen (n div 2) - 1) \<le> n div 2" "n div 2 < 2 ^ bitlen (n div 2)"
      using 1 by simp_all
    have pos: "0 < bitlen (n div 2)" using False by (simp add: bitlen.simps[of "n div 2"])
    have b: "bitlen n = Suc (bitlen (n div 2))" using 1(2) by (simp add: bitlen.simps[of n])
    have "(2::nat) ^ bitlen (n div 2) = 2 * 2 ^ (bitlen (n div 2) - 1)"
      using pos by (cases "bitlen (n div 2)") simp_all
    then have "2 ^ bitlen (n div 2) \<le> 2 * (n div 2)" using ih(1) by simp
    then have lo: "2 ^ bitlen (n div 2) \<le> n" by linarith
    have "n div 2 + 1 \<le> 2 ^ bitlen (n div 2)" using ih(2) by simp
    then have hi: "n < 2 * 2 ^ bitlen (n div 2)" by linarith
    show ?thesis using lo hi b by simp
  qed
qed

lemma of_nat_pow2_le: "(2::nat) ^ k \<le> n \<Longrightarrow> (2::rat) ^ k \<le> of_nat n"
  using of_nat_mono[of "2 ^ k" n, where ?'a = rat] by simp

lemma of_nat_le_pow2: "n + 1 \<le> (2::nat) ^ k \<Longrightarrow> of_nat n + 1 \<le> (2::rat) ^ k"
  using of_nat_mono[of "n + 1" "2 ^ k", where ?'a = rat] by simp

lemma pow2_pos: "0 < pow2 e"
  by (simp add: pow2_def)

lemma pow2_add1: "pow2 (e + 1) = 2 * pow2 e"
proof (cases "0 \<le> e")
  case True
  then show ?thesis by (simp add: pow2_def nat_add_distrib)
next
  case False
  then have "nat (- e) = Suc (nat (- (e + 1)))" by simp
  then show ?thesis using False by (simp add: pow2_def)
qed

lemma pow2_mono: "a \<le> b \<Longrightarrow> pow2 a \<le> pow2 b"
proof -
  have step: "pow2 a \<le> pow2 (a + int k)" for a k
  proof (induction k)
    case 0
    then show ?case by simp
  next
    case (Suc k)
    have "pow2 (a + int (Suc k)) = 2 * pow2 (a + int k)"
      using pow2_add1[of "a + int k"] by (simp add: algebra_simps)
    then show ?case using Suc pow2_pos[of "a + int k"] by simp
  qed
  assume "a \<le> b"
  then have "b = a + int (nat (b - a))" by simp
  then show ?thesis using step[of a "nat (b - a)"] by simp
qed

lemma pow2_nat: "pow2 (int k) = 2 ^ k"
  by (simp add: pow2_def)

lemma pow2_neg_nat: "pow2 (- int k) = 1 / 2 ^ k"
  by (cases k) (simp_all add: pow2_def nat_add_distrib)

lemma floorLog2_bounds:
  assumes "0 < x"
  shows "pow2 (floorLog2 x) \<le> x \<and> x < pow2 (floorLog2 x + 1)"
proof (cases "1 \<le> x")
  case True
  let ?n = "nat \<lfloor>x\<rfloor>"
  have n: "0 < ?n" using True by simp
  have fl: "of_nat ?n \<le> x" "x < of_nat ?n + 1"
    using True by (simp_all add: of_nat_nat) linarith
  from bitlen_bounds[OF n] have b1: "2 ^ (bitlen ?n - 1) \<le> ?n" and b2: "?n < 2 ^ bitlen ?n"
    by blast+
  from b2 have b3: "?n + 1 \<le> 2 ^ bitlen ?n" by linarith
  note b = b1 b3
  have bp: "0 < bitlen ?n" using n by (simp add: bitlen.simps[of ?n])
  have e: "floorLog2 x = int (bitlen ?n - 1)" using True bp by (simp add: floorLog2_def)
  have e1: "floorLog2 x + 1 = int (bitlen ?n)" using e bp by simp
  have "(2::rat) ^ (bitlen ?n - 1) \<le> of_nat ?n"
    using b(1) by (rule of_nat_pow2_le)
  moreover have "of_nat ?n + 1 \<le> (2::rat) ^ bitlen ?n"
    using b(2) by (rule of_nat_le_pow2)
  ultimately show ?thesis
    unfolding e1 unfolding e pow2_nat using fl by linarith
next
  case False
  let ?m = "\<lceil>1 / x\<rceil>"
  let ?n = "nat (?m - 1)"
  have y: "1 < 1 / x" using False assms by simp
  then have m: "2 \<le> ?m" by (simp add: le_ceiling_iff) 
  have n: "0 < ?n" using m by simp
  have cl: "1 / x \<le> of_int ?m" "of_int ?m - 1 < 1 / x"
    by (simp_all add: le_of_int_ceiling) linarith
  have mn: "of_int ?m = (of_nat ?n :: rat) + 1"
  proof -
    have "0 \<le> ?m - 1" using m by linarith
    then have "(of_nat ?n :: rat) = of_int (?m - 1)" by (rule of_nat_nat)
    then show ?thesis by simp
  qed
  from bitlen_bounds[OF n] have b1: "2 ^ (bitlen ?n - 1) \<le> ?n" and b2: "?n < 2 ^ bitlen ?n"
    by blast+
  from b2 have b3: "?n + 1 \<le> 2 ^ bitlen ?n" by linarith
  note b = b1 b3
  have bp: "0 < bitlen ?n" using n by (simp add: bitlen.simps[of ?n])
  have e: "floorLog2 x = - int (bitlen ?n)" using False by (simp add: floorLog2_def)
  have e1: "floorLog2 x + 1 = - int (bitlen ?n - 1)" using e bp by simp
  have lo': "(2::rat) ^ (bitlen ?n - 1) \<le> of_nat ?n"
    using b(1) by (rule of_nat_pow2_le)
  have hi': "of_nat ?n + 1 \<le> (2::rat) ^ bitlen ?n"
    using b(2) by (rule of_nat_le_pow2)
  have "1 / x \<le> 2 ^ bitlen ?n" using cl(1) mn hi' by linarith
  then have lo: "1 / 2 ^ bitlen ?n \<le> x"
    using assms by (simp add: field_simps)
  have "2 ^ (bitlen ?n - 1) < 1 / x" using cl(2) mn lo' by linarith
  then have hi: "x < 1 / 2 ^ (bitlen ?n - 1)"
    using assms by (simp add: field_simps)
  show ?thesis
    unfolding e1 unfolding e pow2_neg_nat using lo hi by simp
qed

lemma floorLog2_eq:
  assumes "0 < x" and "pow2 e \<le> x" and "x < pow2 (e + 1)"
  shows "floorLog2 x = e"
proof (rule ccontr)
  assume ne: "floorLog2 x \<noteq> e"
  from floorLog2_bounds[OF assms(1)]
  have b: "pow2 (floorLog2 x) \<le> x" "x < pow2 (floorLog2 x + 1)" by simp_all
  show False
  proof (cases "floorLog2 x < e")
    case True
    then have "pow2 (floorLog2 x + 1) \<le> pow2 e" by (intro pow2_mono) simp
    then show False using b(2) assms(2) by linarith
  next
    case False
    then have "pow2 (e + 1) \<le> pow2 (floorLog2 x)" using ne by (intro pow2_mono) simp
    then show False using b(1) assms(3) by linarith
  qed
qed

lemma toDouble_eval:
  assumes "0 < x" and "pow2 e \<le> x" and "x < pow2 (e + 1)" and "- 1022 \<le> e" and "e < 1023"
    and "roundHalfEven (x / pow2 (e - 52)) = n" and "of_int n * pow2 (e - 52) < pow2 1024"
  shows "toDouble x = Some (of_int n * pow2 (e - 52))"
  using assms by (simp add: toDouble_def floorLog2_eq[OF assms(1,2,3)] Let_def)

lemma toDouble_1: "toDouble 1 = Some 1"
  by (subst toDouble_eval[where e = "0" and n = 4503599627370496])
     (simp_all add: pow2_def roundHalfEven_def Let_def floor_rat_numeral)

lemma toDouble_half: "toDouble (1 / 2) = Some (1 / 2)"
  by (subst toDouble_eval[where e = "-1" and n = 4503599627370496])
     (simp_all add: pow2_def roundHalfEven_def Let_def floor_rat_numeral)

lemma toDouble_3: "toDouble 3 = Some 3"
  by (subst toDouble_eval[where e = "1" and n = 6755399441055744])
     (simp_all add: pow2_def roundHalfEven_def Let_def floor_rat_numeral)

lemma toDouble_3_percent: "toDouble (3 / 100) = Some (1080863910568919 / 36028797018963968)"
  by (subst toDouble_eval[where e = "-6" and n = 8646911284551352])
     (simp_all add: pow2_def roundHalfEven_def Let_def floor_rat_numeral)

lemma toDouble_half_tax: "toDouble (1080863910568919 / 72057594037927936) = Some (1080863910568919 / 72057594037927936)"
  by (subst toDouble_eval[where e = "-7" and n = 8646911284551352])
     (simp_all add: pow2_def roundHalfEven_def Let_def floor_rat_numeral)

lemma toDouble_half_total: "toDouble (37109660929532887 / 72057594037927936) = Some (4638707616191611 / 9007199254740992)"
  by (subst toDouble_eval[where e = "-1" and n = 4638707616191611])
     (simp_all add: pow2_def roundHalfEven_def Let_def floor_rat_numeral)

lemma toDouble_1000: "toDouble 1000 = Some 1000"
  by (subst toDouble_eval[where e = "9" and n = 8796093022208000])
     (simp_all add: pow2_def roundHalfEven_def Let_def floor_rat_numeral)

lemma toDouble_3000: "toDouble 3000 = Some 3000"
  by (subst toDouble_eval[where e = "11" and n = 6597069766656000])
     (simp_all add: pow2_def roundHalfEven_def Let_def floor_rat_numeral)

lemma toDouble_500: "toDouble 500 = Some 500"
  by (subst toDouble_eval[where e = "8" and n = 8796093022208000])
     (simp_all add: pow2_def roundHalfEven_def Let_def floor_rat_numeral)

lemma toDouble_3500: "toDouble 3500 = Some 3500"
  by (subst toDouble_eval[where e = "11" and n = 7696581394432000])
     (simp_all add: pow2_def roundHalfEven_def Let_def floor_rat_numeral)

lemma toDouble_18: "toDouble 18 = Some 18"
  by (subst toDouble_eval[where e = "4" and n = 5066549580791808])
     (simp_all add: pow2_def roundHalfEven_def Let_def floor_rat_numeral)

lemma toDouble_18_percent: "toDouble (9 / 50) = Some (3242591731706757 / 18014398509481984)"
  by (subst toDouble_eval[where e = "-3" and n = 6485183463413514])
     (simp_all add: pow2_def roundHalfEven_def Let_def floor_rat_numeral)

lemma toDouble_scenario_tax: "toDouble (2837267765243412375 / 4503599627370496) = Some 630"
  by (subst toDouble_eval[where e = "9" and n = 5541538603991040])
     (simp_all add: pow2_def roundHalfEven_def Let_def floor_rat_numeral)

lemma toDouble_4130: "toDouble 4130 = Some 4130"
  by (subst toDouble_eval[where e = "12" and n = 4540983022714880])
     (simp_all add: pow2_def roundHalfEven_def Let_def floor_rat_numeral)


lemmas parse_defs = parseFloat_def signOf_def isDigit_def isSpace_def digitsValue_def pow10_def
  exponentOf_def

lemma parseFloat_half: "parseFloat ''0.50'' = Some (1 / 2)"
  by (simp add: parse_defs toDouble_half)

lemma parseFloat_3: "parseFloat ''3.00'' = Some 3"
  by (simp add: parse_defs toDouble_3)

lemma parseFloat_1000: "parseFloat ''1000'' = Some 1000"
  by (simp add: parse_defs toDouble_1000)

lemma parseFloat_500: "parseFloat ''500'' = Some 500"
  by (simp add: parse_defs toDouble_500)

lemma parseFloat_18: "parseFloat ''18.00'' = Some 18"
  by (simp add: parse_defs toDouble_18)

lemmas number_defs = mulNumber_def addNumber_def div100_def

lemmas toFixed2_defs = toFixed2_def showNat.simps digitChar_def Let_def floor_rat_numeral

text \<open>The specification's scenario gives the totals it expects.\<close>

lemma createMutation_scenario:
  "createMutation scenarioForm =
     \<lparr>sent_totalHT = Some ''3500.00'', sent_totalTVA = Some ''630.00'',
      sent_totalTTC = Some ''4130.00'',
      sent_itemTotals = [Some ''3000.00'', Some ''500.00'']\<rparr>"
  by (simp add: createMutation_def scenarioForm_def number_defs parseFloat_1000 parseFloat_500
      parseFloat_18 toDouble_1 toDouble_3 toDouble_500 toDouble_3000 toDouble_3500
      toDouble_18_percent toDouble_scenario_tax toDouble_4130 toFixed2_defs)

text \<open>
  Claim C4, on the code: for one unit at 0.50 and the rate of 3 percent the form sends
  the totals 0.50, 0.01 and 0.52. The tax 0.50 * 3 / 100 is 0.015 exactly, but the double
  nearest to it lies below and is written 0.01; the sum of the unrounded doubles lies above
  0.515 and is written 0.52. So the tax is not the rounded exact tax (0.02), and the total
  sent is not the sum of the two other totals sent (0.51).
\<close>

theorem createMutation_totals_disagree:
  "createMutation halfUnitForm =
     \<lparr>sent_totalHT = Some ''0.50'', sent_totalTVA = Some ''0.01'',
      sent_totalTTC = Some ''0.52'', sent_itemTotals = [Some ''0.50'']\<rparr>"
  by (simp add: createMutation_def halfUnitForm_def number_defs parseFloat_half parseFloat_3
      toDouble_1 toDouble_half toDouble_3_percent toDouble_half_tax toDouble_half_total
      toFixed2_defs)


section \<open>Validation\<close>

lemmas zod_defs = andThen_def zObject_def zString_def zVarchar_def zInteger_def zDate_def
  optional_def nullable_def fieldOf_def joinOpt_def

lemma itemSchema_jsonOfItem: "itemFits item \<Longrightarrow> itemSchema (jsonOfItem item) = Inr item"
  by (cases "productId item")
     (simp_all add: itemSchema_def jsonOfItem_def itemFits_def optField_def zod_defs int32_def)

lemma zArray_items: "list_all itemFits items \<Longrightarrow> zArray itemSchema (map jsonOfItem items) = Inr items"
  by (induction items) (simp_all add: itemSchema_jsonOfItem andThen_def)

lemma createInvoiceSchema_body:
  assumes "invoiceFits f" and "list_all itemFits items"
  shows "createInvoiceSchema (createInvoiceBody f items) = Inr (f, items)"
proof -
  obtain d where "new_dueDate f = None \<or> (new_dueDate f = Some (Date d) \<and> d \<noteq> [])"
    using assms(1) by (cases "new_dueDate f") (auto simp: invoiceFits_def, metis date.exhaust)
  then show ?thesis
    using assms(1) zArray_items[OF assms(2)]
    by (cases "new_status f"; cases "new_notes f")
       (auto simp: createInvoiceSchema_def createInvoiceBody_def jsonOfInvoiceFields_def
          invoiceFits_def optField_def zod_defs int32_def)
qed


lemma invalidBody_eq: "invalidBody = createInvoiceBody invalidFields invalidItems"
  by (simp add: invalidBody_def createInvoiceBody_def invalidFields_def invalidItems_def
      jsonOfInvoiceFields_def jsonOfItem_def optField_def)








text \<open>
  Bodies that pass the schema and that the store refuses: a due date that is no date, a
  total that is no number, a user that does not exist, all refused at the insert of the
  invoice; a product that does not exist, refused at the insert of the items, when the
  invoice is stored already; a stock update outside 32 bits, refused when the invoice and
  its item are stored; and an update to a client that does not exist.
\<close>

lemma createInvoiceSchema_examples:
  "createInvoiceSchema invalidBody = Inr (invalidFields, invalidItems)"
  "createInvoiceSchema (createInvoiceBody (invalidFields\<lparr>new_dueDate := Some (Date ''soon'')\<rparr>) [])
     = Inr (invalidFields\<lparr>new_dueDate := Some (Date ''soon'')\<rparr>, [])"
  "createInvoiceSchema (createInvoiceBody (invalidFields\<lparr>new_totalHT := ''abc''\<rparr>) [])
     = Inr (invalidFields\<lparr>new_totalHT := ''abc''\<rparr>, [])"
  "createInvoiceSchema (createInvoiceBody invalidFields [lineOf (Some 99) 1])
     = Inr (invalidFields, [lineOf (Some 99) 1])"
  "createInvoiceSchema (createInvoiceBody invalidFields [lineOf (Some 1) (- 2147483648)])
     = Inr (invalidFields, [lineOf (Some 1) (- 2147483648)])"
  "createInvoiceSchema (createInvoiceBody invalidFields [lineOf (Some 1) (- 3)])
     = Inr (invalidFields, [lineOf (Some 1) (- 3)])"
  unfolding invalidBody_eq
  by (rule createInvoiceSchema_body;
      simp add: invoiceFits_def itemFits_def int32_def invalidFields_def invalidItems_def lineOf_def)+

lemma store_refusals_are_answered_400:
  "post_invoices noDate ''alice''
       (createInvoiceBody (invalidFields\<lparr>new_dueDate := Some (Date ''soon'')\<rparr>) []) shop
     = (Status 400 ''Failed to create invoice'', shop)
   \<and> post_invoices noDate ''alice'' (createInvoiceBody (invalidFields\<lparr>new_totalHT := ''abc''\<rparr>) []) shop
     = (Status 400 ''Failed to create invoice'', shop)
   \<and> post_invoices noDate ''mallory'' invalidBody shop = (Status 400 ''Failed to create invoice'', shop)
   \<and> post_invoices noDate ''alice'' (createInvoiceBody invalidFields [lineOf (Some 99) 1]) shop
     = (Status 400 ''Failed to create invoice'',
        shopState (Some 5) [insertInvoiceRow (withUserId invalidFields ''alice'') 1] [] [])
   \<and> post_invoices noDate ''alice''
       (createInvoiceBody invalidFields [lineOf (Some 1) (- 2147483648)]) shop
     = (Status 400 ''Failed to create invoice'',
        shopState (Some 5) [insertInvoiceRow (withUserId invalidFields ''alice'') 1]
          [\<lparr>productId = Some 1, productName = ''A'', quantity = - 2147483648, priceHT = ''1000.00'',
            totalHT = ''0.00'', invoiceId = 1, item_id = 1\<rparr>] [])
   \<and> put_invoices ''alice'' 1 (JObj [(''clientId'', JNum 99)]) pendingShop
     = (Status 400 ''Failed to update invoice'', pendingShop)"
proof -
  have n: "invoicePatchSchema (JObj [(''clientId'', JNum 99)]) = Inr ((statusPatch [])\<lparr>set_status := None, set_clientId := Some 99\<rparr>)"
    by (simp add: invoicePatchSchema_def zod_defs statusPatch_def)
  show ?thesis
    by (simp add: post_invoices_def put_invoices_def createInvoiceSchema_examples n Let_def)
       (simp add: tryCreateInvoice_def tryUpdateInvoice_def refusesInvoiceUpdate_def store_defs
        noDate_def takesDecimal_examples withUserId_def invalidFields_def invalidItems_def
        lineOf_def statusPatch_def example_defs storage_defs Let_def)
qed

text \<open>An item with a quantity of -3 is taken, and the stock of its product goes from 5 to 8.\<close>

lemma negative_quantity_is_taken:
  "map product_stock (products shop) = [Some 5, Some 2]
   \<and> fst (post_invoices noDate ''alice'' (createInvoiceBody invalidFields [lineOf (Some 1) (- 3)]) shop)
     = Json (insertInvoiceRow (withUserId invalidFields ''alice'') 1)
   \<and> map product_stock (products (snd (post_invoices noDate ''alice''
         (createInvoiceBody invalidFields [lineOf (Some 1) (- 3)]) shop))) = [Some 8, Some 2]"
  by (simp add: post_invoices_def createInvoiceSchema_examples Let_def)
     (simp add: tryCreateInvoice_def store_defs takesDecimal_examples withUserId_def
        invalidFields_def lineOf_def example_defs storage_defs Let_def)





section \<open>Updates and the owning tenant\<close>

lemma andThen_Inr_iff: "andThen r f = Inr y \<longleftrightarrow> (\<exists>x. r = Inr x \<and> f x = Inr y)"
  by (cases r) (simp_all add: andThen_def)

lemma zObject_Inr: "zObject j = Inr b \<Longrightarrow> b = j"
  by (cases j) (simp_all add: zObject_def)

lemma optional_zString_field:
  "optional zString (Some (JStr v)) = Inr x \<longleftrightarrow> x = Some v"
  by (auto simp: optional_def zString_def andThen_def)

lemma clientPatchSchema_userId:
  "clientPatchSchema body = Inr p \<Longrightarrow> fieldOf body ''userId'' = Some (JStr v) \<Longrightarrow> setc_userId p = Some v"
  by (auto simp: clientPatchSchema_def andThen_Inr_iff optional_zString_field dest!: zObject_Inr)

lemma categoryPatchSchema_userId:
  "categoryPatchSchema body = Inr p \<Longrightarrow> fieldOf body ''userId'' = Some (JStr v) \<Longrightarrow> setg_userId p = Some v"
  by (auto simp: categoryPatchSchema_def andThen_Inr_iff optional_zString_field dest!: zObject_Inr)

lemma productPatchSchema_userId:
  "productPatchSchema body = Inr p \<Longrightarrow> fieldOf body ''userId'' = Some (JStr v) \<Longrightarrow> setp_userId p = Some v"
  by (auto simp: productPatchSchema_def andThen_Inr_iff optional_zString_field dest!: zObject_Inr)

lemma invoicePatchSchema_userId:
  "invoicePatchSchema body = Inr p \<Longrightarrow> fieldOf body ''userId'' = Some (JStr v) \<Longrightarrow> set_userId p = Some v"
  by (auto simp: invoicePatchSchema_def andThen_Inr_iff optional_zString_field dest!: zObject_Inr)

lemma list_ex_nth: "i < length xs \<Longrightarrow> P (xs ! i) \<Longrightarrow> list_ex P xs"
  by (auto simp: list_ex_iff)

lemma put_clients_userId:
  assumes "clientPatchSchema body = Inr p" and "fieldOf body ''userId'' = Some (JStr v)"
    and "i < length (clients s)" and "client_id (clients s ! i) = ident"
    and "client_userId (clients s ! i) = u"
  shows "(v \<noteq> u \<and> \<not> userExists s v \<longrightarrow> refusesClientUpdate ident p u s)
       \<and> (if refusesClientUpdate ident p u s
          then put_clients u ident body s = (Status 400 ''Failed to update client'', s)
          else \<exists>r s'. put_clients u ident body s = (Json (Some r), s') \<and> client_id r = ident \<and>
                 client_userId r = v \<and> client_userId (clients s' ! i) = v \<and>
                 getClient ident v s' \<noteq> None)"
proof -
  let ?hit = "\<lambda>r. client_id r = ident \<and> client_userId r = u"
  let ?s' = "s\<lparr>clients := map (\<lambda>r. if ?hit r then applyClientPatch p r else r) (clients s)\<rparr>"
  have uid: "setc_userId p = Some v" using assms(1,2) by (rule clientPatchSchema_userId)
  then have ne: "\<not> clientPatchEmpty p" by (simp add: clientPatchEmpty_def)
  obtain r0 where r0: "firstRow (filter ?hit (clients s)) = Some r0" "?hit r0"
    using firstRow_filter_Some[of i "clients s" ?hit] assms(3,4,5) by auto
  have ex: "list_ex ?hit (clients s)"
    using list_ex_nth[of i "clients s" ?hit] assms(3,4,5) by simp
  have ref: "v \<noteq> u \<and> \<not> userExists s v \<longrightarrow> refusesClientUpdate ident p u s"
    using ex uid by (simp add: refusesClientUpdate_def)
  have upd: "updateClient ident p u s = Inr (Some (applyClientPatch p r0), ?s')"
    using ne r0(1) by (simp add: updateClient_def firstRow_map)
  have put: "if refusesClientUpdate ident p u s
          then put_clients u ident body s = (Status 400 ''Failed to update client'', s)
          else \<exists>r s'. put_clients u ident body s = (Json (Some r), s') \<and> client_id r = ident \<and>
                 client_userId r = v \<and> client_userId (clients s' ! i) = v \<and>
                 getClient ident v s' \<noteq> None"
  proof (cases "refusesClientUpdate ident p u s")
    case True
    then show ?thesis
      using assms(1) by (simp add: put_clients_def tryUpdateClient_def upd)
  next
    case False
    have put: "put_clients u ident body s = (Json (Some (applyClientPatch p r0)), ?s')"
      using assms(1) False by (simp add: put_clients_def tryUpdateClient_def upd)
    have row: "clients ?s' ! i = applyClientPatch p (clients s ! i)"
      using assms(3,4,5) by simp
    have f: "client_id (applyClientPatch p x) = client_id x \<and> client_userId (applyClientPatch p x) = v" for x
      using uid by (simp add: applyClientPatch_def)
    have "i < length (clients ?s')" using assms(3) by simp
    moreover have "client_id (clients ?s' ! i) = ident \<and> client_userId (clients ?s' ! i) = v"
      unfolding row using f assms(4) by simp
    ultimately have "getClient ident v ?s' \<noteq> None"
      unfolding getClient_def
      using firstRow_filter_Some[of i "clients ?s'" "\<lambda>r. client_id r = ident \<and> client_userId r = v"]
      by auto
    then have "\<exists>r s'. put_clients u ident body s = (Json (Some r), s') \<and> client_id r = ident \<and>
                 client_userId r = v \<and> client_userId (clients s' ! i) = v \<and>
                 getClient ident v s' \<noteq> None"
      using put row f r0(2) by (intro exI[of _ "applyClientPatch p r0"] exI[of _ ?s']) simp
    then show ?thesis using False by simp
  qed
  show ?thesis using ref put by blast
qed

lemma put_categories_userId:
  assumes "categoryPatchSchema body = Inr p" and "fieldOf body ''userId'' = Some (JStr v)"
    and "i < length (categories s)" and "category_id (categories s ! i) = ident"
    and "category_userId (categories s ! i) = u"
  shows "(v \<noteq> u \<and> \<not> userExists s v \<longrightarrow> refusesCategoryUpdate ident p u s)
       \<and> (if refusesCategoryUpdate ident p u s
          then put_categories u ident body s = (Status 400 ''Failed to update category'', s)
          else \<exists>r s'. put_categories u ident body s = (Json (Some r), s') \<and> category_id r = ident \<and>
                 category_userId r = v \<and> category_userId (categories s' ! i) = v \<and>
                 getCategory ident v s' \<noteq> None)"
proof -
  let ?hit = "\<lambda>r. category_id r = ident \<and> category_userId r = u"
  let ?s' = "s\<lparr>categories := map (\<lambda>r. if ?hit r then applyCategoryPatch p r else r) (categories s)\<rparr>"
  have uid: "setg_userId p = Some v" using assms(1,2) by (rule categoryPatchSchema_userId)
  then have ne: "\<not> categoryPatchEmpty p" by (simp add: categoryPatchEmpty_def)
  obtain r0 where r0: "firstRow (filter ?hit (categories s)) = Some r0" "?hit r0"
    using firstRow_filter_Some[of i "categories s" ?hit] assms(3,4,5) by auto
  have ex: "list_ex ?hit (categories s)"
    using list_ex_nth[of i "categories s" ?hit] assms(3,4,5) by simp
  have ref: "v \<noteq> u \<and> \<not> userExists s v \<longrightarrow> refusesCategoryUpdate ident p u s"
    using ex uid by (simp add: refusesCategoryUpdate_def)
  have upd: "updateCategory ident p u s = Inr (Some (applyCategoryPatch p r0), ?s')"
    using ne r0(1) by (simp add: updateCategory_def firstRow_map)
  have put: "if refusesCategoryUpdate ident p u s
          then put_categories u ident body s = (Status 400 ''Failed to update category'', s)
          else \<exists>r s'. put_categories u ident body s = (Json (Some r), s') \<and> category_id r = ident \<and>
                 category_userId r = v \<and> category_userId (categories s' ! i) = v \<and>
                 getCategory ident v s' \<noteq> None"
  proof (cases "refusesCategoryUpdate ident p u s")
    case True
    then show ?thesis
      using assms(1) by (simp add: put_categories_def tryUpdateCategory_def upd)
  next
    case False
    have put: "put_categories u ident body s = (Json (Some (applyCategoryPatch p r0)), ?s')"
      using assms(1) False by (simp add: put_categories_def tryUpdateCategory_def upd)
    have row: "categories ?s' ! i = applyCategoryPatch p (categories s ! i)"
      using assms(3,4,5) by simp
    have f: "category_id (applyCategoryPatch p x) = category_id x \<and> category_userId (applyCategoryPatch p x) = v" for x
      using uid by (simp add: applyCategoryPatch_def)
    have "i < length (categories ?s')" using assms(3) by simp
    moreover have "category_id (categories ?s' ! i) = ident \<and> category_userId (categories ?s' ! i) = v"
      unfolding row using f assms(4) by simp
    ultimately have "getCategory ident v ?s' \<noteq> None"
      unfolding getCategory_def
      using firstRow_filter_Some[of i "categories ?s'" "\<lambda>r. category_id r = ident \<and> category_userId r = v"]
      by auto
    then have "\<exists>r s'. put_categories u ident body s = (Json (Some r), s') \<and> category_id r = ident \<and>
                 category_userId r = v \<and> category_userId (categories s' ! i) = v \<and>
                 getCategory ident v s' \<noteq> None"
      using put row f r0(2) by (intro exI[of _ "applyCategoryPatch p r0"] exI[of _ ?s']) simp
    then show ?thesis using False by simp
  qed
  show ?thesis using ref put by blast
qed

lemma put_products_userId:
  assumes "productPatchSchema body = Inr p" and "fieldOf body ''userId'' = Some (JStr v)"
    and "i < length (products s)" and "product_id (products s ! i) = ident"
    and "product_userId (products s ! i) = u"
  shows "(v \<noteq> u \<and> \<not> userExists s v \<longrightarrow> refusesProductUpdate ident p u s)
       \<and> (if refusesProductUpdate ident p u s
          then put_products u ident body s = (Status 400 ''Failed to update product'', s)
          else \<exists>r s'. put_products u ident body s = (Json (Some r), s') \<and> product_id r = ident \<and>
                 product_userId r = v \<and> product_userId (products s' ! i) = v \<and>
                 getProduct ident v s' \<noteq> None)"
proof -
  let ?hit = "\<lambda>r. product_id r = ident \<and> product_userId r = u"
  let ?s' = "s\<lparr>products := map (\<lambda>r. if ?hit r then applyProductPatch p r else r) (products s)\<rparr>"
  have uid: "setp_userId p = Some v" using assms(1,2) by (rule productPatchSchema_userId)
  then have ne: "\<not> productPatchEmpty p" by (simp add: productPatchEmpty_def)
  obtain r0 where r0: "firstRow (filter ?hit (products s)) = Some r0" "?hit r0"
    using firstRow_filter_Some[of i "products s" ?hit] assms(3,4,5) by auto
  have ex: "list_ex ?hit (products s)"
    using list_ex_nth[of i "products s" ?hit] assms(3,4,5) by simp
  have ref: "v \<noteq> u \<and> \<not> userExists s v \<longrightarrow> refusesProductUpdate ident p u s"
    using ex uid by (simp add: refusesProductUpdate_def)
  have upd: "updateProduct ident p u s = Inr (Some (applyProductPatch p r0), ?s')"
    using ne r0(1) by (simp add: updateProduct_def firstRow_map)
  have put: "if refusesProductUpdate ident p u s
          then put_products u ident body s = (Status 400 ''Failed to update product'', s)
          else \<exists>r s'. put_products u ident body s = (Json (Some r), s') \<and> product_id r = ident \<and>
                 product_userId r = v \<and> product_userId (products s' ! i) = v \<and>
                 getProduct ident v s' \<noteq> None"
  proof (cases "refusesProductUpdate ident p u s")
    case True
    then show ?thesis
      using assms(1) by (simp add: put_products_def tryUpdateProduct_def upd)
  next
    case False
    have put: "put_products u ident body s = (Json (Some (applyProductPatch p r0)), ?s')"
      using assms(1) False by (simp add: put_products_def tryUpdateProduct_def upd)
    have row: "products ?s' ! i = applyProductPatch p (products s ! i)"
      using assms(3,4,5) by simp
    have f: "product_id (applyProductPatch p x) = product_id x \<and> product_userId (applyProductPatch p x) = v" for x
      using uid by (simp add: applyProductPatch_def)
    have "i < length (products ?s')" using assms(3) by simp
    moreover have "product_id (products ?s' ! i) = ident \<and> product_userId (products ?s' ! i) = v"
      unfolding row using f assms(4) by simp
    ultimately have "getProduct ident v ?s' \<noteq> None"
      unfolding getProduct_def
      using firstRow_filter_Some[of i "products ?s'" "\<lambda>r. product_id r = ident \<and> product_userId r = v"]
      by auto
    then have "\<exists>r s'. put_products u ident body s = (Json (Some r), s') \<and> product_id r = ident \<and>
                 product_userId r = v \<and> product_userId (products s' ! i) = v \<and>
                 getProduct ident v s' \<noteq> None"
      using put row f r0(2) by (intro exI[of _ "applyProductPatch p r0"] exI[of _ ?s']) simp
    then show ?thesis using False by simp
  qed
  show ?thesis using ref put by blast
qed

lemma invoices_tryUpdateInvoice:
  assumes "\<not> invoicePatchEmpty p" and "\<not> refusesInvoiceUpdate ident p u s"
  shows "invoices (snd (tryUpdateInvoice ident p u s)) =
           map (\<lambda>r. if invoice_id r = ident \<and> invoice_userId r = u then applyInvoicePatch p r else r)
             (invoices s)"
proof -
  have "invoices (snd (tryCreateSalesFromInvoice ident u s)) = invoices s"
    by (simp add: tryCreateSalesFromInvoice_def Let_def createSalesFromInvoice_def split: prod.split)
  then show ?thesis
    using tryUpdateInvoice_cases[OF assms(1), of ident u s] assms(2) by auto
qed

lemma put_invoices_userId:
  assumes "invoicePatchSchema body = Inr p" and "fieldOf body ''userId'' = Some (JStr v)"
    and "i < length (invoices s)" and "invoice_id (invoices s ! i) = ident"
    and "invoice_userId (invoices s ! i) = u"
  shows "(v \<noteq> u \<and> \<not> userExists s v \<longrightarrow> refusesInvoiceUpdate ident p u s)
       \<and> (if refusesInvoiceUpdate ident p u s
          then put_invoices u ident body s = (Status 400 ''Failed to update invoice'', s)
          else invoice_userId (invoices (snd (put_invoices u ident body s)) ! i) = v \<and>
               getInvoice ident v (snd (put_invoices u ident body s)) \<noteq> None \<and>
               (settles p (getInvoice ident u s) \<or>
                (\<exists>r. fst (put_invoices u ident body s) = Json (Some r) \<and> invoice_id r = ident \<and>
                     invoice_userId r = v)))"
proof -
  let ?hit = "\<lambda>r. invoice_id r = ident \<and> invoice_userId r = u"
  let ?upd = "map (\<lambda>r. if ?hit r then applyInvoicePatch p r else r) (invoices s)"
  have uid: "set_userId p = Some v" using assms(1,2) by (rule invoicePatchSchema_userId)
  then have ne: "\<not> invoicePatchEmpty p" by (simp add: invoicePatchEmpty_def)
  obtain r0 where r0: "firstRow (filter ?hit (invoices s)) = Some r0" "?hit r0"
    using firstRow_filter_Some[of i "invoices s" ?hit] assms(3,4,5) by auto
  have ex: "list_ex ?hit (invoices s)"
    using list_ex_nth[of i "invoices s" ?hit] assms(3,4,5) by simp
  have ref: "v \<noteq> u \<and> \<not> userExists s v \<longrightarrow> refusesInvoiceUpdate ident p u s"
    using ex uid by (simp add: refusesInvoiceUpdate_def)
  have f: "invoice_id (applyInvoicePatch p x) = invoice_id x \<and> invoice_userId (applyInvoicePatch p x) = v" for x
    using uid by (simp add: applyInvoicePatch_def)
  define s1 where "s1 = (if settles p (getInvoice ident u s) then createSalesFromInvoice ident u s else s)
                           \<lparr>invoices := ?upd\<rparr>"
  have upd: "updateInvoice ident p u s = Inr (Some (applyInvoicePatch p r0), s1)"
    using ne r0(1) unfolding s1_def
    by (simp add: updateInvoice_def Let_def firstRow_map createSalesFromInvoice_invoices)
  have put: "if refusesInvoiceUpdate ident p u s
          then put_invoices u ident body s = (Status 400 ''Failed to update invoice'', s)
          else invoice_userId (invoices (snd (put_invoices u ident body s)) ! i) = v \<and>
               getInvoice ident v (snd (put_invoices u ident body s)) \<noteq> None \<and>
               (settles p (getInvoice ident u s) \<or>
                (\<exists>r. fst (put_invoices u ident body s) = Json (Some r) \<and> invoice_id r = ident \<and>
                     invoice_userId r = v))"
  proof (cases "refusesInvoiceUpdate ident p u s")
    case True
    then show ?thesis
      using assms(1) by (simp add: put_invoices_def tryUpdateInvoice_def upd)
  next
    case False
    have sn: "snd (put_invoices u ident body s) = snd (tryUpdateInvoice ident p u s)"
      using assms(1) by (simp add: put_invoices_def split: prod.split sum.split)
    have inv: "invoices (snd (put_invoices u ident body s)) = ?upd"
      unfolding sn by (rule invoices_tryUpdateInvoice[OF ne False])
    have row: "invoices (snd (put_invoices u ident body s)) ! i = applyInvoicePatch p (invoices s ! i)"
      unfolding inv using assms(3,4,5) by simp
    have a: "invoice_userId (invoices (snd (put_invoices u ident body s)) ! i) = v"
      unfolding row using f by simp
    have "i < length (invoices (snd (put_invoices u ident body s)))"
      unfolding inv using assms(3) by simp
    moreover have "invoice_id (invoices (snd (put_invoices u ident body s)) ! i) = ident \<and>
        invoice_userId (invoices (snd (put_invoices u ident body s)) ! i) = v"
      unfolding row using f assms(4) by simp
    ultimately have b: "getInvoice ident v (snd (put_invoices u ident body s)) \<noteq> None"
      unfolding getInvoice_def
      using firstRow_filter_Some[of i "invoices (snd (put_invoices u ident body s))"
          "\<lambda>r. invoice_id r = ident \<and> invoice_userId r = v"]
      by auto
    have c: "settles p (getInvoice ident u s) \<or>
                (\<exists>r. fst (put_invoices u ident body s) = Json (Some r) \<and> invoice_id r = ident \<and>
                     invoice_userId r = v)"
    proof (cases "settles p (getInvoice ident u s)")
      case True
      then show ?thesis by simp
    next
      case ns: False
      have "fst (put_invoices u ident body s) = Json (Some (applyInvoicePatch p r0))"
        using assms(1) False ns by (simp add: put_invoices_def tryUpdateInvoice_def upd)
      then show ?thesis using f r0(2) by simp
    qed
    show ?thesis using False a b c by simp
  qed
  show ?thesis using ref put by blast
qed

text \<open>
  Claim C10, as stated, fails. The column \<^verbatim>\<open>user_id\<close> of the four tables refers to the
  table of users. A patch whose \<^verbatim>\<open>userId\<close> is the id of no user is refused by the store:
  the route answers with status 400 and the row keeps its owner.
\<close>

theorem reassignment_to_unknown_user_is_refused:
  "users pendingShop = [''alice'', ''bob'']
   \<and> put_clients ''alice'' 1 (JObj [(''userId'', JStr ''mallory'')]) pendingShop
       = (Status 400 ''Failed to update client'', pendingShop)
   \<and> put_products ''alice'' 1 (JObj [(''userId'', JStr ''mallory'')]) pendingShop
       = (Status 400 ''Failed to update product'', pendingShop)
   \<and> put_categories ''alice'' 1 (JObj [(''userId'', JStr ''mallory'')]) pendingShop
       = (Status 400 ''Failed to update category'', pendingShop)
   \<and> put_invoices ''alice'' 1 (JObj [(''userId'', JStr ''mallory'')]) pendingShop
       = (Status 400 ''Failed to update invoice'', pendingShop)
   \<and> map client_userId (clients pendingShop) = [''alice'']
   \<and> map product_userId (products pendingShop) = [''alice'', ''alice'']
   \<and> map category_userId (categories pendingShop) = [''alice'']
   \<and> map invoice_userId (invoices pendingShop) = [''alice'']"
proof -
  let ?body = "JObj [(''userId'', JStr ''mallory'')]"
  have c: "clientPatchSchema ?body = Inr \<lparr>setc_name = None, setc_email = None, setc_phone = None,
             setc_address = None, setc_company = None, setc_userId = Some ''mallory''\<rparr>"
    by (simp add: clientPatchSchema_def zod_defs)
  have p: "productPatchSchema ?body = Inr \<lparr>setp_name = None, setp_description = None,
             setp_priceHT = None, setp_stock = None, setp_categoryId = None,
             setp_userId = Some ''mallory''\<rparr>"
    by (simp add: productPatchSchema_def zod_defs)
  have g: "categoryPatchSchema ?body = Inr \<lparr>setg_name = None, setg_description = None,
             setg_userId = Some ''mallory''\<rparr>"
    by (simp add: categoryPatchSchema_def zod_defs)
  have n: "invoicePatchSchema ?body = Inr ((statusPatch [])\<lparr>set_status := None, set_userId := Some ''mallory''\<rparr>)"
    by (simp add: invoicePatchSchema_def zod_defs statusPatch_def)
  show ?thesis
    by (simp add: put_clients_def put_products_def put_categories_def put_invoices_def c p g n
        tryUpdateClient_def tryUpdateProduct_def tryUpdateCategory_def tryUpdateInvoice_def
        updateClient_def updateProduct_def updateCategory_def updateInvoice_def
        clientPatchEmpty_def productPatchEmpty_def categoryPatchEmpty_def invoicePatchEmpty_def
        refusesClientUpdate_def refusesProductUpdate_def refusesCategoryUpdate_def
        refusesInvoiceUpdate_def store_defs statusPatch_def Let_def)
       (simp add: example_defs)
qed

text \<open>
  Claim C10, amended. The four update routes keep \<^verbatim>\<open>userId\<close> in their schema. Take a
  body that carries a string \<open>v\<close> under \<^verbatim>\<open>userId\<close> and passes the schema, and a row with
  the requested id that belongs to the caller. When the store takes the update, the row
  is stored with \<^verbatim>\<open>userId\<close> equal to \<open>v\<close> and tenant \<open>v\<close> finds a row under that id from
  then on; when the store refuses it, the route answers with status 400 and the store is
  unchanged. The store refuses the update when \<open>v\<close> is neither the caller nor the id of a
  user.
\<close>

theorem update_reassigns_to_existing_user:
  assumes "fieldOf body ''userId'' = Some (JStr v)"
  shows "(clientPatchSchema body = Inr pc \<and> i < length (clients s) \<and>
          client_id (clients s ! i) = ident \<and> client_userId (clients s ! i) = u \<longrightarrow>
          (v \<noteq> u \<and> \<not> userExists s v \<longrightarrow> refusesClientUpdate ident pc u s) \<and>
          (if refusesClientUpdate ident pc u s
           then put_clients u ident body s = (Status 400 ''Failed to update client'', s)
           else \<exists>r s'. put_clients u ident body s = (Json (Some r), s') \<and> client_id r = ident \<and>
                  client_userId r = v \<and> client_userId (clients s' ! i) = v \<and>
                  getClient ident v s' \<noteq> None))
     \<and> (categoryPatchSchema body = Inr pg \<and> i < length (categories s) \<and>
          category_id (categories s ! i) = ident \<and> category_userId (categories s ! i) = u \<longrightarrow>
          (v \<noteq> u \<and> \<not> userExists s v \<longrightarrow> refusesCategoryUpdate ident pg u s) \<and>
          (if refusesCategoryUpdate ident pg u s
           then put_categories u ident body s = (Status 400 ''Failed to update category'', s)
           else \<exists>r s'. put_categories u ident body s = (Json (Some r), s') \<and> category_id r = ident \<and>
                  category_userId r = v \<and> category_userId (categories s' ! i) = v \<and>
                  getCategory ident v s' \<noteq> None))
     \<and> (productPatchSchema body = Inr pp \<and> i < length (products s) \<and>
          product_id (products s ! i) = ident \<and> product_userId (products s ! i) = u \<longrightarrow>
          (v \<noteq> u \<and> \<not> userExists s v \<longrightarrow> refusesProductUpdate ident pp u s) \<and>
          (if refusesProductUpdate ident pp u s
           then put_products u ident body s = (Status 400 ''Failed to update product'', s)
           else \<exists>r s'. put_products u ident body s = (Json (Some r), s') \<and> product_id r = ident \<and>
                  product_userId r = v \<and> product_userId (products s' ! i) = v \<and>
                  getProduct ident v s' \<noteq> None))
     \<and> (invoicePatchSchema body = Inr pv \<and> i < length (invoices s) \<and>
          invoice_id (invoices s ! i) = ident \<and> invoice_userId (invoices s ! i) = u \<longrightarrow>
          (v \<noteq> u \<and> \<not> userExists s v \<longrightarrow> refusesInvoiceUpdate ident pv u s) \<and>
          (if refusesInvoiceUpdate ident pv u s
           then put_invoices u ident body s = (Status 400 ''Failed to update invoice'', s)
           else invoice_userId (invoices (snd (put_invoices u ident body s)) ! i) = v \<and>
                getInvoice ident v (snd (put_invoices u ident body s)) \<noteq> None \<and>
                (settles pv (getInvoice ident u s) \<or>
                 (\<exists>r. fst (put_invoices u ident body s) = Json (Some r) \<and> invoice_id r = ident \<and>
                      invoice_userId r = v))))"
  using put_clients_userId[OF _ assms, of pc i s ident u]
    put_categories_userId[OF _ assms, of pg i s ident u]
    put_products_userId[OF _ assms, of pp i s ident u]
    put_invoices_userId[OF _ assms, of pv i s ident u]
  by blast

theorem update_reassigns_to_existing_user_witness:
  "fieldOf (JObj [(''userId'', JStr ''bob'')]) ''userId'' = Some (JStr ''bob'')
   \<and> userExists pendingShop ''bob''
   \<and> (\<exists>r s'. put_clients ''alice'' 1 (JObj [(''userId'', JStr ''bob'')]) pendingShop = (Json (Some r), s')
         \<and> client_userId r = ''bob'' \<and> getClient 1 ''bob'' s' \<noteq> None)
   \<and> (\<exists>r s'. put_categories ''alice'' 1 (JObj [(''userId'', JStr ''bob'')]) pendingShop = (Json (Some r), s')
         \<and> category_userId r = ''bob'' \<and> getCategory 1 ''bob'' s' \<noteq> None)
   \<and> (\<exists>r s'. put_products ''alice'' 1 (JObj [(''userId'', JStr ''bob'')]) pendingShop = (Json (Some r), s')
         \<and> product_userId r = ''bob'' \<and> getProduct 1 ''bob'' s' \<noteq> None)
   \<and> (\<exists>r. fst (put_invoices ''alice'' 1 (JObj [(''userId'', JStr ''bob'')]) pendingShop) = Json (Some r)
         \<and> invoice_userId r = ''bob'')
   \<and> getInvoice 1 ''bob'' (snd (put_invoices ''alice'' 1 (JObj [(''userId'', JStr ''bob'')]) pendingShop)) \<noteq> None"
proof -
  let ?body = "JObj [(''userId'', JStr ''bob'')]"
  let ?pp = "\<lparr>setp_name = None, setp_description = None,
             setp_priceHT = None, setp_stock = None, setp_categoryId = None,
             setp_userId = Some ''bob''\<rparr>"
  let ?pv = "(statusPatch [])\<lparr>set_status := None, set_userId := Some ''bob''\<rparr>"
  let ?pc = "\<lparr>setc_name = None, setc_email = None, setc_phone = None,
             setc_address = None, setc_company = None, setc_userId = Some ''bob''\<rparr>"
  let ?pg = "\<lparr>setg_name = None, setg_description = None, setg_userId = Some ''bob''\<rparr>"
  have f: "fieldOf ?body ''userId'' = Some (JStr ''bob'')" by (simp add: fieldOf_def)
  have c: "clientPatchSchema ?body = Inr ?pc"
    by (simp add: clientPatchSchema_def zod_defs)
  have p: "productPatchSchema ?body = Inr ?pp"
    by (simp add: productPatchSchema_def zod_defs)
  have g: "categoryPatchSchema ?body = Inr ?pg"
    by (simp add: categoryPatchSchema_def zod_defs)
  have n: "invoicePatchSchema ?body = Inr ?pv"
    by (simp add: invoicePatchSchema_def zod_defs statusPatch_def)
  have rows: "0 < length (clients pendingShop)" "client_id (clients pendingShop ! 0) = 1"
    "client_userId (clients pendingShop ! 0) = ''alice''"
    "0 < length (products pendingShop)" "product_id (products pendingShop ! 0) = 1"
    "product_userId (products pendingShop ! 0) = ''alice''"
    "0 < length (categories pendingShop)" "category_id (categories pendingShop ! 0) = 1"
    "category_userId (categories pendingShop ! 0) = ''alice''"
    "0 < length (invoices pendingShop)" "invoice_id (invoices pendingShop ! 0) = 1"
    "invoice_userId (invoices pendingShop ! 0) = ''alice''"
    by (simp_all add: example_defs)
  have bob: "userExists pendingShop ''bob''" by (simp add: userExists_def example_defs)
  have store: "\<not> refusesClientUpdate 1 ?pc ''alice'' pendingShop"
    "\<not> refusesCategoryUpdate 1 ?pg ''alice'' pendingShop"
    "\<not> refusesProductUpdate 1 ?pp ''alice'' pendingShop"
    "\<not> refusesInvoiceUpdate 1 ?pv ''alice'' pendingShop"
    "\<not> settles ?pv (getInvoice 1 ''alice'' pendingShop)"
    using bob by (simp_all add: refusesClientUpdate_def refusesCategoryUpdate_def
        refusesProductUpdate_def refusesInvoiceUpdate_def statusPatch_def settles_def
        badText_def badNullableText_def badDecimal_def takesText_def)
  from update_reassigns_to_existing_user[OF f, where i = 0 and s = pendingShop and ident = 1
      and u = "''alice''" and pp = ?pp and pv = ?pv and pc = ?pc and pg = ?pg]
  show ?thesis
    using f c p g n rows bob store by auto
qed


section \<open>Invoice deletion\<close>

text \<open>
  Claim C9. Deleting an invoice is the composition of three deletes: first the sales that
  reference it, then its invoice items, then the invoice row of the calling tenant.
  Afterwards no sale and no item references the invoice id, looking the invoice up (alone
  or with its items) finds nothing, and the product table, stock included, is what it was.
\<close>

theorem deleteInvoice_cascade:
  "deleteInvoice ident userId s = deleteInvoiceRow ident userId (deleteItemsOf ident (deleteSalesOf ident s))
   \<and> filter (\<lambda>r. sale_invoiceId r = ident) (sales (deleteInvoice ident userId s)) = []
   \<and> filter (\<lambda>r. invoiceId r = ident) (invoiceItems (deleteInvoice ident userId s)) = []
   \<and> getInvoice ident userId (deleteInvoice ident userId s) = None
   \<and> getInvoiceWithItems ident userId (deleteInvoice ident userId s) = None
   \<and> products (deleteInvoice ident userId s) = products s"
proof -
  have inv: "getInvoice ident userId (deleteInvoice ident userId s) = None"
    by (simp add: getInvoice_def deleteInvoice_def deleteInvoiceRow_def deleteItemsOf_def
        deleteSalesOf_def firstRow_None_iff filter_empty_conv)
  have sl: "filter (\<lambda>r. sale_invoiceId r = ident) (sales (deleteInvoice ident userId s)) = []"
    by (simp add: deleteInvoice_def deleteInvoiceRow_def deleteItemsOf_def deleteSalesOf_def
        filter_empty_conv)
  have it: "filter (\<lambda>r. invoiceId r = ident) (invoiceItems (deleteInvoice ident userId s)) = []"
    by (simp add: deleteInvoice_def deleteInvoiceRow_def deleteItemsOf_def deleteSalesOf_def
        filter_empty_conv)
  have pr: "products (deleteInvoice ident userId s) = products s"
    by (simp add: deleteInvoice_def deleteInvoiceRow_def deleteItemsOf_def deleteSalesOf_def)
  show ?thesis
    using inv sl it pr by (simp add: getInvoiceWithItems_def deleteInvoice_def)
qed

end
